theory Spec2Isabelle
  imports Complex_Main
begin

section \<open>Numbers, errors and the host's \<open>Math\<close> object\<close>

text \<open>
  A JavaScript number is modelled as a real, and every arithmetic step on reals is
  exact. A field or a value that the code can make \<open>NaN\<close> has the type \<open>num\<close>, a real
  or \<open>NaN\<close> (\<open>None\<close>); the infinities appear only as the quotient of a division by
  zero, where the function that divides says what becomes of them. The two circle
  tests of \<open>MathUtils\<close> and the loops of \<open>normalizeAngle\<close> are compared at the
  precision of the host and have a binary64 model (subsection binary64 below). \<open>null\<close>
  and \<open>undefined\<close> are \<open>None\<close>; reading a property of either throws \<open>TypeError\<close>.
  \<open>Math.random()\<close> and \<open>Date.now()\<close> are arguments of the function that calls them:
  the values the host hands out during the call.
\<close>

datatype js_error = TypeError | Error string

text \<open>Two steps in sequence, the second skipped when the first throws.\<close>

definition and_then :: "js_error + 'a \<Rightarrow> ('a \<Rightarrow> js_error + 'b) \<Rightarrow> js_error + 'b" where
  "and_then r f = (case r of Inl e \<Rightarrow> Inl e | Inr v \<Rightarrow> f v)"

definition Math_round :: "real \<Rightarrow> real" where
  "Math_round v = of_int \<lfloor>v + 1 / 2\<rfloor>"

definition Math_atan2 :: "real \<Rightarrow> real \<Rightarrow> real" where
  "Math_atan2 b a =
     (if 0 < a then arctan (b / a)
      else if a < 0 \<and> 0 \<le> b then arctan (b / a) + pi
      else if a < 0 then arctan (b / a) - pi
      else if 0 < b then pi / 2
      else if b < 0 then - (pi / 2)
      else 0)"

text \<open>\<open>v || d\<close> on an optional number: an absent, zero (or NaN) value gives the default.\<close>

definition or_num :: "real option \<Rightarrow> real \<Rightarrow> real" where
  "or_num v d = (case v of None \<Rightarrow> d | Some n \<Rightarrow> if n = 0 then d else n)"

text \<open>\<open>v || d\<close> on an optional string: absent or empty gives the default.\<close>

definition or_str :: "string option \<Rightarrow> string \<Rightarrow> string" where
  "or_str v d = (case v of None \<Rightarrow> d | Some s \<Rightarrow> if s = [] then d else s)"

subsection \<open>Numbers that may be \<open>NaN\<close>\<close>

text \<open>
  \<open>None\<close> is \<open>NaN\<close>. An arithmetic operation with a \<open>NaN\<close> operand gives \<open>NaN\<close>
  (\<open>map_option\<close> for one operand, \<open>num2\<close> for two); a comparison with a \<open>NaN\<close>
  operand is false.
\<close>

type_synonym num = "real option"

definition num2 :: "(real \<Rightarrow> real \<Rightarrow> real) \<Rightarrow> num \<Rightarrow> num \<Rightarrow> num" where
  "num2 f a b = (case (a, b) of (Some u, Some v) \<Rightarrow> Some (f u v) | _ \<Rightarrow> None)"

definition num_less :: "num \<Rightarrow> num \<Rightarrow> bool" where
  "num_less a b = (case (a, b) of (Some u, Some v) \<Rightarrow> u < v | _ \<Rightarrow> False)"

definition num_le :: "num \<Rightarrow> num \<Rightarrow> bool" where
  "num_le a b = (case (a, b) of (Some u, Some v) \<Rightarrow> u \<le> v | _ \<Rightarrow> False)"

text \<open>An \<open>{x, y}\<close> object whose coordinates may be \<open>NaN\<close>.\<close>

record NumVector2 =
  num_x :: num
  num_y :: num

subsection \<open>binary64\<close>

text \<open>
  A finite binary64 number is a rational. \<open>fl64\<close> rounds a rational to the nearest
  number with a 53-bit significand, ties to even, with the subnormal spacing below
  \<open>2\<^sup>-\<^sup>1\<^sup>0\<^sup>2\<^sup>2\<close> and no bound on the exponent above; \<open>round64\<close> is the rounding of IEEE
  754, which overflows to an infinity from \<open>2\<^sup>1\<^sup>0\<^sup>2\<^sup>4\<close> on. \<open>bitlen n\<close> is the number of
  binary digits of \<open>n\<close>, \<open>expo q\<close> is \<open>\<lfloor>log\<^sub>2 q\<rfloor>\<close> for \<open>q > 0\<close>. The sign of a zero is
  not kept: no operation below tells the two zeros apart.
\<close>

function bitlen :: "int \<Rightarrow> int" where
  "bitlen n = (if n \<le> 0 then 0 else 1 + bitlen (n div 2))"
  by pat_completeness auto
termination
  by (relation "measure nat") auto

declare bitlen.simps [simp del]

definition pow2 :: "int \<Rightarrow> rat" where
  "pow2 e = (if 0 \<le> e then 2 ^ nat e else 1 / 2 ^ nat (- e))"

definition expo :: "rat \<Rightarrow> int" where
  "expo q = (if 1 \<le> q then bitlen \<lfloor>q\<rfloor> - 1
             else - bitlen (\<lceil>1 / q\<rceil> - 1))"

definition rne :: "rat \<Rightarrow> int" where
  "rne r = (let f = \<lfloor>r\<rfloor>; d = r - of_int f in
            if d < 1 / 2 then f else if 1 / 2 < d then f + 1
            else if even f then f else f + 1)"

definition fl64 :: "rat \<Rightarrow> rat" where
  "fl64 q = (if q = 0 then 0
             else let u = pow2 (max (expo \<bar>q\<bar>) (- 1022) - 52)
                  in sgn q * of_int (rne (\<bar>q\<bar> / u)) * u)"

datatype f64 = Fin rat | PInf | NInf | NotANumber

definition round64 :: "rat \<Rightarrow> f64" where
  "round64 q = (let r = fl64 q
                in if 2 ^ 1024 \<le> \<bar>r\<bar> then (if 0 < r then PInf else NInf) else Fin r)"

fun f64_neg :: "f64 \<Rightarrow> f64" where
  "f64_neg (Fin q) = Fin (- q)"
| "f64_neg PInf = NInf"
| "f64_neg NInf = PInf"
| "f64_neg NotANumber = NotANumber"

fun f64_add :: "f64 \<Rightarrow> f64 \<Rightarrow> f64" where
  "f64_add (Fin p) (Fin q) = round64 (p + q)"
| "f64_add NotANumber _ = NotANumber"
| "f64_add _ NotANumber = NotANumber"
| "f64_add PInf NInf = NotANumber"
| "f64_add NInf PInf = NotANumber"
| "f64_add PInf _ = PInf"
| "f64_add NInf _ = NInf"
| "f64_add _ PInf = PInf"
| "f64_add _ NInf = NInf"

definition f64_sub :: "f64 \<Rightarrow> f64 \<Rightarrow> f64" where
  "f64_sub a b = f64_add a (f64_neg b)"

definition f64_sign :: "f64 \<Rightarrow> rat" where
  "f64_sign a = (case a of Fin q \<Rightarrow> sgn q | PInf \<Rightarrow> 1 | NInf \<Rightarrow> - 1 | NotANumber \<Rightarrow> 0)"

text \<open>A product with an infinite factor: \<open>NaN\<close> if the other factor is zero.\<close>

fun f64_mul :: "f64 \<Rightarrow> f64 \<Rightarrow> f64" where
  "f64_mul (Fin p) (Fin q) = round64 (p * q)"
| "f64_mul NotANumber _ = NotANumber"
| "f64_mul _ NotANumber = NotANumber"
| "f64_mul a b = (if f64_sign a * f64_sign b = 0 then NotANumber
                  else if 0 < f64_sign a * f64_sign b then PInf else NInf)"

text \<open>
  \<open>Math.sqrt\<close> is the correctly rounded square root. \<open>isqrt n\<close> is \<open>\<lfloor>\<surd>n\<rfloor>\<close>, found by
  bisection. For a positive binary64 number \<open>q\<close> the root lies in the normal range:
  with \<open>u\<close> the spacing of the binary64 numbers around it, \<open>m = \<lfloor>\<surd>q / u\<rfloor>\<close> has 53
  bits, and the root is rounded to \<open>m u\<close> or \<open>(m + 1) u\<close> by comparing \<open>q / u\<^sup>2\<close> with
  \<open>(m + 1/2)\<^sup>2\<close>.
\<close>

function sqrt_search :: "nat \<Rightarrow> nat \<Rightarrow> nat \<Rightarrow> nat" where
  "sqrt_search lo hi n =
     (if hi \<le> Suc lo then lo
      else let mid = (lo + hi) div 2
           in if mid * mid \<le> n then sqrt_search mid hi n else sqrt_search lo mid n)"
  by pat_completeness auto
termination
  by (relation "measure (\<lambda>(lo, hi, n). hi - lo)") auto

declare sqrt_search.simps [simp del]

definition isqrt :: "nat \<Rightarrow> nat" where
  "isqrt n = sqrt_search 0 (Suc n) n"

definition sqrt64 :: "rat \<Rightarrow> rat" where
  "sqrt64 q =
     (let u = pow2 (expo q div 2 - 52);
          t = q / (u * u);
          m = int (isqrt (nat \<lfloor>t\<rfloor>));
          h = of_int (m * m + m) + 1 / 4
      in of_int (if t < h then m else if h < t then m + 1
                 else if even m then m else m + 1) * u)"

fun f64_sqrt :: "f64 \<Rightarrow> f64" where
  "f64_sqrt (Fin q) = (if q < 0 then NotANumber else if q = 0 then Fin 0 else Fin (sqrt64 q))"
| "f64_sqrt PInf = PInf"
| "f64_sqrt NInf = NotANumber"
| "f64_sqrt NotANumber = NotANumber"

text \<open>\<open>a <= b\<close>.\<close>

fun f64_le :: "f64 \<Rightarrow> f64 \<Rightarrow> bool" where
  "f64_le (Fin p) (Fin q) = (p \<le> q)"
| "f64_le NotANumber _ = False"
| "f64_le _ NotANumber = False"
| "f64_le NInf _ = True"
| "f64_le _ PInf = True"
| "f64_le _ _ = False"

section \<open>MathUtils\<close>

record Vector2 =
  x :: real
  y :: real

record Circle = Vector2 +
  radius :: real

record Rect = Vector2 +
  width :: real
  height :: real

definition zero_vector :: Vector2 where
  "zero_vector = \<lparr>x = 0, y = 0\<rparr>"

definition distance :: "'a Vector2_scheme option \<Rightarrow> 'b Vector2_scheme option \<Rightarrow> real" where
  "distance point1 point2 =
     (case (point1, point2) of
        (Some p1, Some p2) \<Rightarrow>
          (let dx = x p2 - x p1; dy = y p2 - y p1 in sqrt (dx * dx + dy * dy))
      | _ \<Rightarrow> 0)"

definition distanceSquared :: "'a Vector2_scheme option \<Rightarrow> 'b Vector2_scheme option \<Rightarrow> real" where
  "distanceSquared point1 point2 =
     (case (point1, point2) of
        (Some p1, Some p2) \<Rightarrow>
          (let dx = x p2 - x p1; dy = y p2 - y p1 in dx * dx + dy * dy)
      | _ \<Rightarrow> 0)"

definition magnitude :: "'a Vector2_scheme option \<Rightarrow> real" where
  "magnitude vector =
     (case vector of None \<Rightarrow> 0 | Some v \<Rightarrow> sqrt (x v * x v + y v * y v))"

definition normalize_vector :: "'a Vector2_scheme option \<Rightarrow> Vector2" where
  "normalize_vector vector =
     (case vector of
        None \<Rightarrow> zero_vector
      | Some v \<Rightarrow>
          (let mag = magnitude vector in
           if mag = 0 then zero_vector else \<lparr>x = x v / mag, y = y v / mag\<rparr>))"

definition addVectors :: "'a Vector2_scheme option \<Rightarrow> 'b Vector2_scheme option \<Rightarrow> Vector2" where
  "addVectors vector1 vector2 =
     (case (vector1, vector2) of
        (Some v1, Some v2) \<Rightarrow> \<lparr>x = x v1 + x v2, y = y v1 + y v2\<rparr>
      | _ \<Rightarrow> zero_vector)"

definition subtractVectors :: "'a Vector2_scheme option \<Rightarrow> 'b Vector2_scheme option \<Rightarrow> Vector2" where
  "subtractVectors vector1 vector2 =
     (case (vector1, vector2) of
        (Some v1, Some v2) \<Rightarrow> \<lparr>x = x v1 - x v2, y = y v1 - y v2\<rparr>
      | _ \<Rightarrow> zero_vector)"

definition multiplyVector :: "'a Vector2_scheme option \<Rightarrow> real \<Rightarrow> Vector2" where
  "multiplyVector vector scalar =
     (case vector of
        None \<Rightarrow> zero_vector
      | Some v \<Rightarrow> \<lparr>x = x v * scalar, y = y v * scalar\<rparr>)"

definition angleBetween :: "'a Vector2_scheme option \<Rightarrow> 'b Vector2_scheme option \<Rightarrow> real" where
  "angleBetween point1 point2 =
     (case (point1, point2) of
        (Some p1, Some p2) \<Rightarrow> Math_atan2 (y p2 - y p1) (x p2 - x p1)
      | _ \<Rightarrow> 0)"

text \<open>
  The two circle tests and the two distance functions they call, in binary64: every
  subtraction, product, sum and square root is rounded as the host rounds it. A circle
  here is an object whose \<open>x\<close>, \<open>y\<close> and \<open>radius\<close> are binary64 numbers.
\<close>

record Circle64 =
  x64 :: f64
  y64 :: f64
  radius64 :: f64

definition distance64 :: "Circle64 option \<Rightarrow> Circle64 option \<Rightarrow> f64" where
  "distance64 point1 point2 =
     (case (point1, point2) of
        (Some p1, Some p2) \<Rightarrow>
          (let dx = f64_sub (x64 p2) (x64 p1);
               dy = f64_sub (y64 p2) (y64 p1)
           in f64_sqrt (f64_add (f64_mul dx dx) (f64_mul dy dy)))
      | _ \<Rightarrow> Fin 0)"

definition distanceSquared64 :: "Circle64 option \<Rightarrow> Circle64 option \<Rightarrow> f64" where
  "distanceSquared64 point1 point2 =
     (case (point1, point2) of
        (Some p1, Some p2) \<Rightarrow>
          (let dx = f64_sub (x64 p2) (x64 p1);
               dy = f64_sub (y64 p2) (y64 p1)
           in f64_add (f64_mul dx dx) (f64_mul dy dy))
      | _ \<Rightarrow> Fin 0)"

definition circleCollision :: "Circle64 option \<Rightarrow> Circle64 option \<Rightarrow> bool" where
  "circleCollision circle1 circle2 =
     (case (circle1, circle2) of
        (Some c1, Some c2) \<Rightarrow>
          f64_le (distance64 circle1 circle2) (f64_add (radius64 c1) (radius64 c2))
      | _ \<Rightarrow> False)"

definition fastCircleCollision :: "Circle64 option \<Rightarrow> Circle64 option \<Rightarrow> bool" where
  "fastCircleCollision circle1 circle2 =
     (case (circle1, circle2) of
        (Some c1, Some c2) \<Rightarrow>
          (let radiusSum = f64_add (radius64 c1) (radius64 c2)
           in f64_le (distanceSquared64 circle1 circle2) (f64_mul radiusSum radiusSum))
      | _ \<Rightarrow> False)"

definition rectangleCollision :: "'a Rect_scheme option \<Rightarrow> 'b Rect_scheme option \<Rightarrow> bool" where
  "rectangleCollision rect1 rect2 =
     (case (rect1, rect2) of
        (Some r1, Some r2) \<Rightarrow>
          x r1 < x r2 + width r2 \<and> x r1 + width r1 > x r2 \<and>
          y r1 < y r2 + height r2 \<and> y r1 + height r1 > y r2
      | _ \<Rightarrow> False)"

definition pointInCircle :: "'a Vector2_scheme option \<Rightarrow> 'b Circle_scheme option \<Rightarrow> bool" where
  "pointInCircle point circle =
     (case (point, circle) of
        (Some p, Some c) \<Rightarrow> distance point circle \<le> radius c
      | _ \<Rightarrow> False)"

definition pointInRectangle :: "'a Vector2_scheme option \<Rightarrow> 'b Rect_scheme option \<Rightarrow> bool" where
  "pointInRectangle point rect =
     (case (point, rect) of
        (Some p, Some r) \<Rightarrow>
          x p \<ge> x r \<and> x p \<le> x r + width r \<and> y p \<ge> y r \<and> y p \<le> y r + height r
      | _ \<Rightarrow> False)"

definition lerp :: "real \<Rightarrow> real \<Rightarrow> real \<Rightarrow> real" where
  "lerp start end' t = start + t * (end' - start)"

definition clamp :: "real \<Rightarrow> real \<Rightarrow> real \<Rightarrow> real" where
  "clamp v lo hi = min (max v lo) hi"

text \<open>
  \<open>normalizeAngle\<close> is two loops, one after the other:
  \<^verbatim>\<open>while (angle < 0) angle += 2 * Math.PI;\<close> and
  \<^verbatim>\<open>while (angle >= 2 * Math.PI) angle -= 2 * Math.PI;\<close>.
  Over the reals each of them terminates (the measures below).
\<close>

function shiftUp :: "real \<Rightarrow> real" where
  "shiftUp a = (if a < 0 then shiftUp (a + 2 * pi) else a)"
  by pat_completeness auto
termination
proof (relation "measure (\<lambda>a. nat \<lceil>- a / (2 * pi)\<rceil>)")
  show "wf (measure (\<lambda>a. nat \<lceil>- a / (2 * pi)\<rceil>))" by simp
next
  fix a :: real
  assume neg: "a < 0"
  have eq: "- (a + 2 * pi) / (2 * pi) = - a / (2 * pi) - 1"
    by (simp add: field_simps)
  have pos: "0 < - a / (2 * pi)" using neg pi_gt_zero by (intro divide_pos_pos) simp_all
  then have "1 \<le> \<lceil>- a / (2 * pi)\<rceil>" by linarith
  then show "(a + 2 * pi, a) \<in> measure (\<lambda>a. nat \<lceil>- a / (2 * pi)\<rceil>)"
    unfolding in_measure eq by linarith
qed

function shiftDown :: "real \<Rightarrow> real" where
  "shiftDown a = (if a \<ge> 2 * pi then shiftDown (a - 2 * pi) else a)"
  by pat_completeness auto
termination
proof (relation "measure (\<lambda>a. nat \<lfloor>a / (2 * pi)\<rfloor>)")
  show "wf (measure (\<lambda>a. nat \<lfloor>a / (2 * pi)\<rfloor>))" by simp
next
  fix a :: real
  assume ge: "2 * pi \<le> a"
  have eq: "(a - 2 * pi) / (2 * pi) = a / (2 * pi) - 1"
    by (simp add: field_simps)
  have "1 \<le> a / (2 * pi)" using ge pi_gt_zero by (simp add: pos_le_divide_eq)
  then have "1 \<le> \<lfloor>a / (2 * pi)\<rfloor>" by linarith
  then show "(a - 2 * pi, a) \<in> measure (\<lambda>a. nat \<lfloor>a / (2 * pi)\<rfloor>)"
    unfolding in_measure eq by linarith
qed

declare shiftUp.simps [simp del] shiftDown.simps [simp del]

definition normalizeAngle :: "real \<Rightarrow> real" where
  "normalizeAngle angle = shiftDown (shiftUp angle)"


text \<open>\<open>randomRange\<close>: \<open>r\<close> is the value \<open>Math.random()\<close> returns, \<open>0 \<le> r < 1\<close>.\<close>

definition randomRange :: "real \<Rightarrow> real \<Rightarrow> real \<Rightarrow> real" where
  "randomRange r lo hi = r * (hi - lo) + lo"

text \<open>
  The helpers below read their object argument with no guard: on \<open>null\<close> the property
  access throws.
\<close>

definition randomPointInCircle :: "real \<Rightarrow> real \<Rightarrow> 'a Vector2_scheme option \<Rightarrow> real \<Rightarrow> js_error + Vector2" where
  "randomPointInCircle r1 r2 center rad =
     (let angle = r1 * 2 * pi; dist = sqrt r2 * rad in
      case center of
        None \<Rightarrow> Inl TypeError
      | Some c \<Rightarrow> Inr \<lparr>x = x c + cos angle * dist, y = y c + sin angle * dist\<rparr>)"

definition velocityFromAngle :: "real \<Rightarrow> real \<Rightarrow> Vector2" where
  "velocityFromAngle angle spd = \<lparr>x = cos angle * spd, y = sin angle * spd\<rparr>"

definition applyGravity :: "'a Vector2_scheme option \<Rightarrow> real \<Rightarrow> real \<Rightarrow> js_error + Vector2" where
  "applyGravity velocity grav deltaTime =
     (case velocity of
        None \<Rightarrow> Inl TypeError
      | Some v \<Rightarrow> Inr \<lparr>x = x v, y = y v + grav * deltaTime\<rparr>)"

definition applyFriction :: "'a Vector2_scheme option \<Rightarrow> real \<Rightarrow> js_error + Vector2" where
  "applyFriction velocity friction =
     (case velocity of
        None \<Rightarrow> Inl TypeError
      | Some v \<Rightarrow> Inr \<lparr>x = x v * friction, y = y v * friction\<rparr>)"

definition isInBounds :: "'a Vector2_scheme option \<Rightarrow> 'b Rect_scheme option \<Rightarrow> bool" where
  "isInBounds point bounds = pointInRectangle point bounds"


section \<open>Fish\<close>

text \<open>
  The record keeps the fields the game logic reads and writes. Left out are the sprite
  and drawing fields (\<open>spriteSheet\<close>, \<open>spriteLoader\<close>, \<open>sprite\<close>, \<open>spriteLoaded\<close>,
  \<open>frameWidth\<close>, \<open>frameHeight\<close>, \<open>framesPerRow\<close>, \<open>opacity\<close>, \<open>debugMode\<close>),
  \<open>poolId\<close> and \<open>touchRadius\<close>, together with the methods that only touch them
  (\<open>loadSprites\<close>, \<open>getSpriteFrame\<close>, \<open>render\<close>). A fish is referred to by a
  reference (a number); \<open>schoolmates\<close> holds references. A registered callback is an
  identifier; running callbacks and a custom \<open>ai\<close> object is foreign code and has no
  effect in the model. A score is \<open>None\<close> when the host computes \<open>NaN\<close>.
\<close>

type_synonym ref = nat

record Bounds =
  bounds_left :: real
  bounds_right :: real
  bounds_top :: real
  bounds_bottom :: real

record Fish = Rect +
  scale :: real
  rotation :: real
  fish_frameCount :: real
  currentFrame :: real
  animationSpeed :: real
  fish_lastFrameTime :: real
  animationPaused :: bool
  speed :: real
  velocity :: Vector2
  direction :: real
  bounds :: Bounds
  fish_isActive :: bool
  isCaught :: bool
  fishType :: string
  behavior :: string
  rarity :: "real option"
  scoreValue :: "real option"
  lodLevel :: nat
  fish_destroyed :: bool
  mobileMode :: bool
  ai :: bool
  schoolmates :: "ref list"
  threats :: "Circle list"
  lastBehaviorUpdate :: real
  behaviorUpdateInterval :: real
  fish_eventListeners :: "string \<Rightarrow> nat list"

record FishOptions =
  opt_x :: "real option"
  opt_y :: "real option"
  opt_width :: "real option"
  opt_height :: "real option"
  opt_scale :: "real option"
  opt_rotation :: "real option"
  opt_frameCount :: "real option"
  opt_animationSpeed :: "real option"
  opt_speed :: "real option"
  opt_bounds :: "Bounds option"
  opt_fishType :: "string option"
  opt_behavior :: "string option"

definition no_options :: FishOptions where
  "no_options = \<lparr>opt_x = None, opt_y = None, opt_width = None, opt_height = None,
     opt_scale = None, opt_rotation = None, opt_frameCount = None, opt_animationSpeed = None,
     opt_speed = None, opt_bounds = None, opt_fishType = None, opt_behavior = None\<rparr>"

text \<open>
  \<open>rarityMap[fishType] || 1\<close>. The map is an object literal, so besides its five own
  keys the lookup finds the properties every object inherits; each of those is a function
  or an object, truthy and not a number, and the score computed from it is \<open>NaN\<close>.
\<close>

definition rarityMap :: "(string \<times> real) list" where
  "rarityMap = [(''common'', 1), (''uncommon'', 2), (''rare'', 5), (''epic'', 10),
     (''legendary'', 25)]"

definition objectPrototypeKeys :: "string list" where
  "objectPrototypeKeys = [''constructor'', ''hasOwnProperty'', ''isPrototypeOf'',
     ''propertyIsEnumerable'', ''toLocaleString'', ''toString'', ''valueOf'', ''__proto__'',
     ''__defineGetter__'', ''__defineSetter__'', ''__lookupGetter__'', ''__lookupSetter__'']"

definition Fish_getRarityValue :: "string \<Rightarrow> real option" where
  "Fish_getRarityValue ft =
     (case map_of rarityMap ft of
        Some v \<Rightarrow> Some v
      | None \<Rightarrow> if ft \<in> set objectPrototypeKeys then None else Some 1)"

definition Fish_calculateBaseScore :: "Fish \<Rightarrow> real option" where
  "Fish_calculateBaseScore f =
     (let sizeMultiplier = (width f + height f) / 64
      in map_option (\<lambda>r. Math_round (10 * r * sizeMultiplier)) (rarity f))"

definition Fish_applyBehaviorModifications :: "Fish \<Rightarrow> Fish" where
  "Fish_applyBehaviorModifications f =
     (if behavior f = ''aggressive''
        then f\<lparr>speed := speed f * 1.5, animationSpeed := animationSpeed f * 0.8\<rparr>
      else if behavior f = ''lazy''
        then f\<lparr>speed := speed f * 0.6, animationSpeed := animationSpeed f * 1.3\<rparr>
      else if behavior f = ''erratic''
        then f\<lparr>behaviorUpdateInterval := 50\<rparr>
      else f)"

text \<open>\<open>_initializeMovement\<close>: \<open>r\<close> is the draw behind \<open>randomRange(0, 2\<pi>)\<close>.\<close>

definition Fish_initializeMovement :: "real \<Rightarrow> Fish \<Rightarrow> Fish" where
  "Fish_initializeMovement r f =
     (let d = randomRange r 0 (2 * pi)
      in Fish_applyBehaviorModifications
           (f\<lparr>direction := d, velocity := velocityFromAngle d (speed f)\<rparr>))"

text \<open>
  The constructor; \<open>rnd 0\<close>, \<open>rnd 1\<close>, \<open>rnd 2\<close> are the three draws it makes, in order
  (two for the first velocity, one in \<open>_initializeMovement\<close>).
\<close>

definition Fish_new :: "FishOptions \<Rightarrow> (nat \<Rightarrow> real) \<Rightarrow> Fish" where
  "Fish_new options rnd =
     (let spd = or_num (opt_speed options) 2;
          vel = \<lparr>x = randomRange (rnd 0) (- spd) spd, y = randomRange (rnd 1) (- spd) spd\<rparr>;
          ft = or_str (opt_fishType options) ''common'';
          f0 = \<lparr>x = or_num (opt_x options) 0,
                y = or_num (opt_y options) 0,
                width = or_num (opt_width options) 32,
                height = or_num (opt_height options) 32,
                scale = or_num (opt_scale options) 1,
                rotation = or_num (opt_rotation options) 0,
                fish_frameCount = or_num (opt_frameCount options) 8,
                currentFrame = 0,
                animationSpeed = or_num (opt_animationSpeed options) 150,
                fish_lastFrameTime = 0,
                animationPaused = False,
                speed = spd,
                velocity = vel,
                direction = Math_atan2 (y vel) (x vel),
                bounds = (case opt_bounds options of
                            None \<Rightarrow> \<lparr>bounds_left = 0, bounds_right = 800,
                                       bounds_top = 0, bounds_bottom = 600\<rparr>
                          | Some b \<Rightarrow> b),
                fish_isActive = True,
                isCaught = False,
                fishType = ft,
                behavior = or_str (opt_behavior options) ''normal'',
                rarity = Fish_getRarityValue ft,
                scoreValue = None,
                lodLevel = 0,
                fish_destroyed = False,
                mobileMode = False,
                ai = False,
                schoolmates = [],
                threats = [],
                lastBehaviorUpdate = 0,
                behaviorUpdateInterval = 100,
                fish_eventListeners = (\<lambda>_. [])\<rparr>;
          f1 = f0\<lparr>scoreValue := Fish_calculateBaseScore f0\<rparr>
      in Fish_initializeMovement (rnd 2) f1)"

subsection \<open>Animation and movement\<close>

text \<open>The remainder operator \<open>%\<close>: the quotient is truncated toward zero.\<close>

definition js_rem :: "real \<Rightarrow> real \<Rightarrow> real" where
  "js_rem a b = a - b * of_int (if 0 \<le> a / b then \<lfloor>a / b\<rfloor> else \<lceil>a / b\<rceil>)"

definition Fish_updateAnimation :: "real \<Rightarrow> Fish \<Rightarrow> Fish" where
  "Fish_updateAnimation deltaTime f =
     (if animationPaused f \<or> lodLevel f > 2 then f
      else let f1 = f\<lparr>fish_lastFrameTime := fish_lastFrameTime f + deltaTime\<rparr>
           in if fish_lastFrameTime f1 \<ge> animationSpeed f1
              then f1\<lparr>currentFrame := js_rem (currentFrame f1 + 1) (fish_frameCount f1),
                      fish_lastFrameTime := 0\<rparr>
              else f1)"

definition setAnimationSpeed :: "real \<Rightarrow> Fish \<Rightarrow> Fish" where
  "setAnimationSpeed spd f = f\<lparr>animationSpeed := max 50 spd\<rparr>"

definition pauseAnimation :: "Fish \<Rightarrow> Fish" where
  "pauseAnimation f = f\<lparr>animationPaused := True\<rparr>"

definition resumeAnimation :: "Fish \<Rightarrow> Fish" where
  "resumeAnimation f = f\<lparr>animationPaused := False\<rparr>"

definition Fish_handleBoundsCollision :: "Fish \<Rightarrow> Fish" where
  "Fish_handleBoundsCollision f =
     (let halfWidth = (width f * scale f) / 2;
          halfHeight = (height f * scale f) / 2;
          f1 = (if x f - halfWidth < bounds_left (bounds f)
                  then f\<lparr>x := bounds_left (bounds f) + halfWidth,
                         velocity := (velocity f)\<lparr>x := \<bar>x (velocity f)\<bar>\<rparr>\<rparr>
                else if x f + halfWidth > bounds_right (bounds f)
                  then f\<lparr>x := bounds_right (bounds f) - halfWidth,
                         velocity := (velocity f)\<lparr>x := - \<bar>x (velocity f)\<bar>\<rparr>\<rparr>
                else f)
      in if y f1 - halfHeight < bounds_top (bounds f1)
           then f1\<lparr>y := bounds_top (bounds f1) + halfHeight,
                   velocity := (velocity f1)\<lparr>y := \<bar>y (velocity f1)\<bar>\<rparr>\<rparr>
         else if y f1 + halfHeight > bounds_bottom (bounds f1)
           then f1\<lparr>y := bounds_bottom (bounds f1) - halfHeight,
                   velocity := (velocity f1)\<lparr>y := - \<bar>y (velocity f1)\<bar>\<rparr>\<rparr>
         else f1)"

text \<open>\<open>r1\<close> is the draw compared with \<open>0.3\<close>, \<open>r2\<close> the draw behind \<open>randomRange\<close>.\<close>

definition Fish_applyErraticBehavior :: "real \<Rightarrow> real \<Rightarrow> Fish \<Rightarrow> Fish" where
  "Fish_applyErraticBehavior r1 r2 f =
     (if r1 < 0.3
      then let newDirection = direction f + randomRange r2 (- pi / 4) (pi / 4)
           in f\<lparr>velocity := velocityFromAngle newDirection (speed f),
                 direction := newDirection\<rparr>
      else f)"

text \<open>
  \<open>mates\<close> are the objects the references in \<open>schoolmates\<close> point to, in order, as they
  are when the method runs. The \<open>forEach\<close> adds up the mates that are active, not caught
  and closer than 100.
\<close>

definition Fish_applySchoolingBehavior :: "Fish list \<Rightarrow> Fish \<Rightarrow> Fish" where
  "Fish_applySchoolingBehavior mates f =
     (if length (schoolmates f) = 0 then f
      else let near = filter (\<lambda>mate. fish_isActive mate \<and> \<not> isCaught mate
                                 \<and> distance (Some f) (Some mate) < 100) mates;
               count = real (length near)
           in if count > 0
              then let avgX = sum_list (map x near) / count;
                       avgY = sum_list (map y near) / count;
                       avgVelX = sum_list (map (\<lambda>m. x (velocity m)) near) / count;
                       avgVelY = sum_list (map (\<lambda>m. y (velocity m)) near) / count;
                       influence = 0.1;
                       directionToCenter = Math_atan2 (avgY - y f) (avgX - x f);
                       v1 = \<lparr>x = lerp (x (velocity f)) avgVelX influence
                                  + cos directionToCenter * influence * speed f,
                             y = lerp (y (velocity f)) avgVelY influence
                                  + sin directionToCenter * influence * speed f\<rparr>;
                       currentSpeed = magnitude (Some v1)
                   in if currentSpeed > 0
                      then f\<lparr>velocity := multiplyVector (Some (normalize_vector (Some v1))) (speed f)\<rparr>
                      else f\<lparr>velocity := v1\<rparr>
              else f)"

definition avoid_threat :: "Circle \<Rightarrow> Fish \<Rightarrow> Fish" where
  "avoid_threat threat f =
     (let dist = distance (Some f) (Some threat)
      in if dist < radius threat
         then let avoidanceDirection = Math_atan2 (y f - y threat) (x f - x threat);
                  avoidanceForce = (radius threat - dist) / radius threat;
                  v1 = \<lparr>x = x (velocity f) + cos avoidanceDirection * avoidanceForce * speed f,
                        y = y (velocity f) + sin avoidanceDirection * avoidanceForce * speed f\<rparr>;
                  currentSpeed = magnitude (Some v1)
              in if currentSpeed > speed f * 2
                 then f\<lparr>velocity := multiplyVector (Some (normalize_vector (Some v1))) (speed f * 2)\<rparr>
                 else f\<lparr>velocity := v1\<rparr>
         else f)"

definition Fish_applyAvoidanceBehavior :: "Fish \<Rightarrow> Fish" where
  "Fish_applyAvoidanceBehavior f = fold avoid_threat (threats f) f"

definition Fish_updateBehaviorMovement :: "real \<Rightarrow> (nat \<Rightarrow> real) \<Rightarrow> Fish list \<Rightarrow> Fish \<Rightarrow> Fish" where
  "Fish_updateBehaviorMovement deltaTime rnd mates f =
     (let f1 = f\<lparr>lastBehaviorUpdate := lastBehaviorUpdate f + deltaTime\<rparr>
      in if lastBehaviorUpdate f1 < behaviorUpdateInterval f1 then f1
         else let f2 = f1\<lparr>lastBehaviorUpdate := 0\<rparr>
              in if behavior f2 = ''erratic'' then Fish_applyErraticBehavior (rnd 0) (rnd 1) f2
                 else if behavior f2 = ''schooling'' then Fish_applySchoolingBehavior mates f2
                 else if behavior f2 = ''avoidance'' then Fish_applyAvoidanceBehavior f2
                 else f2)"

definition Fish_updateMovement :: "real \<Rightarrow> (nat \<Rightarrow> real) \<Rightarrow> Fish list \<Rightarrow> Fish \<Rightarrow> Fish" where
  "Fish_updateMovement deltaTime rnd mates f =
     (if \<not> fish_isActive f \<or> isCaught f then f
      else let deltaSeconds = deltaTime / 1000;
               f1 = f\<lparr>x := x f + x (velocity f) * deltaSeconds * 60,
                       y := y f + y (velocity f) * deltaSeconds * 60\<rparr>;
               f2 = Fish_handleBoundsCollision f1;
               f3 = (if x (velocity f2) \<noteq> 0 \<or> y (velocity f2) \<noteq> 0
                     then f2\<lparr>rotation := Math_atan2 (y (velocity f2)) (x (velocity f2)),
                             direction := Math_atan2 (y (velocity f2)) (x (velocity f2))\<rparr>
                     else f2)
           in Fish_updateBehaviorMovement deltaTime rnd mates f3)"

definition setPosition :: "real \<Rightarrow> real \<Rightarrow> Fish \<Rightarrow> Fish" where
  "setPosition a b f = f\<lparr>x := a, y := b\<rparr>"

definition setVelocity :: "real \<Rightarrow> real \<Rightarrow> Fish \<Rightarrow> Fish" where
  "setVelocity va vb f = f\<lparr>velocity := \<lparr>x = va, y = vb\<rparr>, direction := Math_atan2 vb va\<rparr>"

subsection \<open>Collision, catching, scoring, pooling\<close>

text \<open>
  A collision target is an object with \<open>x\<close> and \<open>y\<close> that may or may not have
  \<open>radius\<close>, \<open>width\<close>, \<open>height\<close>; \<open>checkCollision\<close> looks at which are defined.
\<close>

record Target = Vector2 +
  target_radius :: "real option"
  target_width :: "real option"
  target_height :: "real option"

definition getBounds :: "Fish \<Rightarrow> Rect" where
  "getBounds f = \<lparr>x = x f, y = y f, width = width f * scale f, height = height f * scale f\<rparr>"

definition checkCollision :: "Target \<Rightarrow> Fish \<Rightarrow> bool" where
  "checkCollision target f =
     (case target_radius target of
        Some r \<Rightarrow>
          pointInCircle (Some \<lparr>x = x f + width f / 2, y = y f + height f / 2\<rparr>)
            (Some \<lparr>x = x target, y = y target, radius = r\<rparr>)
      | None \<Rightarrow>
          (case (target_width target, target_height target) of
             (Some w, Some h) \<Rightarrow>
               rectangleCollision (Some (getBounds f))
                 (Some \<lparr>x = x target, y = y target, width = w, height = h\<rparr>)
           | _ \<Rightarrow> pointInRectangle (Some target) (Some (getBounds f))))"

definition Fish_catch :: "Fish \<Rightarrow> Fish" where
  "Fish_catch f = f\<lparr>isCaught := True, fish_isActive := False, velocity := \<lparr>x = 0, y = 0\<rparr>\<rparr>"

definition escape :: "real \<Rightarrow> Fish \<Rightarrow> Fish" where
  "escape r f = Fish_initializeMovement r (f\<lparr>isCaught := False, fish_isActive := True\<rparr>)"

definition getScore :: "Fish \<Rightarrow> real option" where
  "getScore f =
     (let sizeBonus = (width f + height f) / 64;
          m1 = 1 * sizeBonus;
          multiplier = (if behavior f = ''aggressive'' then m1 * 1.5
                        else if behavior f = ''erratic'' then m1 * 1.3
                        else m1)
      in map_option (\<lambda>sv. Math_round (sv * multiplier)) (scoreValue f))"

definition setBehavior :: "string \<Rightarrow> Fish \<Rightarrow> Fish" where
  "setBehavior b f = Fish_applyBehaviorModifications (f\<lparr>behavior := b\<rparr>)"

definition addToSchool :: "ref list \<Rightarrow> Fish \<Rightarrow> Fish" where
  "addToSchool mates f = setBehavior ''schooling'' (f\<lparr>schoolmates := mates\<rparr>)"

definition addThreat :: "Circle \<Rightarrow> Fish \<Rightarrow> Fish" where
  "addThreat threat f = setBehavior ''avoidance'' (f\<lparr>threats := threats f @ [threat]\<rparr>)"

definition setAI :: "bool \<Rightarrow> Fish \<Rightarrow> Fish" where
  "setAI present f = f\<lparr>ai := present\<rparr>"

definition isInViewport :: "Rect \<Rightarrow> Fish \<Rightarrow> bool" where
  "isInViewport viewport f =
     (let b = getBounds f
      in \<not> (x b + width b < x viewport \<or> x b > x viewport + width viewport
            \<or> y b + height b < y viewport \<or> y b > y viewport + height viewport))"

definition setLOD :: "real \<Rightarrow> Fish \<Rightarrow> Fish" where
  "setLOD dst f =
     (if dst < 200 then f\<lparr>lodLevel := 0\<rparr>
      else if dst < 500 then f\<lparr>lodLevel := 1\<rparr>
      else if dst < 1000 then f\<lparr>lodLevel := 2\<rparr>
      else f\<lparr>lodLevel := 3\<rparr>)"

definition Fish_reset :: "Fish \<Rightarrow> Fish" where
  "Fish_reset f = f\<lparr>fish_isActive := False, isCaught := False, currentFrame := 0,
     fish_lastFrameTime := 0, velocity := \<lparr>x = 0, y = 0\<rparr>, schoolmates := [], threats := [],
     ai := False, fish_destroyed := False\<rparr>"

definition setMobileMode :: "bool \<Rightarrow> Fish \<Rightarrow> Fish" where
  "setMobileMode enabled f =
     (let f1 = f\<lparr>mobileMode := enabled\<rparr>
      in if enabled
         then f1\<lparr>animationSpeed := max (animationSpeed f1) 200,
                 lodLevel := max (lodLevel f1) 1,
                 behaviorUpdateInterval := max (behaviorUpdateInterval f1) 150\<rparr>
         else f1)"

definition adaptToViewport :: "Rect \<Rightarrow> Fish \<Rightarrow> Fish" where
  "adaptToViewport viewport f =
     (if width viewport < 500 then setMobileMode True (f\<lparr>scale := min (scale f) 0.8\<rparr>) else f)"

text \<open>
  \<open>on\<close> and \<open>off\<close>. \<open>eventListeners\<close> is an object literal: for an event named like a
  property every object inherits, \<^verbatim>\<open>this.eventListeners[event]\<close> is that inherited
  function or object, which is truthy and has neither \<open>push\<close> nor \<open>indexOf\<close>, and the
  call throws. Nothing has been changed when it throws.
\<close>

definition Fish_on :: "string \<Rightarrow> nat \<Rightarrow> Fish \<Rightarrow> js_error + Fish" where
  "Fish_on event callback f =
     (if event \<in> set objectPrototypeKeys then Inl TypeError
      else Inr (f\<lparr>fish_eventListeners :=
                   (fish_eventListeners f)(event := fish_eventListeners f event @ [callback])\<rparr>))"

definition Fish_off :: "string \<Rightarrow> nat \<Rightarrow> Fish \<Rightarrow> js_error + Fish" where
  "Fish_off event callback f =
     (if event \<in> set objectPrototypeKeys then Inl TypeError
      else Inr (f\<lparr>fish_eventListeners :=
                   (fish_eventListeners f)(event := remove1 callback (fish_eventListeners f event))\<rparr>))"

definition Fish_update :: "real \<Rightarrow> (nat \<Rightarrow> real) \<Rightarrow> Fish list \<Rightarrow> Fish \<Rightarrow> Fish" where
  "Fish_update deltaTime rnd mates f =
     (if fish_destroyed f then f
      else Fish_updateMovement deltaTime rnd mates (Fish_updateAnimation deltaTime f))"

definition Fish_destroy :: "Fish \<Rightarrow> Fish" where
  "Fish_destroy f = f\<lparr>fish_destroyed := True, fish_isActive := False,
     fish_eventListeners := (\<lambda>_. []), schoolmates := [], threats := [], ai := False\<rparr>"

text \<open>
  The public operations of a fish, and the states one reaches from the constructor by
  any sequence of them. An operation that throws (\<open>on\<close>, \<open>off\<close>) leaves the fish as
  it was.
\<close>

datatype fish_op =
    SetAnimationSpeed real | PauseAnimation | ResumeAnimation
  | SetPosition real real | SetVelocity real real
  | Catch | Escape real | SetBehavior string | AddToSchool "ref list" | AddThreat Circle
  | SetAI bool | SetLOD real | Reset | AdaptToViewport Rect | SetMobileMode bool
  | On string nat | Off string nat
  | Update real "nat \<Rightarrow> real" "Fish list" | Destroy

fun fish_apply :: "fish_op \<Rightarrow> Fish \<Rightarrow> Fish" where
  "fish_apply (SetAnimationSpeed v) f = setAnimationSpeed v f"
| "fish_apply PauseAnimation f = pauseAnimation f"
| "fish_apply ResumeAnimation f = resumeAnimation f"
| "fish_apply (SetPosition a b) f = setPosition a b f"
| "fish_apply (SetVelocity a b) f = setVelocity a b f"
| "fish_apply Catch f = Fish_catch f"
| "fish_apply (Escape r) f = escape r f"
| "fish_apply (SetBehavior b) f = setBehavior b f"
| "fish_apply (AddToSchool ms) f = addToSchool ms f"
| "fish_apply (AddThreat t) f = addThreat t f"
| "fish_apply (SetAI b) f = setAI b f"
| "fish_apply (SetLOD d) f = setLOD d f"
| "fish_apply Reset f = Fish_reset f"
| "fish_apply (AdaptToViewport v) f = adaptToViewport v f"
| "fish_apply (SetMobileMode b) f = setMobileMode b f"
| "fish_apply (On e c) f = (case Fish_on e c f of Inl _ \<Rightarrow> f | Inr f' \<Rightarrow> f')"
| "fish_apply (Off e c) f = (case Fish_off e c f of Inl _ \<Rightarrow> f | Inr f' \<Rightarrow> f')"
| "fish_apply (Update dt rnd mates) f = Fish_update dt rnd mates f"
| "fish_apply Destroy f = Fish_destroy f"

definition fish_run :: "fish_op list \<Rightarrow> Fish \<Rightarrow> Fish" where
  "fish_run ops f = fold fish_apply ops f"

section \<open>Player\<close>

text \<open>
  All fish objects live in a store, a function from references to fish; the player's
  \<open>caughtFish\<close> and the game's lists hold references, so an update through one list is
  seen through the others. Left out of the record are the fields only drawing reads.
  The hook's position and velocity, the line length and the line tension can become
  \<open>NaN\<close> and have the type \<open>num\<close>. \<open>emitted\<close> is the trace of \<open>_emit\<close>: one entry per
  callback it calls, the event with the callback, oldest first (an event nobody listens
  to leaves no entry). What a callback does is modelled where the callback is the
  game's (section Game); other callbacks are foreign code.
\<close>

type_synonym fish_store = "ref \<Rightarrow> Fish"

record WeatherEffects =
  windForce :: real
  visibility :: real
  fishActivity :: real

record PowerUpEffect =
  effect_maxLineLength :: "real option"
  effect_reelingSpeed :: "real option"
  effect_castingPower :: "real option"

record PowerUp =
  powerUp_type :: string
  powerUp_effect :: PowerUpEffect
  powerUp_duration :: real
  powerUp_startTime :: real

datatype player_event =
    CastStarted | LineBroken | ReelingStarted | ReelingStopped | ReelingComplete
  | FishCaught ref "real option" | FishEscaped ref "real option"
  | PowerUpApplied | PowerUpExpired | PlayerReset | PlayerDestroyed

fun event_name :: "player_event \<Rightarrow> string" where
  "event_name CastStarted = ''castStarted''"
| "event_name LineBroken = ''lineBroken''"
| "event_name ReelingStarted = ''reelingStarted''"
| "event_name ReelingStopped = ''reelingStopped''"
| "event_name ReelingComplete = ''reelingComplete''"
| "event_name (FishCaught _ _) = ''fishCaught''"
| "event_name (FishEscaped _ _) = ''fishEscaped''"
| "event_name PowerUpApplied = ''powerUpApplied''"
| "event_name PowerUpExpired = ''powerUpExpired''"
| "event_name PlayerReset = ''playerReset''"
| "event_name PlayerDestroyed = ''destroyed''"

text \<open>
  \<open>powerUpEffects\<close> is an object used as a map from power-up types to effect objects:
  \<open>powerUpEffects\<close> holds its own properties, and \<open>powerUpEffects_proto\<close> the effect
  object that an assignment to the key \<open>__proto__\<close> has made its prototype, if any.
\<close>

record Player = Vector2 +
  player_isActive :: bool
  player_destroyed :: bool
  hookX :: num
  hookY :: num
  hookSize :: real
  hookVelocity :: NumVector2
  hookType :: string
  hookEffectiveness :: "real option"
  lineLength :: num
  maxLineLength :: real
  lineWeight :: real
  lineTension :: num
  lineBroken :: bool
  gravity :: real
  waterLevel :: real
  waterResistance :: real
  airResistance :: real
  isCasting :: bool
  castingPower :: real
  maxCastingPower :: real
  castingAngle :: real
  castCount :: int
  isReeling :: bool
  reelingSpeed :: real
  reelingDistance :: real
  caughtFish :: "ref list"
  totalScore :: "real option"
  fishesCaught :: int
  environment :: string
  weather :: string
  weatherEffects :: "WeatherEffects option"
  player_activePowerUps :: "PowerUp list"
  powerUpEffects :: "string \<Rightarrow> PowerUpEffect option"
  powerUpEffects_proto :: "PowerUpEffect option"
  player_eventListeners :: "string \<Rightarrow> nat list"
  touchCastSensitivity :: real
  touchReelThreshold :: real
  lastUpdateTime :: real
  emitted :: "(player_event \<times> nat) list"

record PlayerOptions =
  popt_x :: "real option"
  popt_y :: "real option"
  popt_hookSize :: "real option"
  popt_hookType :: "string option"
  popt_maxLineLength :: "real option"
  popt_lineWeight :: "real option"
  popt_gravity :: "real option"
  popt_waterLevel :: "real option"
  popt_waterResistance :: "real option"
  popt_airResistance :: "real option"
  popt_castingPower :: "real option"
  popt_maxCastingPower :: "real option"
  popt_reelingSpeed :: "real option"
  popt_environment :: "string option"
  popt_weather :: "string option"
  popt_touchCastSensitivity :: "real option"
  popt_touchReelThreshold :: "real option"

definition no_player_options :: PlayerOptions where
  "no_player_options = \<lparr>popt_x = None, popt_y = None, popt_hookSize = None,
     popt_hookType = None, popt_maxLineLength = None, popt_lineWeight = None,
     popt_gravity = None, popt_waterLevel = None, popt_waterResistance = None,
     popt_airResistance = None, popt_castingPower = None, popt_maxCastingPower = None,
     popt_reelingSpeed = None, popt_environment = None, popt_weather = None,
     popt_touchCastSensitivity = None, popt_touchReelThreshold = None\<rparr>"

definition Player_emit :: "player_event \<Rightarrow> Player \<Rightarrow> Player" where
  "Player_emit ev p =
     p\<lparr>emitted := emitted p @ map (\<lambda>callback. (ev, callback)) (player_eventListeners p (event_name ev))\<rparr>"

text \<open>
  \<open>effectiveness[hookType] || 1.0\<close> and \<open>effects[weather] || effects.calm\<close>: as for
  \<open>rarityMap\<close>, an inherited property name finds a value that is not a number (not an
  effects object), written \<open>None\<close>.
\<close>

definition Player_getHookEffectiveness :: "string \<Rightarrow> real option" where
  "Player_getHookEffectiveness ht =
     (case map_of [(''basic'', 1.0), (''silver_hook'', 1.2), (''golden_hook'', 1.5),
                   (''diamond_hook'', 2.0), (''legendary_hook'', 3.0 :: real)] ht of
        Some v \<Rightarrow> Some v
      | None \<Rightarrow> if ht \<in> set objectPrototypeKeys then None else Some 1.0)"

definition calm :: WeatherEffects where
  "calm = \<lparr>windForce = 0, visibility = 1.0, fishActivity = 1.0\<rparr>"

definition Player_getWeatherEffects :: "string \<Rightarrow> WeatherEffects option" where
  "Player_getWeatherEffects w =
     (case map_of [(''calm'', calm),
                   (''windy'', \<lparr>windForce = 2, visibility = 0.8, fishActivity = 0.7\<rparr>),
                   (''stormy'', \<lparr>windForce = 5, visibility = 0.5, fishActivity = 0.3\<rparr>),
                   (''foggy'', \<lparr>windForce = 0, visibility = 0.3, fishActivity = 1.2\<rparr>)] w of
        Some e \<Rightarrow> Some e
      | None \<Rightarrow> if w \<in> set objectPrototypeKeys then None else Some calm)"

definition Player_applyEnvironmentEffects :: "Player \<Rightarrow> Player" where
  "Player_applyEnvironmentEffects p =
     (if environment p = ''shallow_water''
        then p\<lparr>waterResistance := 0.85, maxLineLength := maxLineLength p * 0.8\<rparr>
      else if environment p = ''deep_water''
        then p\<lparr>waterResistance := 0.9, gravity := gravity p * 1.2\<rparr>
      else if environment p = ''fast_current''
        then p\<lparr>waterResistance := 0.7,
               hookVelocity := (hookVelocity p)
                 \<lparr>num_x := map_option (\<lambda>v. v + 1) (num_x (hookVelocity p))\<rparr>\<rparr>
      else p)"

definition Player_new :: "PlayerOptions \<Rightarrow> Player" where
  "Player_new options =
     (let px = or_num (popt_x options) 400;
          py = or_num (popt_y options) 50;
          ht = or_str (popt_hookType options) ''basic'';
          w = or_str (popt_weather options) ''calm''
      in Player_applyEnvironmentEffects
           \<lparr>x = px, y = py,
            player_isActive = True,
            player_destroyed = False,
            hookX = Some px,
            hookY = Some py,
            hookSize = or_num (popt_hookSize options) 8,
            hookVelocity = \<lparr>num_x = Some 0, num_y = Some 0\<rparr>,
            hookType = ht,
            hookEffectiveness = Player_getHookEffectiveness ht,
            lineLength = Some 0,
            maxLineLength = or_num (popt_maxLineLength options) 300,
            lineWeight = or_num (popt_lineWeight options) 0.1,
            lineTension = Some 0,
            lineBroken = False,
            gravity = or_num (popt_gravity options) 0.3,
            waterLevel = or_num (popt_waterLevel options) 200,
            waterResistance = or_num (popt_waterResistance options) 0.85,
            airResistance = or_num (popt_airResistance options) 0.98,
            isCasting = False,
            castingPower = or_num (popt_castingPower options) 5,
            maxCastingPower = or_num (popt_maxCastingPower options) 10,
            castingAngle = 0,
            castCount = 0,
            isReeling = False,
            reelingSpeed = or_num (popt_reelingSpeed options) 3,
            reelingDistance = 10,
            caughtFish = [],
            totalScore = Some 0,
            fishesCaught = 0,
            environment = or_str (popt_environment options) ''shallow_water'',
            weather = w,
            weatherEffects = Player_getWeatherEffects w,
            player_activePowerUps = [],
            powerUpEffects = (\<lambda>_. None),
            powerUpEffects_proto = None,
            player_eventListeners = (\<lambda>_. []),
            touchCastSensitivity = or_num (popt_touchCastSensitivity options) 20,
            touchReelThreshold = or_num (popt_touchReelThreshold options) 5,
            lastUpdateTime = 0,
            emitted = []\<rparr>)"

subsection \<open>Casting\<close>

text \<open>\<open>cast\<close>: \<open>r\<close> is the draw behind the wind's \<open>randomRange\<close>.\<close>

definition cast :: "real \<Rightarrow> real \<Rightarrow> real \<Rightarrow> Player \<Rightarrow> Player" where
  "cast pw angle r p =
     (if player_destroyed p \<or> isCasting p \<or> isReeling p then p
      else let p1 = p\<lparr>castingPower := clamp pw 0 (maxCastingPower p),
                      castingAngle := normalizeAngle angle\<rparr>;
               p2 = (case weatherEffects p1 of
                       Some w \<Rightarrow>
                         if windForce w > 0
                         then let windEffect = windForce w * 0.1
                              in p1\<lparr>castingAngle := normalizeAngle
                                     (castingAngle p1 + randomRange r (- windEffect) windEffect)\<rparr>
                         else p1
                     | None \<Rightarrow> p1);
               p3 = p2\<lparr>hookVelocity := \<lparr>num_x = Some (castingPower p2 * cos (castingAngle p2)),
                                         num_y = Some (castingPower p2 * sin (castingAngle p2))\<rparr>,
                       isCasting := True,
                       lineBroken := False,
                       castCount := castCount p2 + 1\<rparr>
           in Player_emit CastStarted p3)"

definition handleTouchCast :: "Vector2 \<Rightarrow> Vector2 \<Rightarrow> real \<Rightarrow> Player \<Rightarrow> Player" where
  "handleTouchCast startTouch endTouch r p =
     (if player_destroyed p \<or> isCasting p \<or> isReeling p then p
      else let deltaX = x endTouch - x startTouch;
               deltaY = y endTouch - y startTouch;
               d = distance (Some startTouch) (Some endTouch);
               pw = min (d / touchCastSensitivity p) (maxCastingPower p);
               angle = Math_atan2 deltaY deltaX
           in cast pw angle r p)"

subsection \<open>Hook physics\<close>

definition Player_resetHook :: "Player \<Rightarrow> Player" where
  "Player_resetHook p = p\<lparr>hookX := Some (x p), hookY := Some (y p),
     hookVelocity := \<lparr>num_x = Some 0, num_y = Some 0\<rparr>,
     lineLength := Some 0, lineTension := Some 0\<rparr>"

text \<open>The distance from the anchor to the hook: \<open>NaN\<close> if a coordinate of the hook is.\<close>

definition Player_updateLineLength :: "Player \<Rightarrow> Player" where
  "Player_updateLineLength p =
     p\<lparr>lineLength := num2 (\<lambda>hx hy. distance (Some \<lparr>x = x p, y = y p\<rparr>)
                                           (Some \<lparr>x = hx, y = hy\<rparr>))
                         (hookX p) (hookY p)\<rparr>"

text \<open>
  \<open>lineLength / maxLineLength\<close> clamped to \<open>[0, 1]\<close>. With \<open>maxLineLength = 0\<close> the host's
  quotient is \<open>+\<infinity>\<close> (clamped to 1) for a positive length, \<open>-\<infinity>\<close> (clamped to 0) for a
  negative one and \<open>NaN\<close> for length 0; a \<open>NaN\<close> length gives \<open>NaN\<close>.
\<close>

definition tension_of :: "Player \<Rightarrow> num" where
  "tension_of p =
     (case lineLength p of
        None \<Rightarrow> None
      | Some l \<Rightarrow>
          if maxLineLength p = 0
          then (if l > 0 then Some 1 else if l < 0 then Some 0 else None)
          else Some (clamp (l / maxLineLength p) 0 1))"

definition Player_updateLineTension :: "Player \<Rightarrow> Player" where
  "Player_updateLineTension p =
     (let p1 = p\<lparr>lineTension := tension_of p\<rparr>
      in if num_less (Some 0.8) (lineTension p1)
         then let tensionForce = map_option (\<lambda>t. (t - 0.8) * 0.5) (lineTension p1);
                  directionToPlayer = num2 Math_atan2 (map_option (\<lambda>hy. y p1 - hy) (hookY p1))
                                                       (map_option (\<lambda>hx. x p1 - hx) (hookX p1))
              in p1\<lparr>hookVelocity :=
                      \<lparr>num_x = num2 (+) (num_x (hookVelocity p1))
                                 (num2 (*) (map_option cos directionToPlayer) tensionForce),
                       num_y = num2 (+) (num_y (hookVelocity p1))
                                 (num2 (*) (map_option sin directionToPlayer) tensionForce)\<rparr>\<rparr>
         else p1)"

text \<open>
  The \<open>forEach\<close> over the caught fish that calls \<open>fish.escape()\<close>: the \<open>i\<close>-th fish of
  the list uses the draw \<open>rnd i\<close>.
\<close>

fun escape_all :: "ref list \<Rightarrow> (nat \<Rightarrow> real) \<Rightarrow> fish_store \<Rightarrow> fish_store" where
  "escape_all [] rnd fs = fs"
| "escape_all (r # rs) rnd fs = escape_all rs (\<lambda>i. rnd (Suc i)) (fs(r := escape (rnd 0) (fs r)))"

definition Player_breakLine :: "(nat \<Rightarrow> real) \<Rightarrow> Player \<times> fish_store \<Rightarrow> Player \<times> fish_store" where
  "Player_breakLine rnd = (\<lambda>(p, fs).
     (let p1 = p\<lparr>lineBroken := True, isCasting := False, isReeling := False\<rparr>;
          fs1 = escape_all (caughtFish p1) rnd fs;
          p2 = p1\<lparr>caughtFish := []\<rparr>
      in (Player_resetHook (Player_emit LineBroken p2), fs1)))"

text \<open>\<open>(fish.weight || 1) * 0.1\<close> summed over the caught fish; a Fish has no \<open>weight\<close>.\<close>

definition Player_applyFishResistance :: "Player \<Rightarrow> Player" where
  "Player_applyFishResistance p =
     (let totalResistance = real (length (caughtFish p)) * 0.1
      in p\<lparr>hookVelocity :=
             \<lparr>num_x = map_option (\<lambda>v. v * (1 - totalResistance)) (num_x (hookVelocity p)),
              num_y = map_option (\<lambda>v. v * (1 - totalResistance)) (num_y (hookVelocity p))\<rparr>\<rparr>)"

text \<open>
  \<open>_updateHookPhysics\<close>, in two parts. \<open>Player_moveHook\<close> is its first half, in the
  order of the source: gravity on the vertical velocity; air resistance above the water
  level, water resistance below (also when the hook's height is \<open>NaN\<close>); the wind's
  nudge while the hook is above water; the new hook position.
\<close>

definition wind_above_water :: "Player \<Rightarrow> real" where
  "wind_above_water p =
     (case weatherEffects p of
        Some w \<Rightarrow> if windForce w > 0 \<and> num_less (hookY p) (Some (waterLevel p))
                  then windForce w * 0.01 else 0
      | None \<Rightarrow> 0)"

definition Player_moveHook :: "real \<Rightarrow> Player \<Rightarrow> Player" where
  "Player_moveHook deltaTime p =
     (let deltaSeconds = deltaTime / 1000;
          vy1 = map_option (\<lambda>v. v + gravity p * deltaSeconds * 60) (num_y (hookVelocity p));
          res = (if num_less (hookY p) (Some (waterLevel p))
                 then airResistance p else waterResistance p);
          vx2 = map_option (\<lambda>v. v * res) (num_x (hookVelocity p));
          vy2 = map_option (\<lambda>v. v * res) vy1;
          vx3 = map_option (\<lambda>v. v + wind_above_water p) vx2
      in p\<lparr>hookVelocity := \<lparr>num_x = vx3, num_y = vy2\<rparr>,
            hookX := num2 (\<lambda>h v. h + v * deltaSeconds * 60) (hookX p) vx3,
            hookY := num2 (\<lambda>h v. h + v * deltaSeconds * 60) (hookY p) vy2\<rparr>)"

definition Player_updateHookPhysics ::
    "real \<Rightarrow> (nat \<Rightarrow> real) \<Rightarrow> Player \<times> fish_store \<Rightarrow> Player \<times> fish_store" where
  "Player_updateHookPhysics deltaTime rnd = (\<lambda>(p, fs).
     if \<not> isCasting p \<and> \<not> isReeling p then (p, fs)
     else
       let p6 = Player_updateLineTension (Player_updateLineLength (Player_moveHook deltaTime p));
           (p7, fs7) = (if num_less (Some (maxLineLength p6)) (lineLength p6)
                        then Player_breakLine rnd (p6, fs) else (p6, fs))
       in if length (caughtFish p7) > 0
          then (Player_applyFishResistance p7, fs7)
          else (p7, fs7))"

subsection \<open>Reeling\<close>

definition startReeling :: "Player \<Rightarrow> Player" where
  "startReeling p =
     (if player_destroyed p \<or> isReeling p \<or> \<not> isCasting p then p
      else Player_emit ReelingStarted (p\<lparr>isReeling := True, isCasting := False\<rparr>))"

definition stopReeling :: "Player \<Rightarrow> Player" where
  "stopReeling p =
     (if player_destroyed p then p else Player_emit ReelingStopped (p\<lparr>isReeling := False\<rparr>))"

definition handleTouchReel :: "Player \<Rightarrow> Player" where
  "handleTouchReel p = startReeling p"

text \<open>Addition and \<open>Math.max(0, _)\<close> on scores, where \<open>None\<close> is \<open>NaN\<close>.\<close>

definition add_score :: "real option \<Rightarrow> real option \<Rightarrow> real option" where
  "add_score a b = (case (a, b) of (Some u, Some v) \<Rightarrow> Some (u + v) | _ \<Rightarrow> None)"

definition sub_score_floor0 :: "real option \<Rightarrow> real option \<Rightarrow> real option" where
  "sub_score_floor0 a b = (case (a, b) of (Some u, Some v) \<Rightarrow> Some (max 0 (u - v)) | _ \<Rightarrow> None)"

definition Player_completeReeling :: "Player \<times> fish_store \<Rightarrow> Player \<times> fish_store" where
  "Player_completeReeling = (\<lambda>(p, fs).
     (let p1 = p\<lparr>isReeling := False, isCasting := False\<rparr>;
          p2 = p1\<lparr>totalScore := fold (\<lambda>r t. add_score t (getScore (fs r))) (caughtFish p1)
                                   (totalScore p1)\<rparr>;
          p3 = p2\<lparr>fishesCaught := fishesCaught p2 + int (length (caughtFish p2))\<rparr>;
          p4 = Player_emit ReelingComplete p3
      in (Player_resetHook (p4\<lparr>caughtFish := []\<rparr>), fs)))"

text \<open>
  The reeling force after \<^verbatim>\<open>if (this.powerUpEffects.reelingSpeed) reelingForce *=
  this.powerUpEffects.reelingSpeed\<close>. The property read finds the entry stored under the
  power-up \<^emph>\<open>type\<close> \<open>reelingSpeed\<close>, which is a whole effect object: truthy, and the
  product is \<open>NaN\<close>. Without such an entry it finds the \<open>reelingSpeed\<close> of the
  prototype, if an effect object has been made the prototype and has one: a number,
  which multiplies the force unless it is zero.
\<close>

definition reelingForce_with_powerUp :: "Player \<Rightarrow> real \<Rightarrow> num" where
  "reelingForce_with_powerUp p force =
     (case powerUpEffects p ''reelingSpeed'' of
        Some _ \<Rightarrow> None
      | None \<Rightarrow>
          (case powerUpEffects_proto p of
             None \<Rightarrow> Some force
           | Some e \<Rightarrow>
               (case effect_reelingSpeed e of
                  None \<Rightarrow> Some force
                | Some v \<Rightarrow> if v = 0 then Some force else Some (force * v))))"

definition Player_updateReeling :: "real \<Rightarrow> Player \<times> fish_store \<Rightarrow> Player \<times> fish_store" where
  "Player_updateReeling deltaTime = (\<lambda>(p, fs).
     if \<not> isReeling p then (p, fs)
     else
       let directionToPlayer = num2 Math_atan2 (map_option (\<lambda>hy. y p - hy) (hookY p))
                                                (map_option (\<lambda>hx. x p - hx) (hookX p));
           f0 = reelingSpeed p;
           f1 = (if length (caughtFish p) > 0
                 then f0 * (1 - real (length (caughtFish p)) * 0.3) else f0);
           reelingForce = reelingForce_with_powerUp p f1;
           p1 = p\<lparr>hookVelocity :=
                    \<lparr>num_x = num2 (*) (map_option cos directionToPlayer) reelingForce,
                     num_y = num2 (*) (map_option sin directionToPlayer) reelingForce\<rparr>\<rparr>
       in if num_le (lineLength p1) (Some (reelingDistance p1))
          then Player_completeReeling (p1, fs)
          else (p1, fs))"

subsection \<open>Catching\<close>

text \<open>
  \<open>checkFishCollision\<close>: the hook's box against the fish's; every comparison of
  \<open>rectangleCollision\<close> with a \<open>NaN\<close> coordinate of the hook is false.
\<close>

definition checkFishCollision :: "ref option \<Rightarrow> Player \<Rightarrow> fish_store \<Rightarrow> bool" where
  "checkFishCollision fish p fs =
     (case fish of
        None \<Rightarrow> False
      | Some r \<Rightarrow>
          if isCaught (fs r) then False
          else (case (hookX p, hookY p) of
                  (Some hx, Some hy) \<Rightarrow>
                    checkCollision \<lparr>x = hx - hookSize p / 2, y = hy - hookSize p / 2,
                                    target_radius = None, target_width = Some (hookSize p),
                                    target_height = Some (hookSize p)\<rparr> (fs r)
                | _ \<Rightarrow> False))"

text \<open>
  \<open>Math.random() > catchChance * 0.8\<close>, where \<open>catchChance\<close> is \<open>NaN\<close> (and the test
  false) when the hook's effectiveness or the weather's fish activity is not a number.
\<close>

definition catch_fails :: "real \<Rightarrow> Player \<Rightarrow> bool" where
  "catch_fails r p =
     (case (hookEffectiveness p, weatherEffects p) of
        (Some e, Some w) \<Rightarrow> r > e * fishActivity w * 0.8
      | _ \<Rightarrow> False)"

definition catchFish :: "ref option \<Rightarrow> real \<Rightarrow> Player \<times> fish_store \<Rightarrow> Player \<times> fish_store" where
  "catchFish fish r = (\<lambda>(p, fs).
     case fish of
       None \<Rightarrow> (p, fs)
     | Some c \<Rightarrow>
         if player_destroyed p \<or> isCaught (fs c) \<or> c \<in> set (caughtFish p) then (p, fs)
         else if catch_fails r p then (p, fs)
         else
           let fs1 = fs(c := Fish_catch (fs c));
               p1 = p\<lparr>caughtFish := caughtFish p @ [c]\<rparr>;
               score = getScore (fs1 c);
               p2 = p1\<lparr>totalScore := add_score (totalScore p1) score,
                       fishesCaught := fishesCaught p1 + 1\<rparr>
           in (Player_emit (FishCaught c score) p2, fs1))"

text \<open>
  \<open>handleFishEscape(fish, escapeChance = 0.1)\<close>: \<open>r1\<close> is the draw compared with the
  chance, \<open>r2\<close> the draw of the fish's \<open>escape()\<close>. \<open>splice\<close> removes the first
  occurrence.
\<close>

definition handleFishEscape ::
    "ref option \<Rightarrow> real option \<Rightarrow> real \<Rightarrow> real \<Rightarrow> Player \<times> fish_store \<Rightarrow> Player \<times> fish_store" where
  "handleFishEscape fish escapeChance r1 r2 = (\<lambda>(p, fs).
     if r1 < (case escapeChance of None \<Rightarrow> 0.1 | Some c \<Rightarrow> c)
     then (case fish of
             None \<Rightarrow> (p, fs)
           | Some c \<Rightarrow>
               if c \<in> set (caughtFish p)
               then let p1 = p\<lparr>caughtFish := remove1 c (caughtFish p)\<rparr>;
                        fs1 = fs(c := escape r2 (fs c));
                        score = getScore (fs1 c);
                        p2 = p1\<lparr>totalScore := sub_score_floor0 (totalScore p1) score,
                                fishesCaught := max 0 (fishesCaught p1 - 1)\<rparr>
                    in (Player_emit (FishEscaped c score) p2, fs1)
               else (p, fs))
     else (p, fs))"

subsection \<open>Power-ups, settings, reset\<close>

text \<open>
  \<open>applyPowerUp\<close>: \<open>now\<close> is the value of \<open>Date.now()\<close>. The assignment
  \<^verbatim>\<open>this.powerUpEffects[powerUp.type] = powerUp.effect\<close> stores an own property, except
  for the type \<open>__proto__\<close>, where it makes the effect object the prototype.
\<close>

definition applyPowerUp :: "PowerUp option \<Rightarrow> real \<Rightarrow> Player \<Rightarrow> Player" where
  "applyPowerUp powerUp now p =
     (case powerUp of
        None \<Rightarrow> p
      | Some pu \<Rightarrow>
          if player_destroyed p then p
          else let e = powerUp_effect pu;
                   p1 = (case effect_maxLineLength e of
                           Some v \<Rightarrow> p\<lparr>maxLineLength := v\<rparr> | None \<Rightarrow> p);
                   p2 = (case effect_reelingSpeed e of
                           Some v \<Rightarrow> p1\<lparr>reelingSpeed := v\<rparr> | None \<Rightarrow> p1);
                   p3 = (case effect_castingPower e of
                           Some v \<Rightarrow> p2\<lparr>maxCastingPower := v\<rparr> | None \<Rightarrow> p2);
                   p4 = p3\<lparr>player_activePowerUps :=
                             player_activePowerUps p3 @ [pu\<lparr>powerUp_startTime := now\<rparr>]\<rparr>;
                   p5 = (if powerUp_type pu = ''__proto__''
                         then p4\<lparr>powerUpEffects_proto := Some e\<rparr>
                         else p4\<lparr>powerUpEffects := (powerUpEffects p4)(powerUp_type pu \<mapsto> e)\<rparr>)
               in Player_emit PowerUpApplied p5)"

definition truthy :: "real option \<Rightarrow> bool" where
  "truthy v = (case v of None \<Rightarrow> False | Some n \<Rightarrow> n \<noteq> 0)"

text \<open>
  One power-up in \<open>_updatePowerUps\<close>. \<^verbatim>\<open>delete this.powerUpEffects[powerUp.type]\<close>
  removes an own property; for the type \<open>__proto__\<close> there is none and the prototype
  stays.
\<close>

definition expire_powerUp :: "real \<Rightarrow> PowerUp \<Rightarrow> Player \<Rightarrow> Player" where
  "expire_powerUp now pu p =
     (if now - powerUp_startTime pu \<ge> powerUp_duration pu
      then let p1 = p\<lparr>powerUpEffects := (powerUpEffects p)(powerUp_type pu := None)\<rparr>;
               p2 = (if truthy (effect_maxLineLength (powerUp_effect pu))
                     then p1\<lparr>maxLineLength := 300\<rparr> else p1);
               p3 = (if truthy (effect_reelingSpeed (powerUp_effect pu))
                     then p2\<lparr>reelingSpeed := 3\<rparr> else p2)
           in Player_emit PowerUpExpired p3
      else p)"

definition Player_updatePowerUps :: "real \<Rightarrow> real \<Rightarrow> Player \<Rightarrow> Player" where
  "Player_updatePowerUps deltaTime now p =
     (let pus = player_activePowerUps p;
          p1 = fold (expire_powerUp now) pus p
      in p1\<lparr>player_activePowerUps :=
              filter (\<lambda>pu. \<not> (now - powerUp_startTime pu \<ge> powerUp_duration pu)) pus\<rparr>)"

definition setHookType :: "string \<Rightarrow> Player \<Rightarrow> Player" where
  "setHookType ht p = p\<lparr>hookType := ht, hookEffectiveness := Player_getHookEffectiveness ht\<rparr>"

definition setEnvironment :: "string \<Rightarrow> Player \<Rightarrow> Player" where
  "setEnvironment env p = Player_applyEnvironmentEffects (p\<lparr>environment := env\<rparr>)"

definition setWeather :: "string \<Rightarrow> Player \<Rightarrow> Player" where
  "setWeather w p = p\<lparr>weather := w, weatherEffects := Player_getWeatherEffects w\<rparr>"

definition Player_reset :: "Player \<Rightarrow> Player" where
  "Player_reset p =
     Player_emit PlayerReset
       (Player_resetHook (p\<lparr>isCasting := False, isReeling := False, lineBroken := False,
                            caughtFish := []\<rparr>))"

text \<open>
  \<open>on\<close> and \<open>off\<close>. \<open>eventListeners\<close> is an object literal: for an event named like a
  property every object inherits, \<^verbatim>\<open>this.eventListeners[event]\<close> is that inherited
  function or object, which is truthy and has neither \<open>push\<close> nor \<open>indexOf\<close>, and the
  call throws. Nothing has been changed when it throws.
\<close>

definition Player_on :: "string \<Rightarrow> nat \<Rightarrow> Player \<Rightarrow> js_error + Player" where
  "Player_on event callback p =
     (if event \<in> set objectPrototypeKeys then Inl TypeError
      else Inr (p\<lparr>player_eventListeners :=
                   (player_eventListeners p)(event := player_eventListeners p event @ [callback])\<rparr>))"

definition Player_off :: "string \<Rightarrow> nat \<Rightarrow> Player \<Rightarrow> js_error + Player" where
  "Player_off event callback p =
     (if event \<in> set objectPrototypeKeys then Inl TypeError
      else Inr (p\<lparr>player_eventListeners :=
                   (player_eventListeners p)(event := remove1 callback (player_eventListeners p event))\<rparr>))"

subsection \<open>Update and destroy\<close>

text \<open>\<open>update\<close>: \<open>now\<close> is \<open>Date.now()\<close>, \<open>rnd\<close> the draws of the tick.\<close>

definition Player_update ::
    "real \<Rightarrow> real \<Rightarrow> (nat \<Rightarrow> real) \<Rightarrow> Player \<times> fish_store \<Rightarrow> Player \<times> fish_store" where
  "Player_update deltaTime now rnd = (\<lambda>(p, fs).
     if player_destroyed p then (p, fs)
     else let (p1, fs1) = Player_updateHookPhysics deltaTime rnd (p\<lparr>lastUpdateTime := deltaTime\<rparr>, fs);
              (p2, fs2) = Player_updateReeling deltaTime (p1, fs1)
          in (Player_updatePowerUps deltaTime now p2, fs2))"

definition Player_destroy :: "(nat \<Rightarrow> real) \<Rightarrow> Player \<times> fish_store \<Rightarrow> Player \<times> fish_store" where
  "Player_destroy rnd = (\<lambda>(p, fs).
     (let p1 = p\<lparr>player_destroyed := True, player_isActive := False\<rparr>;
          fs1 = escape_all (caughtFish p1) rnd fs;
          p2 = p1\<lparr>caughtFish := [], player_activePowerUps := [], powerUpEffects := (\<lambda>_. None),
                  powerUpEffects_proto := None, player_eventListeners := (\<lambda>_. [])\<rparr>
      in (Player_emit PlayerDestroyed p2, fs1)))"

subsection \<open>The public operations\<close>

text \<open>
  The operations a caller can invoke on a player, each with the values the host supplies
  during the call, and the states reachable from the constructor. An operation returns
  the new state or the error it throws; the two that can throw (\<open>on\<close>, \<open>off\<close>) change
  nothing before they do. Fish objects are shared, so between two operations on the
  player the store may change arbitrarily.
\<close>

datatype player_op =
    Cast real real real | HandleTouchCast Vector2 Vector2 real
  | StartReeling | StopReeling | HandleTouchReel
  | PlayerUpdate real real "nat \<Rightarrow> real"
  | CatchFish "ref option" real
  | HandleFishEscape "ref option" "real option" real real
  | ApplyPowerUp "PowerUp option" real
  | SetHookType string | SetEnvironment string | SetWeather string
  | PlayerReset' | PlayerOn string nat | PlayerOff string nat
  | PlayerDestroy "nat \<Rightarrow> real"

fun player_apply :: "player_op \<Rightarrow> Player \<times> fish_store \<Rightarrow> js_error + Player \<times> fish_store" where
  "player_apply (Cast pw angle r) (p, fs) = Inr (cast pw angle r p, fs)"
| "player_apply (HandleTouchCast a b r) (p, fs) = Inr (handleTouchCast a b r p, fs)"
| "player_apply StartReeling (p, fs) = Inr (startReeling p, fs)"
| "player_apply StopReeling (p, fs) = Inr (stopReeling p, fs)"
| "player_apply HandleTouchReel (p, fs) = Inr (handleTouchReel p, fs)"
| "player_apply (PlayerUpdate dt now rnd) s = Inr (Player_update dt now rnd s)"
| "player_apply (CatchFish fish r) s = Inr (catchFish fish r s)"
| "player_apply (HandleFishEscape fish c r1 r2) s = Inr (handleFishEscape fish c r1 r2 s)"
| "player_apply (ApplyPowerUp pu now) (p, fs) = Inr (applyPowerUp pu now p, fs)"
| "player_apply (SetHookType ht) (p, fs) = Inr (setHookType ht p, fs)"
| "player_apply (SetEnvironment e) (p, fs) = Inr (setEnvironment e p, fs)"
| "player_apply (SetWeather w) (p, fs) = Inr (setWeather w p, fs)"
| "player_apply PlayerReset' (p, fs) = Inr (Player_reset p, fs)"
| "player_apply (PlayerOn e c) (p, fs) = map_sum id (\<lambda>q. (q, fs)) (Player_on e c p)"
| "player_apply (PlayerOff e c) (p, fs) = map_sum id (\<lambda>q. (q, fs)) (Player_off e c p)"
| "player_apply (PlayerDestroy rnd) s = Inr (Player_destroy rnd s)"

inductive player_reachable :: "Player \<times> fish_store \<Rightarrow> bool" where
  constructed: "player_reachable (Player_new options, fs)"
| operation: "player_reachable s \<Longrightarrow> player_apply op s = Inr s' \<Longrightarrow> player_reachable s'"
| fish_changed: "player_reachable (p, fs) \<Longrightarrow> player_reachable (p, fs')"

section \<open>TouchController\<close>

text \<open>
  The touch path of the controller: pointer tracking, gesture classification on
  pointer-up, the zone-gated game actions, the configuration setters and \<open>destroy\<close>.
  Left out are the mouse handlers, the long-press and orientation timers (deferred
  callbacks), haptic feedback and the device probes. The controller holds references to
  the player and to the game; here the player is passed with the controller's state and
  what a handler reads of the game (\<open>isPaused\<close>, \<open>currentMode\<close>) is an argument.
\<close>

record TouchObj =
  touch_id :: "nat option"
  startX :: real
  startY :: real
  currentX :: real
  currentY :: real
  previousX :: real
  previousY :: real
  deltaX :: real
  deltaY :: real
  startTime :: real
  touch_lastMoveTime :: real
  touch_isActive :: bool

definition createTouchObject :: TouchObj where
  "createTouchObject = \<lparr>touch_id = None, startX = 0, startY = 0, currentX = 0, currentY = 0,
     previousX = 0, previousY = 0, deltaX = 0, deltaY = 0, startTime = 0,
     touch_lastMoveTime = 0, touch_isActive = False\<rparr>"

record Canvas =
  canvas_width :: real
  rect_left :: real
  rect_top :: real
  rect_width :: real
  rect_height :: real

record TouchZones =
  casting_zone :: Rect
  reeling_zone :: Rect
  player_zone :: Rect

datatype gesture =
    Tap Vector2 real
  | DoubleTap Vector2 real
  | Swipe Vector2 Vector2 real real string real
  | Pinch "real option" Vector2 real

record GameView =
  view_isPaused :: bool
  view_currentMode :: "string option"

text \<open>A browser touch of \<open>event.changedTouches\<close>: identifier, clientX, clientY.\<close>

type_synonym touch = "nat \<times> real \<times> real"

record TouchController =
  canvas :: Canvas
  tc_isEnabled :: bool
  tc_destroyed :: bool
  currentMode :: string
  activeTouches :: "(nat \<times> TouchObj) list"
  touchPool :: "TouchObj list"
  maxTouches :: real
  touchTimeout :: real
  touchSensitivity :: real
  gestureThreshold :: real
  doubleTapDelay :: real
  longPressDelay :: real
  swipeMinDistance :: real
  pinchThreshold :: real
  throttleInterval :: real
  tc_lastMoveTime :: real
  moveThrottle :: bool
  canvasScale :: real
  canvasOffset :: Vector2
  touchZones :: TouchZones
  lastGesture :: "gesture option"
  lastTapTime :: real
  lastTapPosition :: "Vector2 option"
  gestureInProgress :: bool
  customGestures :: "string \<Rightarrow> nat option"
  audioFeedbackEnabled :: bool
  reducedMotion :: bool
  assistiveMode :: bool
  tc_eventListeners :: "string \<Rightarrow> nat list"

record TouchControllerOptions =
  tcopt_canvas :: "Canvas option"
  tcopt_maxTouches :: "real option"
  tcopt_touchTimeout :: "real option"
  tcopt_touchSensitivity :: "real option"
  tcopt_gestureThreshold :: "real option"
  tcopt_doubleTapDelay :: "real option"
  tcopt_longPressDelay :: "real option"
  tcopt_swipeMinDistance :: "real option"
  tcopt_pinchThreshold :: "real option"
  tcopt_throttleInterval :: "real option"

definition mode_of :: "GameView option \<Rightarrow> string" where
  "mode_of gs = (case gs of None \<Rightarrow> ''fishing''
                 | Some g \<Rightarrow> or_str (view_currentMode g) ''fishing'')"

definition paused :: "GameView option \<Rightarrow> bool" where
  "paused gs = (case gs of None \<Rightarrow> False | Some g \<Rightarrow> view_isPaused g)"

definition TouchController_initializeTouchZones :: "Canvas \<Rightarrow> Player option \<Rightarrow> TouchZones" where
  "TouchController_initializeTouchZones c pl =
     \<lparr>casting_zone = \<lparr>x = 0, y = 0, width = rect_width c, height = rect_height c * 0.4\<rparr>,
      reeling_zone = \<lparr>x = 0, y = rect_height c * 0.4, width = rect_width c,
                      height = rect_height c * 0.6\<rparr>,
      player_zone = \<lparr>x = (case pl of None \<Rightarrow> rect_width c / 2
                                | Some p \<Rightarrow> if x p = 0 then rect_width c / 2 else x p) - 44,
                     y = (case pl of None \<Rightarrow> 50 | Some p \<Rightarrow> if y p = 0 then 50 else y p) - 44,
                     width = 88, height = 88\<rparr>\<rparr>"

text \<open>
  The constructor throws when no canvas is given. \<open>canvasScale\<close> is
  \<open>rect.width / (canvas.width || rect.width)\<close>.
\<close>

definition TouchController_new ::
    "TouchControllerOptions \<Rightarrow> Player option \<Rightarrow> GameView option \<Rightarrow> js_error + TouchController" where
  "TouchController_new options pl gs =
     (case tcopt_canvas options of
        None \<Rightarrow> Inl (Error ''TouchController requires a canvas element'')
      | Some c \<Rightarrow>
          (let mt = or_num (tcopt_maxTouches options) 10
           in Inr \<lparr>canvas = c,
                   tc_isEnabled = True,
                   tc_destroyed = False,
                   currentMode = mode_of gs,
                   activeTouches = [],
                   touchPool = replicate (nat \<lceil>mt * 2\<rceil>) createTouchObject,
                   maxTouches = mt,
                   touchTimeout = or_num (tcopt_touchTimeout options) 5000,
                   touchSensitivity = or_num (tcopt_touchSensitivity options) 1.0,
                   gestureThreshold = or_num (tcopt_gestureThreshold options) 10,
                   doubleTapDelay = or_num (tcopt_doubleTapDelay options) 300,
                   longPressDelay = or_num (tcopt_longPressDelay options) 500,
                   swipeMinDistance = or_num (tcopt_swipeMinDistance options) 50,
                   pinchThreshold = or_num (tcopt_pinchThreshold options) 20,
                   throttleInterval = or_num (tcopt_throttleInterval options) 16,
                   tc_lastMoveTime = 0,
                   moveThrottle = True,
                   canvasScale = rect_width c / (if canvas_width c = 0 then rect_width c
                                                 else canvas_width c),
                   canvasOffset = \<lparr>x = rect_left c, y = rect_top c\<rparr>,
                   touchZones = TouchController_initializeTouchZones c pl,
                   lastGesture = None,
                   lastTapTime = 0,
                   lastTapPosition = None,
                   gestureInProgress = False,
                   customGestures = (\<lambda>_. None),
                   audioFeedbackEnabled = False,
                   reducedMotion = False,
                   assistiveMode = False,
                   tc_eventListeners = (\<lambda>_. [])\<rparr>))"

subsection \<open>Zones and the touch pool\<close>

definition in_zone :: "Rect \<Rightarrow> real \<Rightarrow> real \<Rightarrow> bool" where
  "in_zone zone a b = (a \<ge> x zone \<and> a \<le> x zone + width zone \<and> b \<ge> y zone \<and> b \<le> y zone + height zone)"

definition isInCastingZone :: "TouchController \<Rightarrow> real \<Rightarrow> real \<Rightarrow> bool" where
  "isInCastingZone tc a b = in_zone (casting_zone (touchZones tc)) a b"

definition isInReelingZone :: "TouchController \<Rightarrow> real \<Rightarrow> real \<Rightarrow> bool" where
  "isInReelingZone tc a b = in_zone (reeling_zone (touchZones tc)) a b"

definition TouchController_isInGameArea :: "TouchController \<Rightarrow> real \<Rightarrow> real \<Rightarrow> bool" where
  "TouchController_isInGameArea tc a b =
     (a \<ge> 0 \<and> a \<le> rect_width (canvas tc) \<and> b \<ge> 0 \<and> b \<le> rect_height (canvas tc))"

definition TouchController_getTouchCoordinates :: "TouchController \<Rightarrow> touch \<Rightarrow> Vector2" where
  "TouchController_getTouchCoordinates tc t =
     (case t of (_, clientX, clientY) \<Rightarrow>
        \<lparr>x = (clientX - x (canvasOffset tc)) / canvasScale tc,
         y = (clientY - y (canvasOffset tc)) / canvasScale tc\<rparr>)"

text \<open>\<open>pop() || create\<close>, then \<open>reset()\<close>: the object handed out is always a blank one.\<close>

definition TouchController_getTouchFromPool :: "TouchController \<Rightarrow> TouchObj \<times> TouchController" where
  "TouchController_getTouchFromPool tc =
     (case touchPool tc of
        [] \<Rightarrow> (createTouchObject, tc)
      | _ \<Rightarrow> (createTouchObject, tc\<lparr>touchPool := butlast (touchPool tc)\<rparr>))"

definition TouchController_returnTouchToPool :: "TouchObj \<Rightarrow> TouchController \<Rightarrow> TouchController" where
  "TouchController_returnTouchToPool t tc =
     (if real (length (touchPool tc)) < maxTouches tc * 2
      then tc\<lparr>touchPool := touchPool tc @ [t]\<rparr> else tc)"

text \<open>\<open>Map.set\<close>: an existing key keeps its place, a new key goes last.\<close>

fun map_set :: "nat \<Rightarrow> TouchObj \<Rightarrow> (nat \<times> TouchObj) list \<Rightarrow> (nat \<times> TouchObj) list" where
  "map_set k v [] = [(k, v)]"
| "map_set k v ((k', v') # kvs) = (if k = k' then (k, v) # kvs else (k', v') # map_set k v kvs)"

definition map_delete :: "nat \<Rightarrow> (nat \<times> TouchObj) list \<Rightarrow> (nat \<times> TouchObj) list" where
  "map_delete k kvs = filter (\<lambda>kv. fst kv \<noteq> k) kvs"

subsection \<open>Gestures and game actions\<close>

text \<open>
  \<open>_handleGameTap\<close>. After the mode and player test the body of the source is a
  comment: the call of \<open>player.handleTouchReel()\<close> for a tap in the reeling zone while
  the player is casting is disabled, so neither branch does anything.
\<close>

definition TouchController_handleGameTap ::
    "Vector2 \<Rightarrow> TouchController \<times> Player option \<Rightarrow> TouchController \<times> Player option" where
  "TouchController_handleGameTap position = (\<lambda>(tc, pl).
     if currentMode tc \<noteq> ''fishing'' \<or> pl = None then (tc, pl) else (tc, pl))"

text \<open>\<open>_handleGameSwipe\<close>: \<open>r\<close> is the draw of the cast it may trigger.\<close>

definition TouchController_handleGameSwipe ::
    "Vector2 \<Rightarrow> Vector2 \<Rightarrow> real \<Rightarrow> real \<Rightarrow> TouchController \<times> Player option
      \<Rightarrow> TouchController \<times> Player option" where
  "TouchController_handleGameSwipe startPos endPos d r = (\<lambda>(tc, pl).
     case pl of
       None \<Rightarrow> (tc, pl)
     | Some p \<Rightarrow>
         if currentMode tc \<noteq> ''fishing'' then (tc, pl)
         else if isInCastingZone tc (x startPos) (y startPos) \<and> d \<ge> swipeMinDistance tc
         then (tc, Some (handleTouchCast startPos endPos r p))
         else (tc, pl))"

definition TouchController_handleDoubleTap :: "Vector2 \<Rightarrow> real \<Rightarrow> TouchController \<Rightarrow> TouchController" where
  "TouchController_handleDoubleTap position now tc = tc\<lparr>lastGesture := Some (DoubleTap position now)\<rparr>"

definition is_double_tap :: "Vector2 \<Rightarrow> real \<Rightarrow> TouchController \<Rightarrow> bool" where
  "is_double_tap position now tc =
     (lastTapTime tc \<noteq> 0 \<and> now - lastTapTime tc < doubleTapDelay tc \<and>
      (case lastTapPosition tc of
         None \<Rightarrow> False
       | Some l \<Rightarrow> \<bar>x position - x l\<bar> < gestureThreshold tc
                    \<and> \<bar>y position - y l\<bar> < gestureThreshold tc))"

definition TouchController_handleTap ::
    "Vector2 \<Rightarrow> real \<Rightarrow> TouchController \<times> Player option \<Rightarrow> TouchController \<times> Player option" where
  "TouchController_handleTap position now = (\<lambda>(tc, pl).
     if is_double_tap position now tc
     then ((TouchController_handleDoubleTap position now tc)\<lparr>lastTapTime := 0\<rparr>, pl)
     else let tc1 = tc\<lparr>lastTapTime := now, lastTapPosition := Some position\<rparr>;
              (tc2, pl2) = TouchController_handleGameTap position (tc1, pl)
          in (tc2\<lparr>lastGesture := Some (Tap position now)\<rparr>, pl2))"

definition getSwipeDirection :: "real \<Rightarrow> real \<Rightarrow> string" where
  "getSwipeDirection dx dy =
     (if \<bar>dx\<bar> > \<bar>dy\<bar> then (if dx > 0 then ''right'' else ''left'')
      else (if dy > 0 then ''down'' else ''up''))"

text \<open>
  \<open>_handleSwipe\<close>: the gesture keeps start, end, distance, duration, direction and the
  time. Its \<open>velocity\<close> (\<open>distance / duration\<close>, not finite for duration 0) is read by
  nothing and is left out.
\<close>

definition TouchController_handleSwipe ::
    "TouchObj \<Rightarrow> real \<Rightarrow> real \<Rightarrow> real \<Rightarrow> real \<Rightarrow> TouchController \<times> Player option
      \<Rightarrow> TouchController \<times> Player option" where
  "TouchController_handleSwipe t d duration now r = (\<lambda>s.
     let startPos = \<lparr>x = startX t, y = startY t\<rparr>;
         endPos = \<lparr>x = currentX t, y = currentY t\<rparr>;
         (tc1, pl1) = TouchController_handleGameSwipe startPos endPos d r s
     in (tc1\<lparr>lastGesture := Some (Swipe startPos endPos d duration
                                      (getSwipeDirection (deltaX t) (deltaY t)) now)\<rparr>, pl1))"

definition TouchController_recognizeGesture ::
    "TouchObj \<Rightarrow> real \<Rightarrow> real \<Rightarrow> real \<Rightarrow> real \<Rightarrow> TouchController \<times> Player option
      \<Rightarrow> TouchController \<times> Player option" where
  "TouchController_recognizeGesture t duration d now r = (\<lambda>(tc, pl).
     if d < gestureThreshold tc \<and> duration < longPressDelay tc
     then TouchController_handleTap \<lparr>x = currentX t, y = currentY t\<rparr> now (tc, pl)
     else if d \<ge> swipeMinDistance tc
     then TouchController_handleSwipe t d duration now r (tc, pl)
     else (tc, pl))"

definition TouchController_processTouchMove :: "TouchObj \<Rightarrow> TouchController \<Rightarrow> TouchController" where
  "TouchController_processTouchMove t tc =
     (if sqrt (deltaX t * deltaX t + deltaY t * deltaY t) > gestureThreshold tc
      then tc\<lparr>gestureInProgress := True\<rparr> else tc)"

text \<open>
  \<open>_handleMultiTouchGestures\<close>, for exactly two pointers. The scale is
  \<open>currentDistance / initialDistance\<close>; with both pointers starting at one point it is
  not a finite number (\<open>None\<close>), and \<open>Math.abs(scale - 1) > 0.1\<close> then holds unless the
  pointers still coincide (\<open>NaN\<close>).
\<close>

definition TouchController_handleMultiTouchGestures :: "real \<Rightarrow> TouchController \<Rightarrow> TouchController" where
  "TouchController_handleMultiTouchGestures now tc =
     (case activeTouches tc of
        [(_, t1), (_, t2)] \<Rightarrow>
          (let currentDistance = sqrt ((currentX t2 - currentX t1) * (currentX t2 - currentX t1)
                                     + (currentY t2 - currentY t1) * (currentY t2 - currentY t1));
               initialDistance = sqrt ((startX t2 - startX t1) * (startX t2 - startX t1)
                                     + (startY t2 - startY t1) * (startY t2 - startY t1));
               center = \<lparr>x = (currentX t1 + currentX t2) / 2, y = (currentY t1 + currentY t2) / 2\<rparr>
           in if initialDistance = 0
              then (if currentDistance = 0 then tc
                    else tc\<lparr>lastGesture := Some (Pinch None center now)\<rparr>)
              else if \<bar>currentDistance / initialDistance - 1\<bar> > 0.1
              then tc\<lparr>lastGesture := Some (Pinch (Some (currentDistance / initialDistance)) center now)\<rparr>
              else tc)
      | _ \<Rightarrow> tc)"

subsection \<open>Touch event handlers\<close>

text \<open>The loop of \<open>_handleTouchStart\<close> over \<open>event.changedTouches\<close>.\<close>

fun touchStart_loop :: "touch list \<Rightarrow> real \<Rightarrow> TouchController \<Rightarrow> TouchController" where
  "touchStart_loop [] now tc = tc"
| "touchStart_loop (t # ts) now tc =
     (if real (length (activeTouches tc)) \<ge> maxTouches tc then tc
      else let c = TouchController_getTouchCoordinates tc t
           in if \<not> TouchController_isInGameArea tc (x c) (y c) then touchStart_loop ts now tc
              else let (blank, tc1) = TouchController_getTouchFromPool tc;
                       obj = blank\<lparr>touch_id := Some (fst t), startX := x c, currentX := x c,
                                   startY := y c, currentY := y c, startTime := now,
                                   touch_lastMoveTime := now, touch_isActive := True\<rparr>
                   in touchStart_loop ts now
                        (tc1\<lparr>activeTouches := map_set (fst t) obj (activeTouches tc1)\<rparr>))"

definition TouchController_handleTouchStart ::
    "touch list \<Rightarrow> real \<Rightarrow> GameView option \<Rightarrow> TouchController \<Rightarrow> TouchController" where
  "TouchController_handleTouchStart changedTouches now gs tc =
     (if tc_destroyed tc \<or> \<not> tc_isEnabled tc then tc
      else if paused gs then tc
      else (touchStart_loop changedTouches now tc)\<lparr>currentMode := mode_of gs\<rparr>)"

fun touchMove_loop :: "touch list \<Rightarrow> real \<Rightarrow> TouchController \<Rightarrow> TouchController" where
  "touchMove_loop [] now tc = tc"
| "touchMove_loop (t # ts) now tc =
     (case map_of (activeTouches tc) (fst t) of
        None \<Rightarrow> touchMove_loop ts now tc
      | Some obj \<Rightarrow>
          (let c = TouchController_getTouchCoordinates tc t;
               obj1 = obj\<lparr>previousX := currentX obj, previousY := currentY obj,
                          currentX := x c, currentY := y c,
                          deltaX := x c - startX obj, deltaY := y c - startY obj,
                          touch_lastMoveTime := now\<rparr>;
               tc1 = tc\<lparr>activeTouches := map_set (fst t) obj1 (activeTouches tc)\<rparr>
           in touchMove_loop ts now (TouchController_processTouchMove obj1 tc1)))"

definition TouchController_handleTouchMove ::
    "touch list \<Rightarrow> real \<Rightarrow> GameView option \<Rightarrow> TouchController \<Rightarrow> TouchController" where
  "TouchController_handleTouchMove changedTouches now gs tc =
     (if tc_destroyed tc \<or> \<not> tc_isEnabled tc then tc
      else if paused gs then tc
      else if moveThrottle tc \<and> now - tc_lastMoveTime tc < throttleInterval tc then tc
      else let tc1 = touchMove_loop changedTouches now (tc\<lparr>tc_lastMoveTime := now\<rparr>)
           in if length (activeTouches tc1) \<ge> 2
              then TouchController_handleMultiTouchGestures now tc1 else tc1)"

text \<open>\<open>_handleTouchEnd\<close>: the \<open>i\<close>-th ended touch uses the draw \<open>rnd i\<close>.\<close>

fun touchEnd_loop ::
    "touch list \<Rightarrow> real \<Rightarrow> (nat \<Rightarrow> real) \<Rightarrow> TouchController \<times> Player option
      \<Rightarrow> TouchController \<times> Player option" where
  "touchEnd_loop [] now rnd s = s"
| "touchEnd_loop (t # ts) now rnd (tc, pl) =
     (case map_of (activeTouches tc) (fst t) of
        None \<Rightarrow> touchEnd_loop ts now (\<lambda>i. rnd (Suc i)) (tc, pl)
      | Some obj \<Rightarrow>
          (let duration = now - startTime obj;
               d = sqrt (deltaX obj * deltaX obj + deltaY obj * deltaY obj);
               (tc1, pl1) = TouchController_recognizeGesture obj duration d now (rnd 0) (tc, pl);
               tc2 = TouchController_returnTouchToPool obj tc1;
               tc3 = tc2\<lparr>activeTouches := map_delete (fst t) (activeTouches tc2)\<rparr>
           in touchEnd_loop ts now (\<lambda>i. rnd (Suc i)) (tc3, pl1)))"

definition TouchController_handleTouchEnd ::
    "touch list \<Rightarrow> real \<Rightarrow> (nat \<Rightarrow> real) \<Rightarrow> TouchController \<times> Player option
      \<Rightarrow> TouchController \<times> Player option" where
  "TouchController_handleTouchEnd changedTouches now rnd = (\<lambda>(tc, pl).
     if tc_destroyed tc \<or> \<not> tc_isEnabled tc then (tc, pl)
     else touchEnd_loop changedTouches now rnd (tc, pl))"

fun touchCancel_loop :: "touch list \<Rightarrow> TouchController \<Rightarrow> TouchController" where
  "touchCancel_loop [] tc = tc"
| "touchCancel_loop (t # ts) tc =
     (case map_of (activeTouches tc) (fst t) of
        None \<Rightarrow> touchCancel_loop ts tc
      | Some obj \<Rightarrow>
          (let tc1 = TouchController_returnTouchToPool obj tc
           in touchCancel_loop ts (tc1\<lparr>activeTouches := map_delete (fst t) (activeTouches tc1)\<rparr>)))"

definition TouchController_handleTouchCancel :: "touch list \<Rightarrow> TouchController \<Rightarrow> TouchController" where
  "TouchController_handleTouchCancel changedTouches tc =
     (if tc_destroyed tc then tc else touchCancel_loop changedTouches tc)"

subsection \<open>Configuration and destroy\<close>

definition adaptToScreenSize :: "real \<Rightarrow> Player option \<Rightarrow> TouchController \<Rightarrow> TouchController" where
  "adaptToScreenSize screenWidth pl tc =
     (let tc1 = (if screenWidth < 375
                 then tc\<lparr>gestureThreshold := max 5 (gestureThreshold tc * 0.7),
                         swipeMinDistance := max 30 (swipeMinDistance tc * 0.8)\<rparr>
                 else tc)
      in tc1\<lparr>touchZones := TouchController_initializeTouchZones (canvas tc1) pl\<rparr>)"

definition enableAudioFeedback :: "bool \<Rightarrow> TouchController \<Rightarrow> TouchController" where
  "enableAudioFeedback enabled tc = tc\<lparr>audioFeedbackEnabled := enabled\<rparr>"

definition setReducedMotion :: "bool \<Rightarrow> TouchController \<Rightarrow> TouchController" where
  "setReducedMotion reduced tc =
     (let tc1 = tc\<lparr>reducedMotion := reduced\<rparr>
      in if reduced then tc1\<lparr>gestureThreshold := gestureThreshold tc1 * 1.5\<rparr> else tc1)"

definition enableAssistiveMode :: "bool \<Rightarrow> TouchController \<Rightarrow> TouchController" where
  "enableAssistiveMode enabled tc =
     (let tc1 = tc\<lparr>assistiveMode := enabled\<rparr>
      in if enabled then tc1\<lparr>doubleTapDelay := doubleTapDelay tc1 * 1.5\<rparr> else tc1)"

definition setGestureThreshold :: "real \<Rightarrow> TouchController \<Rightarrow> js_error + TouchController" where
  "setGestureThreshold threshold tc =
     (if threshold \<le> 0 then Inl (Error ''Gesture threshold must be positive'')
      else Inr (tc\<lparr>gestureThreshold := threshold\<rparr>))"

definition setSensitivity :: "real \<Rightarrow> TouchController \<Rightarrow> js_error + TouchController" where
  "setSensitivity sensitivity tc =
     (if sensitivity < 0 then Inl (Error ''Touch sensitivity must be non-negative'')
      else Inr (tc\<lparr>touchSensitivity := sensitivity\<rparr>))"

definition addCustomGesture :: "string \<Rightarrow> nat \<Rightarrow> TouchController \<Rightarrow> TouchController" where
  "addCustomGesture name handler tc = tc\<lparr>customGestures := (customGestures tc)(name \<mapsto> handler)\<rparr>"

text \<open>\<open>on\<close> and \<open>off\<close> throw for an inherited property name, as the player's do.\<close>

definition TouchController_on :: "string \<Rightarrow> nat \<Rightarrow> TouchController \<Rightarrow> js_error + TouchController" where
  "TouchController_on event callback tc =
     (if event \<in> set objectPrototypeKeys then Inl TypeError
      else Inr (tc\<lparr>tc_eventListeners :=
                    (tc_eventListeners tc)(event := tc_eventListeners tc event @ [callback])\<rparr>))"

definition TouchController_off :: "string \<Rightarrow> nat \<Rightarrow> TouchController \<Rightarrow> js_error + TouchController" where
  "TouchController_off event callback tc =
     (if event \<in> set objectPrototypeKeys then Inl TypeError
      else Inr (tc\<lparr>tc_eventListeners :=
                    (tc_eventListeners tc)(event := remove1 callback (tc_eventListeners tc event))\<rparr>))"

text \<open>
  \<open>destroy\<close>: every active touch goes back to the pool, then the map and the pool are
  emptied.
\<close>

definition TouchController_destroy :: "TouchController \<Rightarrow> TouchController" where
  "TouchController_destroy tc =
     (let tc1 = tc\<lparr>tc_destroyed := True, tc_isEnabled := False\<rparr>;
          tc2 = fold (\<lambda>kv. TouchController_returnTouchToPool (snd kv)) (activeTouches tc1) tc1
      in tc2\<lparr>activeTouches := [], touchPool := [], tc_eventListeners := (\<lambda>_. []),
             customGestures := (\<lambda>_. None)\<rparr>)"

section \<open>Game\<close>

text \<open>
  The orchestrator: the constructor, the state changes (\<open>start\<close>, \<open>pause\<close>, \<open>resume\<close>,
  \<open>stop\<close>, \<open>restart\<close>, \<open>setState\<close>), one frame of the loop with its \<open>update\<close>, the
  fish pool, the handlers it registers on the player, and \<open>destroy\<close>. The fish live in
  the store \<open>fishes\<close>; \<open>fishPool\<close> and \<open>activeFish\<close> hold references, as does the
  player's \<open>caughtFish\<close>. Left out are drawing (\<open>render\<close> and its helpers, the user
  interface, audio), the window and document listeners, the private methods nothing
  calls (\<open>_gameOver\<close>, \<open>_applyPowerUp\<close>, \<open>_optimizeForBattery\<close>) and what the game's own
  \<open>_emit\<close> does: the callbacks registered on the game are foreign code without effect
  on the state kept here. \<open>animationFrameId\<close> records whether a frame is scheduled. A
  frame rate is \<open>None\<close> where the host computes \<open>Infinity\<close> (a frame of duration 0).
\<close>

record GameStats =
  stats_score :: "real option"
  stats_fishCaught :: int
  stats_casts :: int
  stats_accuracy :: real
  stats_playTime :: real
  stats_bestScore :: real

record Game =
  game_canvas :: Canvas
  game_width :: real
  game_height :: real
  gameState :: string
  isRunning :: bool
  isPaused :: bool
  game_destroyed :: bool
  targetFPS :: real
  maxDeltaTime :: real
  game_frameCount :: nat
  currentFPS :: "real option"
  game_lastFrameTime :: real
  fpsHistory :: "real option list"
  animationFrameId :: bool
  stats :: GameStats
  maxFish :: real
  fishPool :: "ref list"
  activeFish :: "ref list"
  fishes :: fish_store
  fishSpawnRate :: real
  lastFishSpawn :: real
  fishSpawnInterval :: real
  difficulty :: string
  comboCount :: int
  comboMultiplier :: real
  comboTimeout :: real
  lastComboTime :: real
  game_activePowerUps :: "(real \<times> real) list"
  lowFPSThreshold :: real
  lowFPSCount :: nat
  adaptiveQuality :: bool
  player :: "Player option"
  touchController :: "TouchController option"
  game_eventListeners :: "string \<Rightarrow> nat list"

text \<open>
  What the constructor is given and finds: \<open>gopt_canvas\<close> is the element that
  \<open>document.getElementById\<close> returns (\<open>None\<close> when there is none), \<open>gopt_bestScore\<close> the
  best score read from storage, \<open>gopt_audio\<close> whether the audio manager could be built.
\<close>

record GameOptions =
  gopt_canvas :: "Canvas option"
  gopt_canvasId :: "string option"
  gopt_width :: "real option"
  gopt_height :: "real option"
  gopt_targetFPS :: "real option"
  gopt_maxFish :: "real option"
  gopt_skipDependencies :: bool
  gopt_bestScore :: real
  gopt_audio :: bool

text \<open>
  The three handlers the game registers on its player are bound functions that nothing
  else holds; they are the callbacks 0, 1 and 2 of the player.
\<close>

definition handlePlayerCast_id :: nat where "handlePlayerCast_id = 0"
definition handleFishCaught_id :: nat where "handleFishCaught_id = 1"
definition handleReelingComplete_id :: nat where "handleReelingComplete_id = 2"

text \<open>\<open>new Fish({x: -100, y: -100, isActive: false})\<close>; the constructor ignores \<open>isActive\<close>.\<close>

definition pool_fish_options :: FishOptions where
  "pool_fish_options = no_options\<lparr>opt_x := Some (- 100), opt_y := Some (- 100)\<rparr>"

text \<open>
  \<open>_createGameEntities\<close> with \<open>_setupEntityEventListeners\<close>: the player, then the touch
  controller (which is handed the canvas, the player and the game, whose \<open>isPaused\<close> is
  false and which has no \<open>currentMode\<close>), then the listeners.
\<close>

definition Game_createGameEntities ::
    "Canvas \<Rightarrow> real \<Rightarrow> real \<Rightarrow> js_error + Player \<times> TouchController" where
  "Game_createGameEntities c w h =
     (let p = Player_new (no_player_options\<lparr>popt_x := Some (w / 2), popt_y := Some 50,
                                             popt_waterLevel := Some (h * 0.3)\<rparr>);
          options = \<lparr>tcopt_canvas = Some c, tcopt_maxTouches = None, tcopt_touchTimeout = None,
                     tcopt_touchSensitivity = None, tcopt_gestureThreshold = None,
                     tcopt_doubleTapDelay = None, tcopt_longPressDelay = None,
                     tcopt_swipeMinDistance = None, tcopt_pinchThreshold = None,
                     tcopt_throttleInterval = None\<rparr>
      in and_then (TouchController_new options (Some p)
                     (Some \<lparr>view_isPaused = False, view_currentMode = None\<rparr>)) (\<lambda>tc.
         and_then (Player_on ''castStarted'' handlePlayerCast_id p) (\<lambda>p1.
         and_then (Player_on ''fishCaught'' handleFishCaught_id p1) (\<lambda>p2.
         and_then (Player_on ''reelingComplete'' handleReelingComplete_id p2) (\<lambda>p3.
         and_then (TouchController_on ''touchStart'' 0 tc) (\<lambda>tc1.
         and_then (TouchController_on ''gesture'' 1 tc1) (\<lambda>tc2.
         and_then (TouchController_on ''orientationChange'' 2 tc2) (\<lambda>tc3.
         Inr (p3, tc3)))))))))"

text \<open>
  The constructor. \<open>rnd r\<close> are the three draws of the constructor of fish \<open>r\<close>. The
  pool loop \<open>for (i = 0; i < maxFish * 2; i++)\<close> runs \<open>\<lceil>maxFish * 2\<rceil>\<close> times, fish
  \<open>0\<close> first. \<open>_setupCanvas\<close> sets the canvas width to the game's (it reads
  \<open>devicePixelRatio\<close> before the constructor assigns it, so it never rescales).
\<close>

definition Game_new :: "GameOptions \<Rightarrow> (ref \<Rightarrow> nat \<Rightarrow> real) \<Rightarrow> js_error + Game" where
  "Game_new options rnd =
     (case gopt_canvas options of
        None \<Rightarrow> Inl (Error (''Canvas element with id '' @ [CHR 0x27]
                              @ or_str (gopt_canvasId options) ''gameCanvas''
                              @ [CHR 0x27] @ '' not found''))
      | Some c0 \<Rightarrow>
          (let w = or_num (gopt_width options) 375;
               h = or_num (gopt_height options) 667;
               c = c0\<lparr>canvas_width := w\<rparr>;
               mf = or_num (gopt_maxFish options) 10;
               g = \<lparr>game_canvas = c,
                    game_width = w,
                    game_height = h,
                    gameState = ''menu'',
                    isRunning = False,
                    isPaused = False,
                    game_destroyed = False,
                    targetFPS = or_num (gopt_targetFPS options) 60,
                    maxDeltaTime = 1000 / 30,
                    game_frameCount = 0,
                    currentFPS = Some 0,
                    game_lastFrameTime = 0,
                    fpsHistory = [],
                    animationFrameId = False,
                    stats = \<lparr>stats_score = Some 0, stats_fishCaught = 0, stats_casts = 0,
                             stats_accuracy = 0, stats_playTime = 0,
                             stats_bestScore = gopt_bestScore options\<rparr>,
                    maxFish = mf,
                    fishPool = [0 ..< nat \<lceil>mf * 2\<rceil>],
                    activeFish = [],
                    fishes = (\<lambda>r. Fish_new pool_fish_options (rnd r)),
                    fishSpawnRate = 1.0,
                    lastFishSpawn = 0,
                    fishSpawnInterval = 2000,
                    difficulty = ''normal'',
                    comboCount = 0,
                    comboMultiplier = 1.0,
                    comboTimeout = 5000,
                    lastComboTime = 0,
                    game_activePowerUps = [],
                    lowFPSThreshold = 45,
                    lowFPSCount = 0,
                    adaptiveQuality = True,
                    player = None,
                    touchController = None,
                    game_eventListeners =
                      (if gopt_audio options
                       then (\<lambda>_. [])(''fishCaught'' := [0], ''castStarted'' := [1],
                                      ''gameOver'' := [2])
                       else (\<lambda>_. []))\<rparr>
           in if gopt_skipDependencies options then Inr g
              else case Game_createGameEntities c w h of
                     Inl e \<Rightarrow> Inl e
                   | Inr (p, tc) \<Rightarrow> Inr (g\<lparr>player := Some p, touchController := Some tc\<rparr>)))"

subsection \<open>State changes\<close>

definition enable_touch :: "bool \<Rightarrow> Game \<Rightarrow> Game" where
  "enable_touch b g =
     g\<lparr>touchController := map_option (\<lambda>tc. tc\<lparr>tc_isEnabled := b\<rparr>) (touchController g)\<rparr>"

definition Game_pause :: "Game \<Rightarrow> Game" where
  "Game_pause g =
     (if game_destroyed g \<or> \<not> isRunning g \<or> isPaused g then g
      else enable_touch False (g\<lparr>isPaused := True, gameState := ''paused''\<rparr>))"

text \<open>\<open>resume\<close>: \<open>now\<close> is \<open>performance.now()\<close>.\<close>

definition Game_resume :: "real \<Rightarrow> Game \<Rightarrow> Game" where
  "Game_resume now g =
     (if game_destroyed g \<or> \<not> isRunning g \<or> \<not> isPaused g then g
      else enable_touch True
             (g\<lparr>isPaused := False, gameState := ''playing'', game_lastFrameTime := now\<rparr>))"

definition Game_stop :: "Game \<Rightarrow> Game" where
  "Game_stop g =
     (if game_destroyed g \<or> \<not> isRunning g then g
      else enable_touch False
             (g\<lparr>isRunning := False, isPaused := False, gameState := ''stopped'',
                animationFrameId := False\<rparr>))"

definition Game_setState :: "string \<Rightarrow> Game \<Rightarrow> Game" where
  "Game_setState state g = g\<lparr>gameState := state\<rparr>"

text \<open>\<open>on\<close> and \<open>off\<close> throw for an inherited property name, as the player's do.\<close>

definition Game_on :: "string \<Rightarrow> nat \<Rightarrow> Game \<Rightarrow> js_error + Game" where
  "Game_on event callback g =
     (if event \<in> set objectPrototypeKeys then Inl TypeError
      else Inr (g\<lparr>game_eventListeners :=
                   (game_eventListeners g)(event := game_eventListeners g event @ [callback])\<rparr>))"

definition Game_off :: "string \<Rightarrow> nat \<Rightarrow> Game \<Rightarrow> js_error + Game" where
  "Game_off event callback g =
     (if event \<in> set objectPrototypeKeys then Inl TypeError
      else Inr (g\<lparr>game_eventListeners :=
                   (game_eventListeners g)(event := remove1 callback (game_eventListeners g event))\<rparr>))"

subsection \<open>The fish pool\<close>

text \<open>\<open>this.fishPool.pop() || null\<close>: the last fish of the pool.\<close>

definition Game_getFishFromPool :: "Game \<Rightarrow> ref option \<times> Game" where
  "Game_getFishFromPool g =
     (if fishPool g = [] then (None, g)
      else (Some (last (fishPool g)), g\<lparr>fishPool := butlast (fishPool g)\<rparr>))"

text \<open>
  \<open>_returnFishToPool\<close>: \<open>indexOf\<close> with \<open>splice\<close> removes the first occurrence; the fish
  is pushed on the pool only while the pool holds fewer than \<open>maxFish * 2\<close> fish.
\<close>

definition Game_returnFishToPool :: "ref option \<Rightarrow> Game \<Rightarrow> Game" where
  "Game_returnFishToPool fish g =
     (case fish of
        None \<Rightarrow> g
      | Some c \<Rightarrow>
          g\<lparr>fishes := (fishes g)(c := setPosition (- 100) (- 100)
                                        ((fishes g c)\<lparr>fish_isActive := False\<rparr>)),
            activeFish := remove1 c (activeFish g),
            fishPool := (if real (length (fishPool g)) < maxFish g * 2
                         then fishPool g @ [c] else fishPool g)\<rparr>)"

text \<open>\<open>_spawnFish\<close>: \<open>rnd 0\<close> draws the side, \<open>rnd 1\<close> the depth.\<close>

definition Game_spawnFish :: "(nat \<Rightarrow> real) \<Rightarrow> Game \<Rightarrow> Game" where
  "Game_spawnFish rnd g =
     (if real (length (activeFish g)) \<ge> maxFish g then g
      else case Game_getFishFromPool g of
             (None, g1) \<Rightarrow> g1
           | (Some c, g1) \<Rightarrow>
               (let px = (if rnd 0 < 0.5 then - 50 else game_width g1 + 50);
                    py = randomRange (rnd 1) (game_height g1 * 0.3) (game_height g1 - 50);
                    f1 = setPosition px py (fishes g1 c);
                    f2 = f1\<lparr>fish_isActive := True\<rparr>;
                    f3 = Fish_reset f2
                in g1\<lparr>fishes := (fishes g1)(c := f3), activeFish := activeFish g1 @ [c]\<rparr>))"

definition Game_handleFishSpawning :: "real \<Rightarrow> (nat \<Rightarrow> real) \<Rightarrow> Game \<Rightarrow> Game" where
  "Game_handleFishSpawning deltaTime rnd g =
     (let g1 = g\<lparr>lastFishSpawn := lastFishSpawn g + deltaTime\<rparr>;
          spawnInterval = fishSpawnInterval g1 / fishSpawnRate g1
      in if lastFishSpawn g1 \<ge> spawnInterval
         then (Game_spawnFish rnd g1)\<lparr>lastFishSpawn := 0\<rparr>
         else g1)"

text \<open>
  \<open>_cleanupFish\<close>: the loop \<open>for (i = length - 1; i >= 0; i--)\<close>; \<open>cleanup_loop (i + 1)\<close>
  is the loop about to run with index \<open>i\<close>. Reading \<open>fish.isActive\<close> of an index past
  the end would throw.
\<close>

definition needs_cleanup :: "Game \<Rightarrow> ref \<Rightarrow> bool" where
  "needs_cleanup g c =
     (\<not> fish_isActive (fishes g c) \<or> x (fishes g c) < - 100
      \<or> x (fishes g c) > game_width g + 100)"

fun cleanup_loop :: "nat \<Rightarrow> Game \<Rightarrow> js_error + Game" where
  "cleanup_loop 0 g = Inr g"
| "cleanup_loop (Suc i) g =
     (if i < length (activeFish g)
      then let c = activeFish g ! i
           in cleanup_loop i (if needs_cleanup g c then Game_returnFishToPool (Some c) g else g)
      else Inl TypeError)"

definition Game_cleanupFish :: "Game \<Rightarrow> js_error + Game" where
  "Game_cleanupFish g = cleanup_loop (length (activeFish g)) g"

text \<open>
  \<open>activeFish.forEach(body)\<close> where the body may remove fish from the list: the index
  runs over the length the list had at the start, and an index that is past the end
  when its turn comes is skipped. \<open>forEach_active body k n\<close> has \<open>n\<close> indices left,
  the next one \<open>k\<close>; the body is given the fish and its index.
\<close>

fun forEach_active :: "(ref \<Rightarrow> nat \<Rightarrow> Game \<Rightarrow> Game) \<Rightarrow> nat \<Rightarrow> nat \<Rightarrow> Game \<Rightarrow> Game" where
  "forEach_active body k 0 g = g"
| "forEach_active body k (Suc n) g =
     forEach_active body (Suc k) n
       (if k < length (activeFish g) then body (activeFish g ! k) k g else g)"

subsection \<open>The handlers registered on the player\<close>

definition Game_updateScore :: "real option \<Rightarrow> Game \<Rightarrow> Game" where
  "Game_updateScore points g =
     (let finalScore = map_option (\<lambda>pts. real_of_int \<lfloor>pts * comboMultiplier g\<rfloor>) points
      in g\<lparr>stats := (stats g)\<lparr>stats_score := add_score (stats_score (stats g)) finalScore\<rparr>\<rparr>)"

text \<open>\<open>_updateCombo\<close>: \<open>now\<close> is \<open>Date.now()\<close>.\<close>

definition Game_updateCombo :: "real \<Rightarrow> Game \<Rightarrow> Game" where
  "Game_updateCombo now g =
     (let g1 = g\<lparr>comboCount := comboCount g + 1, lastComboTime := now\<rparr>
      in g1\<lparr>comboMultiplier := min (1.0 + (real_of_int (comboCount g1) - 1) * 0.1) 3.0\<rparr>)"

definition Game_calculateAccuracy :: "Game \<Rightarrow> real" where
  "Game_calculateAccuracy g =
     (if stats_casts (stats g) > 0
      then (real_of_int (stats_fishCaught (stats g)) / real_of_int (stats_casts (stats g))) * 100
      else 0)"

definition Game_handlePlayerCast :: "Game \<Rightarrow> Game" where
  "Game_handlePlayerCast g = g\<lparr>stats := (stats g)\<lparr>stats_casts := stats_casts (stats g) + 1\<rparr>\<rparr>"

definition Game_handleFishCaught :: "ref \<Rightarrow> real option \<Rightarrow> real \<Rightarrow> Game \<Rightarrow> Game" where
  "Game_handleFishCaught fish score now g =
     (let g1 = g\<lparr>stats := (stats g)\<lparr>stats_fishCaught := stats_fishCaught (stats g) + 1\<rparr>\<rparr>;
          g2 = Game_updateScore score g1;
          g3 = Game_updateCombo now g2
      in Game_returnFishToPool (Some fish) g3)"

definition Game_handleReelingComplete :: "Game \<Rightarrow> Game" where
  "Game_handleReelingComplete g =
     g\<lparr>stats := (stats g)\<lparr>stats_accuracy := Game_calculateAccuracy g\<rparr>\<rparr>"

text \<open>
  One callback invocation recorded in the player's trace, as the game sees it: the
  game's own handler runs when it is the callback invoked for its event, any other
  callback is foreign. \<open>now\<close> is the \<open>Date.now()\<close> of this invocation.
\<close>

fun Game_handle :: "player_event \<times> nat \<Rightarrow> real \<Rightarrow> Game \<Rightarrow> Game" where
  "Game_handle (CastStarted, cb) now g =
     (if cb = handlePlayerCast_id then Game_handlePlayerCast g else g)"
| "Game_handle (FishCaught c score, cb) now g =
     (if cb = handleFishCaught_id then Game_handleFishCaught c score now g else g)"
| "Game_handle (ReelingComplete, cb) now g =
     (if cb = handleReelingComplete_id then Game_handleReelingComplete g else g)"
| "Game_handle _ now g = g"

fun Game_handle_all :: "(player_event \<times> nat) list \<Rightarrow> (nat \<Rightarrow> real) \<Rightarrow> Game \<Rightarrow> Game" where
  "Game_handle_all [] clock g = g"
| "Game_handle_all (e # es) clock g =
     Game_handle_all es (\<lambda>i. clock (Suc i)) (Game_handle e (clock 0) g)"

text \<open>
  A call of a method of the game's player, by the game or by anyone else who holds the
  player: the method runs on the player and the fish, and the callbacks it invokes run
  the game's handlers. (A handler runs inside \<open>_emit\<close>; it only touches the game's
  statistics, combo and fish lists and the position and activity of the fish caught,
  none of which the rest of the player's method reads, so it is run here after the
  method.) \<open>clock i\<close> is \<open>Date.now()\<close> in the \<open>i\<close>-th callback invoked.
\<close>

definition new_events :: "Player \<Rightarrow> Player \<Rightarrow> (player_event \<times> nat) list" where
  "new_events p p' = drop (length (emitted p)) (emitted p')"

definition Game_player_call ::
    "(Player \<times> fish_store \<Rightarrow> Player \<times> fish_store) \<Rightarrow> (nat \<Rightarrow> real) \<Rightarrow> Game \<Rightarrow> Game" where
  "Game_player_call method clock g =
     (case player g of
        None \<Rightarrow> g
      | Some p \<Rightarrow>
          (let (p', fs') = method (p, fishes g)
           in Game_handle_all (new_events p p') clock (g\<lparr>player := Some p', fishes := fs'\<rparr>)))"

subsection \<open>One update\<close>

text \<open>
  What the host supplies during one \<open>update\<close>: the values of \<open>Date.now()\<close> read in
  \<open>player.update\<close>, in \<open>_updateGameMechanics\<close>, in \<open>_updatePowerUps\<close> and in the callbacks
  (by index of the fish in the collision loop, then by callback), and the draws of
  \<open>Math.random()\<close> for the player, for each fish's \<open>update\<close> (by index), for each
  \<open>catchFish\<close> (by index) and for spawning.
\<close>

record Host =
  now_player :: real
  now_mechanics :: real
  now_powerUps :: real
  now_callbacks :: "nat \<Rightarrow> nat \<Rightarrow> real"
  rnd_player :: "nat \<Rightarrow> real"
  rnd_fish :: "nat \<Rightarrow> nat \<Rightarrow> real"
  rnd_catch :: "nat \<Rightarrow> real"
  rnd_spawn :: "nat \<Rightarrow> real"

definition Game_updatePlayer :: "real \<Rightarrow> Host \<Rightarrow> Game \<Rightarrow> Game" where
  "Game_updatePlayer deltaTime h g =
     Game_player_call (Player_update deltaTime (now_player h) (rnd_player h))
       (\<lambda>_. now_player h) g"

text \<open>\<open>_updateFish\<close>; a fish's schoolmates are read from the store when it is updated.\<close>

definition update_one_fish :: "real \<Rightarrow> Host \<Rightarrow> ref \<Rightarrow> nat \<Rightarrow> Game \<Rightarrow> Game" where
  "update_one_fish deltaTime h c k g =
     g\<lparr>fishes := (fishes g)(c := Fish_update deltaTime (rnd_fish h k)
                                     (map (fishes g) (schoolmates (fishes g c))) (fishes g c))\<rparr>"

definition Game_updateFish :: "real \<Rightarrow> Host \<Rightarrow> Game \<Rightarrow> Game" where
  "Game_updateFish deltaTime h g =
     forEach_active (update_one_fish deltaTime h) 0 (length (activeFish g)) g"

definition Game_updateGameMechanics :: "real \<Rightarrow> Game \<Rightarrow> Game" where
  "Game_updateGameMechanics now g =
     (if comboCount g > 0 \<and> now - lastComboTime g > comboTimeout g
      then g\<lparr>comboCount := 0, comboMultiplier := 1.0\<rparr>
      else g)"

text \<open>A power-up of the game is its start time and its duration.\<close>

definition Game_updatePowerUps :: "real \<Rightarrow> Game \<Rightarrow> Game" where
  "Game_updatePowerUps now g =
     g\<lparr>game_activePowerUps :=
         filter (\<lambda>(start, duration). \<not> now - start \<ge> duration) (game_activePowerUps g)\<rparr>"

definition collide :: "Host \<Rightarrow> ref \<Rightarrow> nat \<Rightarrow> Game \<Rightarrow> Game" where
  "collide h c k g =
     (case player g of
        None \<Rightarrow> g
      | Some p \<Rightarrow>
          if fish_isActive (fishes g c) \<and> checkFishCollision (Some c) p (fishes g)
          then Game_player_call (catchFish (Some c) (rnd_catch h k)) (now_callbacks h k) g
          else g)"

definition Game_checkFishCollisions :: "Host \<Rightarrow> Game \<Rightarrow> Game" where
  "Game_checkFishCollisions h g =
     (case player g of
        None \<Rightarrow> g
      | Some p \<Rightarrow>
          if \<not> isCasting p then g
          else forEach_active (collide h) 0 (length (activeFish g)) g)"

definition Game_updateDifficulty :: "Game \<Rightarrow> Game" where
  "Game_updateDifficulty g =
     (let minutes = stats_playTime (stats g) / 60000
      in if minutes > 5 then g\<lparr>difficulty := ''hard'', fishSpawnRate := 1.8\<rparr>
         else if minutes > 2 then g\<lparr>difficulty := ''medium'', fishSpawnRate := 1.4\<rparr>
         else g\<lparr>difficulty := ''normal'', fishSpawnRate := 1.0\<rparr>)"

definition lod_one_fish :: "ref \<Rightarrow> nat \<Rightarrow> Game \<Rightarrow> Game" where
  "lod_one_fish c k g =
     g\<lparr>fishes := (fishes g)(c := setLOD
         (distance (Some \<lparr>x = x (fishes g c), y = y (fishes g c)\<rparr>)
                   (Some \<lparr>x = game_width g / 2, y = game_height g / 2\<rparr>))
         (fishes g c))\<rparr>"

definition Game_updateLOD :: "Game \<Rightarrow> Game" where
  "Game_updateLOD g = forEach_active lod_one_fish 0 (length (activeFish g)) g"

text \<open>\<open>update\<close>. The result is an error when \<open>_cleanupFish\<close> throws.\<close>

definition Game_update :: "real \<Rightarrow> Host \<Rightarrow> Game \<Rightarrow> js_error + Game" where
  "Game_update deltaTime h g =
     (if game_destroyed g then Inr g
      else let g1 = g\<lparr>stats := (stats g)\<lparr>stats_playTime := stats_playTime (stats g) + deltaTime\<rparr>\<rparr>;
               g2 = Game_updatePlayer deltaTime h g1;
               g3 = Game_updateFish deltaTime h g2;
               g4 = Game_updateGameMechanics (now_mechanics h) g3;
               g5 = Game_updatePowerUps (now_powerUps h) g4;
               g6 = Game_checkFishCollisions h g5;
               g7 = Game_handleFishSpawning deltaTime (rnd_spawn h) g6;
               g8 = Game_updateDifficulty g7;
               g9 = Game_updateLOD g8
           in Game_cleanupFish g9)"

subsection \<open>The frame loop\<close>

definition Game_adaptQuality :: "Game \<Rightarrow> Game" where
  "Game_adaptQuality g = (if maxFish g > 5 then g\<lparr>maxFish := maxFish g - 2\<rparr> else g)"

text \<open>
  \<open>_updateFPS\<close>. The sample \<open>1000 / deltaTime\<close> is \<open>Infinity\<close> for a frame of duration 0,
  and then so are the sum and the average, which is not below the threshold.
\<close>

definition Game_updateFPS :: "real \<Rightarrow> Game \<Rightarrow> Game" where
  "Game_updateFPS deltaTime g =
     (let sample = (if deltaTime = 0 then None else Some (1000 / deltaTime));
          h1 = fpsHistory g @ [sample];
          h2 = (if length h1 > 60 then tl h1 else h1);
          fps = (if None \<in> set h2 then None
                 else Some (sum_list (map the h2) / real (length h2)));
          g1 = g\<lparr>game_frameCount := game_frameCount g + 1, fpsHistory := h2, currentFPS := fps\<rparr>
      in if (case fps of None \<Rightarrow> False | Some v \<Rightarrow> v < lowFPSThreshold g1)
         then let g2 = g1\<lparr>lowFPSCount := lowFPSCount g1 + 1\<rparr>
              in if lowFPSCount g2 > 60 \<and> adaptiveQuality g2 then Game_adaptQuality g2 else g2
         else g1\<lparr>lowFPSCount := 0\<rparr>)"

text \<open>
  \<open>_gameLoop(currentTime)\<close>, one frame: an error thrown by \<open>update\<close> leaves the loop
  before the next frame is scheduled.
\<close>

definition Game_gameLoop :: "real \<Rightarrow> Host \<Rightarrow> Game \<Rightarrow> js_error + Game" where
  "Game_gameLoop currentTime h g =
     (if \<not> isRunning g \<or> game_destroyed g then Inr g
      else let deltaTime = min (currentTime - game_lastFrameTime g) (maxDeltaTime g);
               g1 = Game_updateFPS deltaTime (g\<lparr>game_lastFrameTime := currentTime\<rparr>)
           in if \<not> isPaused g1
              then and_then (Game_update deltaTime h g1)
                     (\<lambda>g2. Inr (g2\<lparr>animationFrameId := True\<rparr>))
              else Inr (g1\<lparr>animationFrameId := True\<rparr>))"

text \<open>
  \<open>start\<close>: \<open>now\<close> and \<open>currentTime\<close> are the two readings of \<open>performance.now()\<close>, the
  second one by the first frame, which \<open>start\<close> runs itself.
\<close>

definition Game_start :: "real \<Rightarrow> real \<Rightarrow> Host \<Rightarrow> Game \<Rightarrow> js_error + Game" where
  "Game_start now currentTime h g =
     (if game_destroyed g \<or> isRunning g then Inr g
      else Game_gameLoop currentTime h
             (enable_touch True
                (g\<lparr>isRunning := True, isPaused := False, gameState := ''playing'',
                   game_lastFrameTime := now\<rparr>)))"

text \<open>
  \<open>_resetGameState\<close>. The \<open>forEach\<close> returns fish to the pool while it walks the list
  they are removed from. \<open>player.reset()\<close> emits \<open>playerReset\<close>, for which the game has
  no handler.
\<close>

definition Game_resetGameState :: "Game \<Rightarrow> Game" where
  "Game_resetGameState g =
     (let g1 = g\<lparr>stats := (stats g)\<lparr>stats_score := Some 0, stats_fishCaught := 0,
                                     stats_casts := 0, stats_accuracy := 0,
                                     stats_playTime := 0\<rparr>,
                  comboCount := 0, comboMultiplier := 1.0, difficulty := ''normal'',
                  fishSpawnRate := 1.0\<rparr>;
          g2 = forEach_active (\<lambda>c k. Game_returnFishToPool (Some c)) 0 (length (activeFish g1)) g1;
          g3 = g2\<lparr>activeFish := []\<rparr>;
          g4 = g3\<lparr>player := map_option Player_reset (player g3)\<rparr>
      in g4\<lparr>game_activePowerUps := []\<rparr>)"

definition Game_restart :: "real \<Rightarrow> real \<Rightarrow> Host \<Rightarrow> Game \<Rightarrow> js_error + Game" where
  "Game_restart now currentTime h g =
     Game_start now currentTime h (Game_resetGameState (Game_stop g))"

subsection \<open>Destroy\<close>

text \<open>
  \<open>destroy\<close>. It sets \<open>destroyed\<close> before it calls \<open>stop\<close>. \<open>player.destroy()\<close> clears the
  player's listeners before it emits, so no handler of the game runs; \<open>rnd\<close> are the
  draws of the fish the player lets go. Then every fish of the two lists is destroyed.
\<close>

definition Game_destroy :: "(nat \<Rightarrow> real) \<Rightarrow> Game \<Rightarrow> Game" where
  "Game_destroy rnd g =
     (let g1 = Game_stop (g\<lparr>game_destroyed := True\<rparr>);
          g2 = (case player g1 of
                  None \<Rightarrow> g1
                | Some p \<Rightarrow> (let (p', fs') = Player_destroy rnd (p, fishes g1)
                             in g1\<lparr>player := Some p', fishes := fs'\<rparr>));
          g3 = g2\<lparr>touchController := map_option TouchController_destroy (touchController g2)\<rparr>;
          g4 = g3\<lparr>fishes := fold (\<lambda>c fs. fs(c := Fish_destroy (fs c)))
                                (activeFish g3 @ fishPool g3) (fishes g3)\<rparr>
      in g4\<lparr>activeFish := [], fishPool := [], game_eventListeners := (\<lambda>_. [])\<rparr>)"

section \<open>Record facts\<close>

text \<open>
  Selecting a coordinate of an object after updating one of its vector-valued fields;
  stated once, as simplification rules.
\<close>

lemma Player_coordinates_hookVelocity [simp]:
  fixes p :: Player
  shows "x (p\<lparr>hookVelocity := v\<rparr>) = x p" "y (p\<lparr>hookVelocity := v\<rparr>) = y p"
  by (cases p, simp)+

lemma Fish_coordinates_velocity [simp]:
  fixes f :: Fish
  shows "x (f\<lparr>velocity := v\<rparr>) = x f" "y (f\<lparr>velocity := v\<rparr>) = y f"
  by (cases f, simp)+

section \<open>MathUtils: missing arguments\<close>

lemma guarded_functions_tolerate_null:
  "distance None q = 0" "distance p None = 0"
  "distanceSquared None q = 0" "distanceSquared p None = 0"
  "magnitude None = 0" "normalize_vector None = zero_vector"
  "addVectors None v2 = zero_vector" "addVectors v1 None = zero_vector"
  "subtractVectors None v2 = zero_vector" "subtractVectors v1 None = zero_vector"
  "multiplyVector None k = zero_vector"
  "angleBetween None q = 0" "angleBetween p None = 0"
  "circleCollision None c2 = False" "circleCollision c1 None = False"
  "fastCircleCollision None c2 = False" "fastCircleCollision c1 None = False"
  "rectangleCollision None r2 = False" "rectangleCollision r1 None = False"
  "pointInCircle None c = False" "pointInCircle p None = False"
  "pointInRectangle None r = False" "pointInRectangle p None = False"
  "isInBounds None r = False" "isInBounds p None = False"
  by (simp_all add: distance_def distanceSquared_def magnitude_def normalize_vector_def
      addVectors_def subtractVectors_def multiplyVector_def angleBetween_def
      circleCollision_def fastCircleCollision_def rectangleCollision_def pointInCircle_def
      pointInRectangle_def isInBounds_def split: option.splits)

text \<open>
  C6 (the code at the failing inputs). \<open>randomPointInCircle\<close>, \<open>applyGravity\<close> and
  \<open>applyFriction\<close> have no guard, unlike the functions of
  \<open>guarded_functions_tolerate_null\<close>: with a \<open>null\<close> centre or velocity they throw
  \<open>TypeError\<close> instead of returning the zero vector.
\<close>

theorem unguarded_helpers_throw_on_null:
  "randomPointInCircle r1 r2 None rad = Inl TypeError
   \<and> applyGravity None grav deltaTime = Inl TypeError
   \<and> applyFriction None friction = Inl TypeError"
  by (simp add: randomPointInCircle_def applyGravity_def applyFriction_def Let_def)


section \<open>MathUtils: normalizeAngle\<close>

lemma shiftUp_nonneg: "0 \<le> shiftUp a"
proof (induction a rule: shiftUp.induct)
  case (1 a)
  then show ?case by (subst shiftUp.simps) simp
qed

lemma shiftDown_range: "0 \<le> a \<Longrightarrow> 0 \<le> shiftDown a \<and> shiftDown a < 2 * pi"
proof (induction a rule: shiftDown.induct)
  case (1 a)
  show ?case
  proof (cases "a \<ge> 2 * pi")
    case True
    then have "0 \<le> a - 2 * pi" by simp
    with "1.IH" True show ?thesis by (subst (1 2) shiftDown.simps) simp
  next
    case False
    with "1.prems" show ?thesis by (subst (1 2) shiftDown.simps) simp
  qed
qed

lemma normalizeAngle_range: "0 \<le> normalizeAngle a \<and> normalizeAngle a < 2 * pi"
  unfolding normalizeAngle_def using shiftDown_range [OF shiftUp_nonneg] .


subsection \<open>The loops in binary64 arithmetic\<close>

text \<open>
  The host computes \<open>angle - 2 * Math.PI\<close> in IEEE 754 binary64: the exact difference
  rounded by \<open>fl64\<close> (overflow does not occur below). \<open>PI64\<close> is the value of
  \<open>Math.PI\<close>. A loop that never exits is the value \<open>None\<close>.
\<close>

definition PI64 :: rat where
  "PI64 = 7074237752028440 / 2 ^ 51"

definition twoPI64 :: rat where
  "twoPI64 = fl64 (2 * PI64)"

partial_function (option) shiftUp64 :: "rat \<Rightarrow> rat option" where
  "shiftUp64 a = (if a < 0 then shiftUp64 (fl64 (a + twoPI64)) else Some a)"

partial_function (option) shiftDown64 :: "rat \<Rightarrow> rat option" where
  "shiftDown64 a = (if a \<ge> twoPI64 then shiftDown64 (fl64 (a - twoPI64)) else Some a)"

definition normalizeAngle64 :: "rat \<Rightarrow> rat option" where
  "normalizeAngle64 angle = Option.bind (shiftUp64 angle) shiftDown64"

lemma floor_rat_numeral_div:
  "\<lfloor>(numeral a :: rat) / numeral b\<rfloor> = numeral a div numeral b"
  using floor_divide_of_int_eq [of "numeral a" "numeral b", where ?'a = rat] by simp

lemma ceiling_rat_numeral_div:
  "\<lceil>(numeral a :: rat) / numeral b\<rceil> = - ((- numeral a) div numeral b)"
  using floor_divide_of_int_eq [of "- numeral a" "numeral b", where ?'a = rat]
  by (simp add: ceiling_def)

lemmas fl64_eval = fl64_def expo_def rne_def pow2_def bitlen.simps Let_def
  floor_rat_numeral_div ceiling_rat_numeral_div

lemma twoPI64_val: "twoPI64 = 7074237752028440 / 2 ^ 50"
  by (simp add: twoPI64_def PI64_def fl64_eval)

lemma fl64_rounds_tenth: "fl64 (1 / 10) = 3602879701896397 / 2 ^ 55"
  by (simp add: fl64_eval)

lemma fl64_ties_to_even: "fl64 (2 ^ 53 + 1) = 2 ^ 53" "fl64 (2 ^ 53 + 3) = 2 ^ 53 + 4"
  by (simp_all add: fl64_eval)

lemma absorb: "fl64 (100000000000000000000 - twoPI64) = 100000000000000000000"
  by (simp add: twoPI64_val fl64_eval)

lemma absorb_neg: "fl64 (- 100000000000000000000 + twoPI64) = - 100000000000000000000"
  by (simp add: twoPI64_val fl64_eval)

lemma shiftDown64_returns_not_1e20:
  assumes "shiftDown64 a = Some r"
  shows "a \<noteq> 100000000000000000000"
proof (rule shiftDown64.raw_induct [where P = "\<lambda>u v. u \<noteq> 100000000000000000000" and y = r])
  show "shiftDown64 a = Some r" by fact
next
  fix loop :: "rat \<Rightarrow> rat option" and b c
  assume IH: "\<And>u v. loop u = Some v \<Longrightarrow> u \<noteq> 100000000000000000000"
    and eq: "(if twoPI64 \<le> b then loop (fl64 (b - twoPI64)) else Some b) = Some c"
  show "b \<noteq> 100000000000000000000"
  proof
    assume b: "b = 100000000000000000000"
    have ge: "twoPI64 \<le> 100000000000000000000" by (simp add: twoPI64_val)
    have "loop (fl64 (100000000000000000000 - twoPI64)) = Some c"
      using eq unfolding b by (simp only: ge if_True)
    then have "loop 100000000000000000000 = Some c" by (simp only: absorb)
    from IH [OF this] show False by simp
  qed
qed

lemma shiftUp64_returns_not_minus_1e20:
  assumes "shiftUp64 a = Some r"
  shows "a \<noteq> - 100000000000000000000"
proof (rule shiftUp64.raw_induct [where P = "\<lambda>u v. u \<noteq> - 100000000000000000000" and y = r])
  show "shiftUp64 a = Some r" by fact
next
  fix loop :: "rat \<Rightarrow> rat option" and b c
  assume IH: "\<And>u v. loop u = Some v \<Longrightarrow> u \<noteq> - 100000000000000000000"
    and eq: "(if b < 0 then loop (fl64 (b + twoPI64)) else Some b) = Some c"
  show "b \<noteq> - 100000000000000000000"
  proof
    assume b: "b = - 100000000000000000000"
    have neg: "(- 100000000000000000000 :: rat) < 0" by simp
    have "loop (fl64 (- 100000000000000000000 + twoPI64)) = Some c"
      using eq unfolding b by (simp only: neg if_True)
    then have "loop (- 100000000000000000000) = Some c" by (simp only: absorb_neg)
    from IH [OF this] show False by simp
  qed
qed

text \<open>
  C7 (the code at the failing input). \<open>1e20\<close> is a binary64 number
  (\<open>10\<^sup>2\<^sup>0 = 2\<^sup>2\<^sup>0 \<cdot> 5\<^sup>2\<^sup>0\<close> and \<open>5\<^sup>2\<^sup>0 < 2\<^sup>5\<^sup>3\<close>) whose neighbours are 16384 apart, so
  subtracting \<open>2\<pi>\<close> rounds back to \<open>1e20\<close>: the second loop never exits, and for
  \<open>-1e20\<close> the first loop never exits. In exact arithmetic both loops terminate with a
  result in \<open>[0, 2\<pi>)\<close> (\<open>normalizeAngle_range\<close>).
\<close>

theorem normalizeAngle64_diverges:
  "normalizeAngle64 100000000000000000000 = None
   \<and> normalizeAngle64 (- 100000000000000000000) = None"
proof -
  have up: "shiftUp64 100000000000000000000 = Some 100000000000000000000"
    by (subst shiftUp64.simps) simp
  have down: "shiftDown64 100000000000000000000 = None"
    using shiftDown64_returns_not_1e20 [of "100000000000000000000"]
    by (cases "shiftDown64 100000000000000000000") auto
  have up': "shiftUp64 (- 100000000000000000000) = None"
    using shiftUp64_returns_not_minus_1e20 [of "- 100000000000000000000"]
    by (cases "shiftUp64 (- 100000000000000000000)") auto
  show ?thesis unfolding normalizeAngle64_def up up' by (simp add: down)
qed

section \<open>MathUtils: circle collision\<close>

lemma sqrt_search_spec:
  assumes "lo * lo \<le> n" "n < hi * hi"
  shows "sqrt_search lo hi n * sqrt_search lo hi n \<le> n
         \<and> n < Suc (sqrt_search lo hi n) * Suc (sqrt_search lo hi n)"
  using assms
proof (induction lo hi n rule: sqrt_search.induct)
  case (1 lo hi n)
  have lt: "lo < hi"
  proof (rule ccontr)
    assume "\<not> lo < hi"
    then have "hi * hi \<le> lo * lo" by (simp add: mult_le_mono)
    with "1.prems" show False by simp
  qed
  show ?case
  proof (cases "hi \<le> Suc lo")
    case True
    then have "hi = Suc lo" using lt by simp
    then show ?thesis using "1.prems" True by (subst (1 2 3 4) sqrt_search.simps) simp
  next
    case False
    let ?mid = "(lo + hi) div 2"
    show ?thesis
    proof (cases "?mid * ?mid \<le> n")
      case True
      from "1.IH"(1) [OF False refl True True "1.prems"(2)]
      show ?thesis using False True by (subst (1 2 3 4) sqrt_search.simps) (simp add: Let_def)
    next
      case F: False
      then have "n < ?mid * ?mid" by simp
      from "1.IH"(2) [OF False refl F "1.prems"(1) this]
      show ?thesis using False F by (subst (1 2 3 4) sqrt_search.simps) (simp add: Let_def)
    qed
  qed
qed

lemma isqrt_floor_sqrt: "isqrt n * isqrt n \<le> n \<and> n < Suc (isqrt n) * Suc (isqrt n)"
proof -
  have "0 * 0 \<le> n" "n < Suc n * Suc n" by simp_all
  from sqrt_search_spec [OF this] show ?thesis by (simp add: isqrt_def)
qed

lemma isqrt_eqI:
  assumes "m * m \<le> n" "n < Suc m * Suc m"
  shows "isqrt n = m"
proof (rule ccontr)
  assume ne: "isqrt n \<noteq> m"
  note s = isqrt_floor_sqrt [of n]
  show False
  proof (cases "isqrt n < m")
    case True
    then have "Suc (isqrt n) \<le> m" by simp
    then have "Suc (isqrt n) * Suc (isqrt n) \<le> m * m" by (intro mult_le_mono)
    with s assms(1) show False by simp
  next
    case False
    then have "Suc m \<le> isqrt n" using ne by simp
    then have "Suc m * Suc m \<le> isqrt n * isqrt n" by (intro mult_le_mono)
    with s assms(2) show False by simp
  qed
qed

text \<open>
  Two circles with positive radii, written as in a program: \<open>{x: 0, y: 0, radius:
  1.2}\<close> and \<open>{x: 0.8, y: 1.5, radius: 0.5}\<close> (each literal is the binary64 number
  nearest to it). In exact arithmetic the centres are 1.7 apart and the radii add up to
  1.7. Two circles with negative radii, \<open>{x: 0, y: 0, radius: -3}\<close> and
  \<open>{x: 3, y: 0, radius: -2}\<close>. And two large circles, both of radius \<open>2\<^sup>6\<^sup>0\<^sup>0\<close>, with
  centres \<open>2\<^sup>6\<^sup>0\<^sup>2\<close> apart: \<open>{x: 0, y: 0, radius: 2 ** 600}\<close> and
  \<open>{x: 2 ** 602, y: 0, radius: 2 ** 600}\<close>.
\<close>

definition circle_a :: Circle64 where
  "circle_a = \<lparr>x64 = Fin 0, y64 = Fin 0, radius64 = round64 (12 / 10)\<rparr>"

definition circle_b :: Circle64 where
  "circle_b = \<lparr>x64 = round64 (8 / 10), y64 = round64 (15 / 10), radius64 = round64 (5 / 10)\<rparr>"

definition circle_c :: Circle64 where
  "circle_c = \<lparr>x64 = Fin 0, y64 = Fin 0, radius64 = Fin (- 3)\<rparr>"

definition circle_d :: Circle64 where
  "circle_d = \<lparr>x64 = Fin 3, y64 = Fin 0, radius64 = Fin (- 2)\<rparr>"

definition circle_e :: Circle64 where
  "circle_e = \<lparr>x64 = Fin 0, y64 = Fin 0, radius64 = Fin (2 ^ 600)\<rparr>"

definition circle_f :: Circle64 where
  "circle_f = \<lparr>x64 = Fin (2 ^ 602), y64 = Fin 0, radius64 = Fin (2 ^ 600)\<rparr>"

lemma literals64:
  "round64 (12 / 10) = Fin (5404319552844595 / 4503599627370496)"
  "round64 (8 / 10) = Fin (3602879701896397 / 4503599627370496)"
  "round64 (15 / 10) = Fin (3 / 2)"
  "round64 (5 / 10) = Fin (1 / 2)"
  by (simp_all add: round64_def fl64_eval)

lemma isqrt_examples:
  "isqrt 58616163754553330047223347544064 = 7656119366529843"
  "isqrt 45635421608216258453881315393536 = 6755399441055744"
  by (rule isqrt_eqI; simp)+

lemma sqrt64_examples:
  "sqrt64 (6507701461550367 / 2251799813685248) = 7656119366529843 / 4503599627370496"
  "sqrt64 9 = 3"
  by (simp_all add: sqrt64_def expo_def pow2_def bitlen.simps Let_def floor_rat_numeral_div
      ceiling_rat_numeral_div isqrt_examples)

lemma steps64:
  "f64_mul (Fin (3602879701896397 / 4503599627370496)) (Fin (3602879701896397 / 4503599627370496))
     = Fin (1441151880758559 / 2251799813685248)"
  "f64_mul (Fin (3 / 2)) (Fin (3 / 2)) = Fin (9 / 4)"
  "f64_add (Fin (1441151880758559 / 2251799813685248)) (Fin (9 / 4))
     = Fin (6507701461550367 / 2251799813685248)"
  "f64_add (Fin (5404319552844595 / 4503599627370496)) (Fin (1 / 2))
     = Fin (7656119366529843 / 4503599627370496)"
  "f64_mul (Fin (7656119366529843 / 4503599627370496)) (Fin (7656119366529843 / 4503599627370496))
     = Fin (3253850730775183 / 1125899906842624)"
  "round64 (3602879701896397 / 4503599627370496) = Fin (3602879701896397 / 4503599627370496)"
  "round64 (3 / 2) = Fin (3 / 2)"
  "round64 3 = Fin 3" "round64 0 = Fin 0"
  "f64_mul (Fin 3) (Fin 3) = Fin 9" "f64_mul (Fin 0) (Fin 0) = Fin 0"
  "f64_add (Fin 9) (Fin 0) = Fin 9"
  "f64_add (Fin (- 3)) (Fin (- 2)) = Fin (- 5)"
  "f64_mul (Fin (- 5)) (Fin (- 5)) = Fin 25"
  by (simp_all add: round64_def fl64_eval)

lemma f64_sub_zero: "f64_sub (Fin q) (Fin 0) = round64 q"
  by (simp add: f64_sub_def)

lemma positive_radii_values:
  "distance64 (Some circle_a) (Some circle_b) = Fin (7656119366529843 / 4503599627370496)"
  "distanceSquared64 (Some circle_a) (Some circle_b) = Fin (6507701461550367 / 2251799813685248)"
  "f64_add (radius64 circle_a) (radius64 circle_b) = Fin (7656119366529843 / 4503599627370496)"
proof -
  show "distanceSquared64 (Some circle_a) (Some circle_b) = Fin (6507701461550367 / 2251799813685248)"
    by (simp only: distanceSquared64_def circle_a_def circle_b_def literals64 prod.case option.case
        Let_def Circle64.simps f64_sub_zero steps64)
  show "distance64 (Some circle_a) (Some circle_b) = Fin (7656119366529843 / 4503599627370496)"
    by (simp only: distance64_def circle_a_def circle_b_def literals64 prod.case option.case
        Let_def Circle64.simps f64_sub_zero steps64 f64_sqrt.simps sqrt64_examples)
       simp
  show "f64_add (radius64 circle_a) (radius64 circle_b) = Fin (7656119366529843 / 4503599627370496)"
    by (simp only: circle_a_def circle_b_def literals64 Circle64.simps steps64)
qed

lemma negative_radii_values:
  "distance64 (Some circle_c) (Some circle_d) = Fin 3"
  "distanceSquared64 (Some circle_c) (Some circle_d) = Fin 9"
  "f64_add (radius64 circle_c) (radius64 circle_d) = Fin (- 5)"
proof -
  show "distanceSquared64 (Some circle_c) (Some circle_d) = Fin 9"
    by (simp only: distanceSquared64_def circle_c_def circle_d_def prod.case option.case
        Let_def Circle64.simps f64_sub_zero steps64)
  show "distance64 (Some circle_c) (Some circle_d) = Fin 3"
    by (simp only: distance64_def circle_c_def circle_d_def prod.case option.case
        Let_def Circle64.simps f64_sub_zero steps64 f64_sqrt.simps sqrt64_examples)
       simp
  show "f64_add (radius64 circle_c) (radius64 circle_d) = Fin (- 5)"
    by (simp only: circle_c_def circle_d_def Circle64.simps steps64)
qed

text \<open>Powers of two are binary64 numbers below \<open>2\<^sup>1\<^sup>0\<^sup>2\<^sup>4\<close> and overflow from there on.\<close>

lemma bitlen_pow2: "bitlen (2 ^ k) = int k + 1"
proof (induction k)
  case 0
  show ?case by (simp add: bitlen.simps)
next
  case (Suc k)
  have "bitlen (2 ^ Suc k) = 1 + bitlen (2 ^ Suc k div 2)"
    by (subst bitlen.simps) simp
  then show ?case using Suc by simp
qed

lemma fl64_pow2: "fl64 (2 ^ k) = 2 ^ k"
proof -
  have e: "expo (2 ^ k) = int k"
    using bitlen_pow2 [of k] by (simp add: expo_def)
  have a: "\<bar>2 ^ k :: rat\<bar> = 2 ^ k" by simp
  have m: "max (int k) (- 1022) = int k" by simp
  show ?thesis
  proof (cases "52 \<le> k")
    case True
    then have u: "pow2 (int k - 52) = 2 ^ (k - 52)"
      by (simp add: pow2_def nat_diff_distrib')
    have q: "(2 ^ k :: rat) / 2 ^ (k - 52) = 2 ^ 52"
      using True by (simp add: power_diff)
    have r: "rne (2 ^ 52) = 2 ^ 52" by (simp add: rne_def)
    have "(2 ^ 52 :: rat) * 2 ^ (k - 52) = 2 ^ (52 + (k - 52))"
      by (simp only: power_add)
    then have "(2 ^ 52 :: rat) * 2 ^ (k - 52) = 2 ^ k"
      using True by simp
    then show ?thesis
      unfolding fl64_def Let_def a e m u q r by simp
  next
    case False
    then have u: "pow2 (int k - 52) = 1 / 2 ^ (52 - k)"
      by (simp add: pow2_def nat_diff_distrib')
    have q: "(2 ^ k :: rat) / (1 / 2 ^ (52 - k)) = of_int (2 ^ 52)"
      using False by (simp flip: power_add)
    have r: "rne (of_int (2 ^ 52)) = 2 ^ 52" unfolding rne_def Let_def by simp
    have "(2 ^ 52 :: rat) * (1 / 2 ^ (52 - k)) = 2 ^ k"
      using False by (simp add: power_diff field_simps flip: power_add)
    then show ?thesis
      unfolding fl64_def Let_def a e m u q r by simp
  qed
qed

lemma round64_pow2: "round64 (2 ^ k) = (if 1024 \<le> k then PInf else Fin (2 ^ k))"
proof -
  have "(2 ^ 1024 \<le> (2 ^ k :: rat)) = (1024 \<le> k)"
    by (rule power_increasing_iff) simp
  then show ?thesis by (simp add: round64_def fl64_pow2)
qed

lemma big_steps64:
  "f64_sub (Fin (2 ^ 602)) (Fin 0) = Fin (2 ^ 602)"
  "f64_sub (Fin 0) (Fin 0) = Fin 0"
  "f64_mul (Fin (2 ^ 602)) (Fin (2 ^ 602)) = PInf"
  "f64_add (Fin (2 ^ 600)) (Fin (2 ^ 600)) = Fin (2 ^ 601)"
  "f64_mul (Fin (2 ^ 601)) (Fin (2 ^ 601)) = PInf"
proof -
  show "f64_sub (Fin (2 ^ 602)) (Fin 0) = Fin (2 ^ 602)"
    unfolding f64_sub_zero round64_pow2 by simp
  show "f64_sub (Fin 0) (Fin 0) = Fin 0"
    unfolding f64_sub_zero by (simp add: round64_def fl64_def)
  have a: "(2 ^ 602 :: rat) * 2 ^ 602 = 2 ^ 1204" by simp
  show "f64_mul (Fin (2 ^ 602)) (Fin (2 ^ 602)) = PInf"
    unfolding f64_mul.simps a round64_pow2 by simp
  have b: "(2 ^ 600 :: rat) + 2 ^ 600 = 2 ^ 601" by simp
  show "f64_add (Fin (2 ^ 600)) (Fin (2 ^ 600)) = Fin (2 ^ 601)"
    unfolding f64_add.simps b round64_pow2 by simp
  have c: "(2 ^ 601 :: rat) * 2 ^ 601 = 2 ^ 1202" by simp
  show "f64_mul (Fin (2 ^ 601)) (Fin (2 ^ 601)) = PInf"
    unfolding f64_mul.simps c round64_pow2 by simp
qed

lemma overflow_values:
  "distance64 (Some circle_e) (Some circle_f) = PInf"
  "distanceSquared64 (Some circle_e) (Some circle_f) = PInf"
  "f64_add (radius64 circle_e) (radius64 circle_f) = Fin (2 ^ 601)"
proof -
  show "distanceSquared64 (Some circle_e) (Some circle_f) = PInf"
    by (simp only: distanceSquared64_def circle_e_def circle_f_def prod.case option.case
        Let_def Circle64.simps big_steps64 steps64 f64_add.simps)
  show "distance64 (Some circle_e) (Some circle_f) = PInf"
    by (simp only: distance64_def circle_e_def circle_f_def prod.case option.case
        Let_def Circle64.simps big_steps64 steps64 f64_add.simps f64_sqrt.simps)
  show "f64_add (radius64 circle_e) (radius64 circle_f) = Fin (2 ^ 601)"
    by (simp only: circle_e_def circle_f_def Circle64.simps big_steps64)
qed

text \<open>
  C5 (the code at the failing inputs). The claim asks that \<open>fastCircleCollision\<close>
  returns the same boolean as \<open>circleCollision\<close> for all finite circles. For the two
  circles with radii 1.2 and 0.5 the host computes the squared distance
  \<open>2.8900000000000001\<close>, whose rounded square root is the binary64 number \<open>1.7\<close>, the
  radius sum \<open>1.7\<close> and its rounded square \<open>2.8899999999999997\<close>: \<open>circleCollision\<close>
  compares \<open>1.7 <= 1.7\<close> and returns true, \<open>fastCircleCollision\<close> compares
  \<open>2.8900000000000001 <= 2.8899999999999997\<close> and returns false. For the two circles
  with radii -3 and -2, whose centres are 3 apart, \<open>circleCollision\<close> compares
  \<open>3 <= -5\<close> and returns false, \<open>fastCircleCollision\<close> compares \<open>9 <= 25\<close> and returns
  true. For the two large circles, which are apart, the squared distance \<open>2\<^sup>1\<^sup>2\<^sup>0\<^sup>4\<close> and
  the squared radius sum \<open>2\<^sup>1\<^sup>2\<^sup>0\<^sup>2\<close> both overflow to \<open>Infinity\<close>: \<open>circleCollision\<close>
  compares \<open>Infinity <= 2\<^sup>6\<^sup>0\<^sup>1\<close> and returns false, \<open>fastCircleCollision\<close> compares
  \<open>Infinity <= Infinity\<close> and returns true.
\<close>

theorem circle_collision_tests_disagree:
  "circleCollision (Some circle_a) (Some circle_b)
   \<and> \<not> fastCircleCollision (Some circle_a) (Some circle_b)
   \<and> \<not> circleCollision (Some circle_c) (Some circle_d)
   \<and> fastCircleCollision (Some circle_c) (Some circle_d)
   \<and> \<not> circleCollision (Some circle_e) (Some circle_f)
   \<and> fastCircleCollision (Some circle_e) (Some circle_f)"
  unfolding circleCollision_def fastCircleCollision_def prod.case option.case Let_def
    positive_radii_values negative_radii_values overflow_values steps64 big_steps64
  by simp

section \<open>Fish: the score is positive\<close>

text \<open>The three fields a score is computed from, besides \<open>behavior\<close>.\<close>

definition score_fields :: "Fish \<Rightarrow> real \<times> real \<times> real option" where
  "score_fields f = (width f, height f, scoreValue f)"

lemma Math_round_ge: "of_int n \<le> v + 1 / 2 \<Longrightarrow> of_int n \<le> Math_round v"
  unfolding Math_round_def by (simp add: le_floor_iff)

lemma applyBehaviorModifications_score_fields [simp]:
  "score_fields (Fish_applyBehaviorModifications f) = score_fields f"
  by (simp add: Fish_applyBehaviorModifications_def score_fields_def)

lemma initializeMovement_score_fields [simp]:
  "score_fields (Fish_initializeMovement r f) = score_fields f"
  by (simp add: Fish_initializeMovement_def Let_def)
     (simp add: score_fields_def)

lemma score_fields_simps [simp]:
  "score_fields (f\<lparr>x := a\<rparr>) = score_fields f"
  "score_fields (f\<lparr>y := a\<rparr>) = score_fields f"
  "score_fields (f\<lparr>scale := a\<rparr>) = score_fields f"
  "score_fields (f\<lparr>rotation := a\<rparr>) = score_fields f"
  "score_fields (f\<lparr>currentFrame := a\<rparr>) = score_fields f"
  "score_fields (f\<lparr>animationSpeed := a\<rparr>) = score_fields f"
  "score_fields (f\<lparr>fish_lastFrameTime := a\<rparr>) = score_fields f"
  "score_fields (f\<lparr>animationPaused := b\<rparr>) = score_fields f"
  "score_fields (f\<lparr>speed := a\<rparr>) = score_fields f"
  "score_fields (f\<lparr>velocity := v\<rparr>) = score_fields f"
  "score_fields (f\<lparr>direction := a\<rparr>) = score_fields f"
  "score_fields (f\<lparr>fish_isActive := b\<rparr>) = score_fields f"
  "score_fields (f\<lparr>isCaught := b\<rparr>) = score_fields f"
  "score_fields (f\<lparr>behavior := s\<rparr>) = score_fields f"
  "score_fields (f\<lparr>lodLevel := n\<rparr>) = score_fields f"
  "score_fields (f\<lparr>fish_destroyed := b\<rparr>) = score_fields f"
  "score_fields (f\<lparr>mobileMode := b\<rparr>) = score_fields f"
  "score_fields (f\<lparr>ai := b\<rparr>) = score_fields f"
  "score_fields (f\<lparr>schoolmates := ms\<rparr>) = score_fields f"
  "score_fields (f\<lparr>threats := ts\<rparr>) = score_fields f"
  "score_fields (f\<lparr>lastBehaviorUpdate := a\<rparr>) = score_fields f"
  "score_fields (f\<lparr>behaviorUpdateInterval := a\<rparr>) = score_fields f"
  "score_fields (f\<lparr>fish_eventListeners := l\<rparr>) = score_fields f"
  by (simp_all add: score_fields_def)

lemma avoid_threat_score_fields [simp]: "score_fields (avoid_threat t f) = score_fields f"
  by (simp add: avoid_threat_def Let_def)

lemma fold_avoid_threat_score_fields: "score_fields (fold avoid_threat ts f) = score_fields f"
  by (induction ts arbitrary: f) simp_all

lemma updateBehaviorMovement_score_fields [simp]:
  "score_fields (Fish_updateBehaviorMovement dt rnd mates f) = score_fields f"
  by (simp add: Fish_updateBehaviorMovement_def Fish_applyErraticBehavior_def
      Fish_applySchoolingBehavior_def Fish_applyAvoidanceBehavior_def
      fold_avoid_threat_score_fields Let_def)

lemma handleBoundsCollision_score_fields [simp]:
  "score_fields (Fish_handleBoundsCollision f) = score_fields f"
  by (simp add: Fish_handleBoundsCollision_def Let_def)

lemma updateMovement_score_fields [simp]:
  "score_fields (Fish_updateMovement dt rnd mates f) = score_fields f"
  by (simp add: Fish_updateMovement_def Let_def)

lemma updateAnimation_score_fields [simp]:
  "score_fields (Fish_updateAnimation dt f) = score_fields f"
  by (simp add: Fish_updateAnimation_def Let_def)

lemma fish_apply_score_fields: "score_fields (fish_apply op f) = score_fields f"
  by (cases op)
     (simp_all add: setAnimationSpeed_def pauseAnimation_def resumeAnimation_def
        setPosition_def setVelocity_def Fish_catch_def escape_def setBehavior_def
        addToSchool_def addThreat_def setAI_def setLOD_def Fish_reset_def adaptToViewport_def
        setMobileMode_def Fish_on_def Fish_off_def Fish_update_def Fish_destroy_def Let_def)

lemma fish_run_score_fields: "score_fields (fish_run ops f) = score_fields f"
  unfolding fish_run_def by (induction ops arbitrary: f) (simp_all add: fish_apply_score_fields)


lemma Fish_new_fields:
  "width (Fish_new options rnd) = or_num (opt_width options) 32"
  "height (Fish_new options rnd) = or_num (opt_height options) 32"
  "scoreValue (Fish_new options rnd) =
     map_option (\<lambda>r. Math_round (10 * r * ((or_num (opt_width options) 32
        + or_num (opt_height options) 32) / 64)))
       (Fish_getRarityValue (or_str (opt_fishType options) ''common''))"
proof -
  let ?f = "Fish_new options rnd"
  have "score_fields ?f =
    (or_num (opt_width options) 32, or_num (opt_height options) 32,
     map_option (\<lambda>r. Math_round (10 * r * ((or_num (opt_width options) 32
        + or_num (opt_height options) 32) / 64)))
       (Fish_getRarityValue (or_str (opt_fishType options) ''common'')))"
    unfolding Fish_new_def Let_def initializeMovement_score_fields
    by (simp add: score_fields_def Fish_calculateBaseScore_def)
  then show "width ?f = or_num (opt_width options) 32"
    "height ?f = or_num (opt_height options) 32"
    "scoreValue ?f =
     map_option (\<lambda>r. Math_round (10 * r * ((or_num (opt_width options) 32
        + or_num (opt_height options) 32) / 64)))
       (Fish_getRarityValue (or_str (opt_fishType options) ''common''))"
    by (simp_all add: score_fields_def)
qed

lemma rarity_ge_1:
  assumes "ft \<notin> set objectPrototypeKeys"
  shows "\<exists>r. Fish_getRarityValue ft = Some r \<and> 1 \<le> r"
proof (cases "map_of rarityMap ft")
  case None
  with assms show ?thesis by (simp add: Fish_getRarityValue_def)
next
  case (Some v)
  then have "(ft, v) \<in> set rarityMap" by (rule map_of_SomeD)
  then have "1 \<le> v" by (auto simp: rarityMap_def)
  with Some show ?thesis by (simp add: Fish_getRarityValue_def)
qed

lemma getScore_positive:
  assumes size: "16 \<le> width f + height f" and sv: "scoreValue f = Some s" and s3: "3 \<le> s"
  shows "\<exists>v. getScore f = Some v \<and> 0 < v"
proof -
  let ?m = "(width f + height f) / 64"
  have m: "1 / 4 \<le> ?m" using size by simp
  have base: "3 / 4 \<le> s * ?m"
    using mult_mono [of 3 s "1 / 4" ?m] s3 m by simp
  have up: "s * ?m \<le> s * (?m * k)" if "1 \<le> k" for k :: real
  proof -
    have "0 \<le> s * ?m" using base by linarith
    then have "s * ?m * 1 \<le> s * ?m * k" using that by (intro mult_left_mono) simp_all
    then show ?thesis by (simp add: mult.assoc)
  qed
  have r: "0 < Math_round (s * t)" if "3 / 4 \<le> s * t" for t :: real
  proof -
    have "of_int 1 \<le> Math_round (s * t)" using that by (intro Math_round_ge) simp
    then show ?thesis by simp
  qed
  have a: "0 < Math_round (s * (?m * 1.5))" using up [of "1.5"] base by (intro r) simp
  have b: "0 < Math_round (s * (?m * 1.3))" using up [of "1.3"] base by (intro r) simp
  have c: "0 < Math_round (s * ?m)" using base by (intro r) simp
  show ?thesis using a b c by (simp add: getScore_def Let_def sv)
qed

text \<open>
  C1 (as stated, refuted). A fish constructed with \<open>width: 1, height: 1\<close> and the
  defaults otherwise has \<open>sizeMultiplier = 2/64\<close>, so
  \<open>scoreValue = Math.round(0.3125) = 0\<close> and \<open>getScore() = Math.round(0) = 0\<close>.
\<close>

theorem small_fish_scores_zero:
  "scoreValue (Fish_new (no_options\<lparr>opt_width := Some 1, opt_height := Some 1\<rparr>) (\<lambda>_. 0)) = Some 0
   \<and> getScore (Fish_new (no_options\<lparr>opt_width := Some 1, opt_height := Some 1\<rparr>) (\<lambda>_. 0)) = Some 0"
proof -
  let ?f = "Fish_new (no_options\<lparr>opt_width := Some 1, opt_height := Some 1\<rparr>) (\<lambda>_. 0)"
  have sv: "scoreValue ?f = Some 0"
    by (simp add: Fish_new_fields no_options_def or_num_def or_str_def Fish_getRarityValue_def
        rarityMap_def Math_round_def)
  then show ?thesis by (simp add: getScore_def Let_def Math_round_def)
qed

text \<open>
  C1 (amended). For every fish constructed with \<open>width + height \<ge> 16\<close> (the values
  after the constructor's defaults; the default fish is 32 by 32) and a \<open>fishType\<close> that
  is not the name of a property objects inherit, whatever the other options, the
  behaviour and the random draws, and in every state reached from the constructor by
  any sequence of public operations: \<open>scoreValue\<close> is a number greater than 0 and
  \<open>getScore()\<close> returns a number greater than 0.
\<close>

theorem fish_score_positive:
  assumes size: "16 \<le> or_num (opt_width options) 32 + or_num (opt_height options) 32"
    and ft: "or_str (opt_fishType options) ''common'' \<notin> set objectPrototypeKeys"
  shows "\<exists>s v. scoreValue (fish_run ops (Fish_new options rnd)) = Some s \<and> 0 < s
             \<and> getScore (fish_run ops (Fish_new options rnd)) = Some v \<and> 0 < v"
proof -
  let ?g = "Fish_new options rnd" and ?f = "fish_run ops (Fish_new options rnd)"
  let ?m = "(or_num (opt_width options) 32 + or_num (opt_height options) 32) / 64"
  from rarity_ge_1 [OF ft] obtain r where
    r: "Fish_getRarityValue (or_str (opt_fishType options) ''common'') = Some r" and r1: "1 \<le> r"
    by blast
  have sf: "score_fields ?f = score_fields ?g" by (rule fish_run_score_fields)
  have w: "width ?f = or_num (opt_width options) 32"
    and h: "height ?f = or_num (opt_height options) 32"
    and sv: "scoreValue ?f = Some (Math_round (10 * r * ?m))"
    using sf by (simp_all add: score_fields_def Fish_new_fields r)
  have m: "1 / 4 \<le> ?m" using size by simp
  have "1 * (1 / 4) \<le> r * ?m" using r1 m by (intro mult_mono) simp_all
  then have "5 / 2 \<le> 10 * r * ?m" by simp
  then have "of_int 3 \<le> Math_round (10 * r * ?m)" by (intro Math_round_ge) simp
  then have s3: "3 \<le> Math_round (10 * r * ?m)" by simp
  from getScore_positive [of ?f, OF _ sv s3] size w h
  obtain v where "getScore ?f = Some v" "0 < v" by auto
  with sv s3 show ?thesis by auto
qed

theorem fish_score_positive_witness:
  "16 \<le> or_num (opt_width no_options) 32 + or_num (opt_height no_options) 32
   \<and> or_str (opt_fishType no_options) ''common'' \<notin> set objectPrototypeKeys
   \<and> (\<exists>s v. scoreValue (fish_run [SetBehavior ''erratic'', Catch, Escape 0] (Fish_new no_options (\<lambda>_. 0))) = Some s \<and> 0 < s
           \<and> getScore (fish_run [SetBehavior ''erratic'', Catch, Escape 0] (Fish_new no_options (\<lambda>_. 0))) = Some v \<and> 0 < v)"
proof -
  have a: "16 \<le> or_num (opt_width no_options) 32 + or_num (opt_height no_options) 32"
    by (simp add: no_options_def or_num_def)
  have b: "or_str (opt_fishType no_options) ''common'' \<notin> set objectPrototypeKeys"
    by (simp add: no_options_def or_str_def objectPrototypeKeys_def)
  show ?thesis using a b fish_score_positive [OF a b] by blast
qed

section \<open>Player: casting and reeling exclude each other\<close>

definition flags :: "Player \<Rightarrow> bool \<times> bool" where
  "flags p = (isCasting p, isReeling p)"

definition exclusive :: "Player \<Rightarrow> bool" where
  "exclusive p = (\<not> (isCasting p \<and> isReeling p))"

lemma exclusive_flags: "flags q = flags p \<Longrightarrow> exclusive q = exclusive p"
  by (simp add: flags_def exclusive_def)

lemma flags_emit [simp]: "flags (Player_emit ev p) = flags p"
  by (simp add: flags_def Player_emit_def)

lemma flags_resetHook [simp]: "flags (Player_resetHook p) = flags p"
  by (simp add: flags_def Player_resetHook_def)

lemma flags_applyEnvironmentEffects [simp]: "flags (Player_applyEnvironmentEffects p) = flags p"
  by (simp add: flags_def Player_applyEnvironmentEffects_def)

lemma flags_new: "flags (Player_new options) = (False, False)"
  by (simp add: Player_new_def Let_def) (simp add: flags_def)

lemma flags_cast: "flags (cast pw angle r p) = (if player_destroyed p \<or> isCasting p \<or> isReeling p then flags p else (True, False))"
  by (simp add: cast_def Let_def flags_def Player_emit_def split: option.splits)

lemma exclusive_cast: "exclusive p \<Longrightarrow> exclusive (cast pw angle r p)"
  using flags_cast [of pw angle r p] by (auto simp: exclusive_def flags_def split: if_splits)

lemma exclusive_handleTouchCast: "exclusive p \<Longrightarrow> exclusive (handleTouchCast a b r p)"
  by (simp add: handleTouchCast_def Let_def exclusive_cast)

lemma exclusive_startReeling: "exclusive p \<Longrightarrow> exclusive (startReeling p)"
  by (simp add: startReeling_def exclusive_def Player_emit_def)

lemma exclusive_stopReeling: "exclusive p \<Longrightarrow> exclusive (stopReeling p)"
  by (simp add: stopReeling_def exclusive_def Player_emit_def)

lemma flags_updateLineLength [simp]: "flags (Player_updateLineLength p) = flags p"
  by (simp add: flags_def Player_updateLineLength_def)

lemma flags_updateLineTension [simp]: "flags (Player_updateLineTension p) = flags p"
  by (simp add: Player_updateLineTension_def Let_def flags_def)

lemma flags_applyFishResistance [simp]: "flags (Player_applyFishResistance p) = flags p"
  by (simp add: flags_def Player_applyFishResistance_def Let_def)

lemma flags_breakLine: "flags (fst (Player_breakLine rnd (p, fs))) = (False, False)"
  by (simp add: Player_breakLine_def Let_def) (simp add: flags_def)

lemma exclusive_False: "flags p = (False, False) \<Longrightarrow> exclusive p"
  by (simp add: flags_def exclusive_def)

lemma flags_update_simps [simp]:
  "flags (p\<lparr>hookVelocity := v\<rparr>) = flags p"
  "flags (p\<lparr>hookX := a\<rparr>) = flags p"
  "flags (p\<lparr>hookY := a\<rparr>) = flags p"
  "flags (p\<lparr>lastUpdateTime := t\<rparr>) = flags p"
  "flags (p\<lparr>totalScore := sc\<rparr>) = flags p"
  "flags (p\<lparr>fishesCaught := n\<rparr>) = flags p"
  "flags (p\<lparr>caughtFish := cs\<rparr>) = flags p"
  "flags (p\<lparr>maxLineLength := t\<rparr>) = flags p"
  "flags (p\<lparr>reelingSpeed := t\<rparr>) = flags p"
  "flags (p\<lparr>maxCastingPower := t\<rparr>) = flags p"
  "flags (p\<lparr>player_activePowerUps := pus\<rparr>) = flags p"
  "flags (p\<lparr>powerUpEffects := pe\<rparr>) = flags p"
  "flags (p\<lparr>powerUpEffects_proto := pp\<rparr>) = flags p"
  "flags (p\<lparr>hookType := s\<rparr>) = flags p"
  "flags (p\<lparr>hookEffectiveness := e\<rparr>) = flags p"
  "flags (p\<lparr>environment := s\<rparr>) = flags p"
  "flags (p\<lparr>weather := s\<rparr>) = flags p"
  "flags (p\<lparr>weatherEffects := w\<rparr>) = flags p"
  "flags (p\<lparr>player_eventListeners := l\<rparr>) = flags p"
  "flags (p\<lparr>player_destroyed := b\<rparr>) = flags p"
  "flags (p\<lparr>player_isActive := b\<rparr>) = flags p"
  "flags (p\<lparr>lineLength := a\<rparr>) = flags p"
  "flags (p\<lparr>lineTension := a\<rparr>) = flags p"
  "flags (p\<lparr>lineBroken := b\<rparr>) = flags p"
  by (simp_all add: flags_def)

lemma flags_moveHook [simp]: "flags (Player_moveHook dt p) = flags p"
  by (simp add: Player_moveHook_def Let_def)

text \<open>
  One tick of the hook physics, whatever the numbers are (also \<open>NaN\<close>): the flags are
  kept, or \<open>_breakLine\<close> has cleared both.
\<close>

lemma flags_updateHookPhysics:
  "flags (fst (Player_updateHookPhysics dt rnd (p, fs))) = flags p
   \<or> flags (fst (Player_updateHookPhysics dt rnd (p, fs))) = (False, False)"
proof (cases "\<not> isCasting p \<and> \<not> isReeling p")
  case True
  then show ?thesis by (simp add: Player_updateHookPhysics_def)
next
  case False
  let ?p6 = "Player_updateLineTension (Player_updateLineLength (Player_moveHook dt p))"
  have f6: "flags ?p6 = flags p" by simp
  show ?thesis
  proof (cases "num_less (Some (maxLineLength ?p6)) (lineLength ?p6)")
    case True
    obtain p7 fs7 where b: "Player_breakLine rnd (?p6, fs) = (p7, fs7)" by fastforce
    have "flags p7 = (False, False)" using flags_breakLine [of rnd ?p6 fs] b by simp
    moreover have "flags (fst (Player_updateHookPhysics dt rnd (p, fs))) = flags p7"
      using False True b by (auto simp: Player_updateHookPhysics_def Let_def)
    ultimately show ?thesis by simp
  next
    case nb: False
    have "flags (fst (Player_updateHookPhysics dt rnd (p, fs))) = flags ?p6"
      using False nb by (auto simp: Player_updateHookPhysics_def Let_def)
    then show ?thesis using f6 by simp
  qed
qed

lemma flags_completeReeling: "flags (fst (Player_completeReeling (p, fs))) = (False, False)"
  by (simp add: Player_completeReeling_def Let_def) (simp add: flags_def Player_emit_def)

text \<open>
  One tick of the reeling, whatever the reeling force is (also \<open>NaN\<close>): the flags are
  kept, or \<open>_completeReeling\<close> has cleared both.
\<close>

lemma flags_updateReeling:
  "flags (fst (Player_updateReeling dt (p, fs))) = flags p
   \<or> flags (fst (Player_updateReeling dt (p, fs))) = (False, False)"
proof (cases "isReeling p")
  case False
  then show ?thesis by (simp add: Player_updateReeling_def)
next
  case True
  define p1 where "p1 = p\<lparr>hookVelocity :=
      \<lparr>num_x = num2 (*) (map_option cos (num2 Math_atan2 (map_option (\<lambda>hy. y p - hy) (hookY p))
                                                            (map_option (\<lambda>hx. x p - hx) (hookX p))))
                        (reelingForce_with_powerUp p
                           (if length (caughtFish p) > 0
                            then reelingSpeed p * (1 - real (length (caughtFish p)) * 0.3)
                            else reelingSpeed p)),
       num_y = num2 (*) (map_option sin (num2 Math_atan2 (map_option (\<lambda>hy. y p - hy) (hookY p))
                                                            (map_option (\<lambda>hx. x p - hx) (hookX p))))
                        (reelingForce_with_powerUp p
                           (if length (caughtFish p) > 0
                            then reelingSpeed p * (1 - real (length (caughtFish p)) * 0.3)
                            else reelingSpeed p))\<rparr>\<rparr>"
  have r: "Player_updateReeling dt (p, fs) =
             (if num_le (lineLength p1) (Some (reelingDistance p1))
              then Player_completeReeling (p1, fs) else (p1, fs))"
    using True unfolding Player_updateReeling_def Let_def p1_def by simp
  have f1: "flags p1 = flags p" by (simp add: p1_def)
  show ?thesis unfolding r using f1 flags_completeReeling [of p1 fs] by simp
qed

lemma flags_expire_powerUp [simp]: "flags (expire_powerUp now pu p) = flags p"
  by (simp add: expire_powerUp_def Let_def)

lemma flags_fold_expire: "flags (fold (expire_powerUp now) pus p) = flags p"
  by (induction pus arbitrary: p) simp_all

lemma flags_updatePowerUps [simp]: "flags (Player_updatePowerUps dt now p) = flags p"
  by (simp add: Player_updatePowerUps_def Let_def flags_fold_expire)

lemma exclusive_update:
  assumes "exclusive p"
  shows "exclusive (fst (Player_update dt now rnd (p, fs)))"
proof (cases "player_destroyed p")
  case True
  with assms show ?thesis by (simp add: Player_update_def)
next
  case False
  obtain p1 fs1 where a: "Player_updateHookPhysics dt rnd (p\<lparr>lastUpdateTime := dt\<rparr>, fs) = (p1, fs1)"
    by fastforce
  obtain p2 fs2 where b: "Player_updateReeling dt (p1, fs1) = (p2, fs2)" by fastforce
  have c: "fst (Player_update dt now rnd (p, fs)) = Player_updatePowerUps dt now p2"
    using False a b by (simp add: Player_update_def)
  have "flags p1 = flags p \<or> flags p1 = (False, False)"
    using flags_updateHookPhysics [of dt rnd "p\<lparr>lastUpdateTime := dt\<rparr>" fs] a by simp
  moreover have "flags p2 = flags p1 \<or> flags p2 = (False, False)"
    using flags_updateReeling [of dt p1 fs1] b by simp
  ultimately have "flags (Player_updatePowerUps dt now p2) = flags p
                   \<or> flags (Player_updatePowerUps dt now p2) = (False, False)" by auto
  then show ?thesis unfolding c using assms exclusive_flags exclusive_False by blast
qed

lemma flags_catchFish: "flags (fst (catchFish fish r (p, fs))) = flags p"
  by (simp add: catchFish_def Let_def split: option.splits)

lemma flags_handleFishEscape: "flags (fst (handleFishEscape fish c r1 r2 (p, fs))) = flags p"
  by (simp add: handleFishEscape_def Let_def split: option.splits)

lemma flags_applyPowerUp: "flags (applyPowerUp pu now p) = flags p"
  by (simp add: applyPowerUp_def Let_def split: option.splits)

lemma flags_destroy: "flags (fst (Player_destroy rnd (p, fs))) = flags p"
  by (simp add: Player_destroy_def Let_def)

lemma flags_reset: "flags (Player_reset p) = (False, False)"
  by (simp add: Player_reset_def) (simp add: flags_def)

lemma flags_misc [simp]:
  "flags (setHookType ht p) = flags p"
  "flags (setEnvironment e p) = flags p"
  "flags (setWeather w p) = flags p"
  by (simp_all add: setHookType_def setEnvironment_def setWeather_def)

lemma flags_on_off:
  "Player_on ev c p = Inr q \<Longrightarrow> flags q = flags p"
  "Player_off ev c p = Inr q \<Longrightarrow> flags q = flags p"
  by (auto simp: Player_on_def Player_off_def split: if_splits)

lemma exclusive_apply:
  assumes "player_apply op (p, fs) = Inr (q, fs')" and "exclusive p"
  shows "exclusive q"
proof (cases op)
  case (PlayerUpdate dt now rnd)
  with assms(1) have "q = fst (Player_update dt now rnd (p, fs))" by simp
  then show ?thesis using exclusive_update [OF assms(2)] by simp
next
  case (CatchFish fish r)
  with assms have "q = fst (catchFish fish r (p, fs))" by simp
  then show ?thesis using flags_catchFish assms(2) exclusive_flags by blast
next
  case (HandleFishEscape fish c r1 r2)
  with assms have "q = fst (handleFishEscape fish c r1 r2 (p, fs))" by simp
  then show ?thesis using flags_handleFishEscape assms(2) exclusive_flags by blast
next
  case (PlayerDestroy rnd)
  with assms have "q = fst (Player_destroy rnd (p, fs))" by simp
  then show ?thesis using flags_destroy assms(2) exclusive_flags by blast
next
  case PlayerReset'
  with assms have "q = Player_reset p" by simp
  then show ?thesis using flags_reset exclusive_False by blast
next
  case (PlayerOn e c)
  with assms(1) have "Player_on e c p = Inr q" by (cases "Player_on e c p") simp_all
  then show ?thesis using flags_on_off(1) assms(2) exclusive_flags by blast
next
  case (PlayerOff e c)
  with assms(1) have "Player_off e c p = Inr q" by (cases "Player_off e c p") simp_all
  then show ?thesis using flags_on_off(2) assms(2) exclusive_flags by blast
qed (use assms in \<open>auto simp: exclusive_cast exclusive_handleTouchCast exclusive_startReeling
    exclusive_stopReeling handleTouchReel_def flags_applyPowerUp
    intro: exclusive_flags [THEN iffD2]\<close>)

text \<open>
  C2. In every state of a player reachable from its constructor through the public
  operations (with the fish store changing in any way in between), \<open>isCasting\<close> and
  \<open>isReeling\<close> are not both true. Every operation is a step of \<open>player_reachable\<close>
  unless it throws, and only \<open>on\<close> and \<open>off\<close> can throw, before they change anything; a
  tick that computes \<open>NaN\<close> for the line tension or the hook's velocity is a step like
  any other.
\<close>

theorem casting_and_reeling_exclusive:
  "player_reachable (p, fs) \<Longrightarrow> \<not> (isCasting p \<and> isReeling p)"
proof -
  have "player_reachable s \<Longrightarrow> exclusive (fst s)" for s
  proof (induction rule: player_reachable.induct)
    case (constructed options fs)
    show ?case using flags_new exclusive_False by simp
  next
    case (operation s op s')
    then show ?case using exclusive_apply [of op "fst s" "snd s" "fst s'" "snd s'"] by simp
  next
    case (fish_changed p fs fs')
    then show ?case by simp
  qed
  from this [of "(p, fs)"] show "player_reachable (p, fs) \<Longrightarrow> \<not> (isCasting p \<and> isReeling p)"
    by (simp add: exclusive_def)
qed

lemma normalizeAngle_0: "normalizeAngle 0 = 0"
proof -
  have "\<not> pi \<le> 0" using pi_gt_zero by linarith
  then show ?thesis
    by (simp add: normalizeAngle_def shiftUp.simps [of 0] shiftDown.simps [of 0])
qed

text \<open>
  A tick that computes \<open>NaN\<close>: a power-up sets \<open>maxLineLength\<close> to 0, the player
  casts with power 0, and a tick with \<open>deltaTime = 0\<close> leaves the hook on the anchor, so
  the tension ratio is \<open>0 / 0\<close>. The tick finishes and the player is still casting.
\<close>

definition slack_powerUp :: PowerUp where
  "slack_powerUp = \<lparr>powerUp_type = ''slack'',
     powerUp_effect = \<lparr>effect_maxLineLength = Some 0, effect_reelingSpeed = None,
                        effect_castingPower = None\<rparr>,
     powerUp_duration = 1000, powerUp_startTime = 0\<rparr>"

definition slack_player :: Player where
  "slack_player = cast 0 0 0 (applyPowerUp (Some slack_powerUp) 0 (Player_new no_player_options))"

definition nan_tick_player :: Player where
  "nan_tick_player =
     fst (Player_update 0 0 (\<lambda>_. 0) (slack_player, (\<lambda>_. Fish_new no_options (\<lambda>_. 0))))"

lemma slack_player_fields:
  "isCasting slack_player" "\<not> isReeling slack_player"
  "\<not> player_destroyed slack_player"
  "caughtFish slack_player = []"
  "maxLineLength slack_player = 0"
  "hookX slack_player = Some 400" "hookY slack_player = Some 50"
  "x slack_player = 400" "y slack_player = 50"
  "hookVelocity slack_player = \<lparr>num_x = Some 0, num_y = Some 0\<rparr>"
  "gravity slack_player = 0.3" "waterLevel slack_player = 200"
  "airResistance slack_player = 0.98"
  "weatherEffects slack_player = Some calm"
  by (simp_all add: slack_player_def slack_powerUp_def applyPowerUp_def Let_def cast_def
      Player_new_def no_player_options_def or_num_def or_str_def
      Player_applyEnvironmentEffects_def Player_emit_def Player_getWeatherEffects_def calm_def
      normalizeAngle_0 clamp_def)

lemma slack_player_tension:
  "lineTension (Player_updateLineTension (Player_updateLineLength
     (Player_moveHook 0 (slack_player\<lparr>lastUpdateTime := 0\<rparr>)))) = None"
  "lineLength (Player_updateLineTension (Player_updateLineLength
     (Player_moveHook 0 (slack_player\<lparr>lastUpdateTime := 0\<rparr>)))) = Some 0"
  "maxLineLength (Player_updateLineTension (Player_updateLineLength
     (Player_moveHook 0 (slack_player\<lparr>lastUpdateTime := 0\<rparr>)))) = 0"
  "caughtFish (Player_updateLineTension (Player_updateLineLength
     (Player_moveHook 0 (slack_player\<lparr>lastUpdateTime := 0\<rparr>)))) = []"
  "\<not> isReeling (Player_updateLineTension (Player_updateLineLength
     (Player_moveHook 0 (slack_player\<lparr>lastUpdateTime := 0\<rparr>))))"
  by (simp_all add: Player_updateLineTension_def tension_of_def Player_updateLineLength_def
      Player_moveHook_def Let_def slack_player_fields wind_above_water_def calm_def
      num_less_def num2_def distance_def)

lemma lineTension_expire [simp]: "lineTension (expire_powerUp now pu p) = lineTension p"
  by (simp add: expire_powerUp_def Let_def Player_emit_def)

lemma lineTension_fold_expire: "lineTension (fold (expire_powerUp now) pus p) = lineTension p"
  by (induction pus arbitrary: p) simp_all

lemma nan_tick_player_tension: "lineTension nan_tick_player = None"
proof -
  let ?p6 = "Player_updateLineTension (Player_updateLineLength
               (Player_moveHook 0 (slack_player\<lparr>lastUpdateTime := 0\<rparr>)))"
  have busy: "\<not> (\<not> isCasting (slack_player\<lparr>lastUpdateTime := 0\<rparr>)
                \<and> \<not> isReeling (slack_player\<lparr>lastUpdateTime := 0\<rparr>))"
    by (simp add: slack_player_fields)
  have phys: "Player_updateHookPhysics 0 (\<lambda>_. 0)
                (slack_player\<lparr>lastUpdateTime := 0\<rparr>, (\<lambda>_. Fish_new no_options (\<lambda>_. 0)))
              = (?p6, (\<lambda>_. Fish_new no_options (\<lambda>_. 0)))"
    unfolding Player_updateHookPhysics_def prod.case if_not_P [OF busy] Let_def
    by (simp add: slack_player_tension num_less_def)
  have reel: "Player_updateReeling 0 (?p6, fs) = (?p6, fs)" for fs
    by (simp add: Player_updateReeling_def slack_player_tension)
  have e: "nan_tick_player = Player_updatePowerUps 0 0 ?p6"
    unfolding nan_tick_player_def Player_update_def
    by (simp add: slack_player_fields phys reel)
  show ?thesis unfolding e
    by (simp add: Player_updatePowerUps_def Let_def lineTension_fold_expire slack_player_tension)
qed

theorem casting_and_reeling_exclusive_witness:
  "player_reachable (nan_tick_player, (\<lambda>_. Fish_new no_options (\<lambda>_. 0)))
   \<and> lineTension nan_tick_player = None
   \<and> \<not> (isCasting nan_tick_player \<and> isReeling nan_tick_player)"
proof -
  let ?fs = "\<lambda>_ :: ref. Fish_new no_options (\<lambda>_. 0)"
  let ?p0 = "Player_new no_player_options"
  have r0: "player_reachable (?p0, ?fs)" by (rule player_reachable.constructed)
  have r1: "player_reachable (applyPowerUp (Some slack_powerUp) 0 ?p0, ?fs)"
    by (rule player_reachable.operation [OF r0, of "ApplyPowerUp (Some slack_powerUp) 0"]) simp
  have r2: "player_reachable (slack_player, ?fs)"
    unfolding slack_player_def
    by (rule player_reachable.operation [OF r1, of "Cast 0 0 0"]) simp
  have r3: "player_reachable (Player_update 0 0 (\<lambda>_. 0) (slack_player, ?fs))"
    by (rule player_reachable.operation [OF r2, of "PlayerUpdate 0 0 (\<lambda>_. 0)"]) simp
  have r4: "player_reachable (nan_tick_player, ?fs)"
    using player_reachable.fish_changed [of nan_tick_player
        "snd (Player_update 0 0 (\<lambda>_. 0) (slack_player, ?fs))" ?fs] r3
    by (simp add: nan_tick_player_def)
  show ?thesis using r4 casting_and_reeling_exclusive [OF r4] nan_tick_player_tension by simp
qed

section \<open>Player: the line breaks\<close>

text \<open>
  The player of the repository's test \<open>should break line when exceeding maximum
  length\<close>: constructed at \<open>{x: 400, y: 50}\<close>, cast with power 5 at angle \<open>\<pi>/4\<close> (the
  weather is calm, so the wind's draw is not used), and its \<open>lineLength\<close> field then
  set to \<open>maxLineLength + 50\<close>. The test ticks it with \<open>update(16.67)\<close>.
\<close>

definition scenario4_player :: Player where
  "scenario4_player =
     (let p = cast 5 (pi / 4) 0 (Player_new (no_player_options\<lparr>popt_x := Some 400, popt_y := Some 50\<rparr>))
      in p\<lparr>lineLength := Some (maxLineLength p + 50)\<rparr>)"

lemma scenario4_fields:
  "isCasting scenario4_player" "\<not> isReeling scenario4_player"
  "\<not> player_destroyed scenario4_player" "\<not> lineBroken scenario4_player"
  "caughtFish scenario4_player = []"
  "maxLineLength scenario4_player = 240" "lineLength scenario4_player = Some 290"
  "hookX scenario4_player = Some 400" "hookY scenario4_player = Some 50"
  "x scenario4_player = 400" "y scenario4_player = 50"
  "hookVelocity scenario4_player =
     \<lparr>num_x = Some (5 * cos (normalizeAngle (pi / 4))),
      num_y = Some (5 * sin (normalizeAngle (pi / 4)))\<rparr>"
  "gravity scenario4_player = 0.3" "waterLevel scenario4_player = 200"
  "airResistance scenario4_player = 0.98"
  "weatherEffects scenario4_player = Some calm"
  by (simp_all add: scenario4_player_def Let_def cast_def Player_new_def no_player_options_def
      or_num_def or_str_def Player_applyEnvironmentEffects_def Player_emit_def
      Player_getWeatherEffects_def calm_def clamp_def)

lemma line_state_expire [simp]:
  "lineBroken (expire_powerUp now pu p) = lineBroken p"
  "isCasting (expire_powerUp now pu p) = isCasting p"
  "isReeling (expire_powerUp now pu p) = isReeling p"
  "caughtFish (expire_powerUp now pu p) = caughtFish p"
  by (simp_all add: expire_powerUp_def Let_def Player_emit_def)

lemma line_state_fold_expire:
  "lineBroken (fold (expire_powerUp now) pus p) = lineBroken p"
  "isCasting (fold (expire_powerUp now) pus p) = isCasting p"
  "isReeling (fold (expire_powerUp now) pus p) = isReeling p"
  "caughtFish (fold (expire_powerUp now) pus p) = caughtFish p"
  by (induction pus arbitrary: p) simp_all

lemma line_state_updatePowerUps:
  "lineBroken (Player_updatePowerUps dt now p) = lineBroken p"
  "isCasting (Player_updatePowerUps dt now p) = isCasting p"
  "isReeling (Player_updatePowerUps dt now p) = isReeling p"
  "caughtFish (Player_updatePowerUps dt now p) = caughtFish p"
  by (simp_all add: Player_updatePowerUps_def Let_def line_state_fold_expire)

lemma wind_lastUpdateTime [simp]:
  "wind_above_water (p\<lparr>lastUpdateTime := a\<rparr>) = wind_above_water p"
  by (simp add: wind_above_water_def split: option.splits)

lemma moveHook_lastUpdateTime:
  "hookX (Player_moveHook dt (p\<lparr>lastUpdateTime := a\<rparr>)) = hookX (Player_moveHook dt p)"
  "hookY (Player_moveHook dt (p\<lparr>lastUpdateTime := a\<rparr>)) = hookY (Player_moveHook dt p)"
  by (simp_all add: Player_moveHook_def Let_def)

lemma moveHook_frame:
  "isCasting (Player_moveHook dt p) = isCasting p"
  "isReeling (Player_moveHook dt p) = isReeling p"
  "lineBroken (Player_moveHook dt p) = lineBroken p"
  "caughtFish (Player_moveHook dt p) = caughtFish p"
  "maxLineLength (Player_moveHook dt p) = maxLineLength p"
  "x (Player_moveHook dt p) = x p"
  "y (Player_moveHook dt p) = y p"
  by (simp_all add: Player_moveHook_def Let_def)

lemma updateLineTension_frame:
  "isCasting (Player_updateLineTension p) = isCasting p"
  "isReeling (Player_updateLineTension p) = isReeling p"
  "lineBroken (Player_updateLineTension p) = lineBroken p"
  "caughtFish (Player_updateLineTension p) = caughtFish p"
  "maxLineLength (Player_updateLineTension p) = maxLineLength p"
  "lineLength (Player_updateLineTension p) = lineLength p"
  by (simp_all add: Player_updateLineTension_def Let_def)

text \<open>
  The length the break test of \<open>_updateHookPhysics\<close> reads: the distance from the
  anchor to the hook after the tick has moved the hook. The value the \<open>lineLength\<close>
  field held before the tick is not read.
\<close>

definition recomputed_lineLength :: "real \<Rightarrow> Player \<Rightarrow> num" where
  "recomputed_lineLength deltaTime p =
     num2 (\<lambda>hx hy. distance (Some \<lparr>x = x p, y = y p\<rparr>) (Some \<lparr>x = hx, y = hy\<rparr>))
       (hookX (Player_moveHook deltaTime p)) (hookY (Player_moveHook deltaTime p))"

lemma lineLength_in_tick:
  "lineLength (Player_updateLineTension (Player_updateLineLength
      (Player_moveHook deltaTime (p\<lparr>lastUpdateTime := a\<rparr>)))) = recomputed_lineLength deltaTime p"
  by (simp add: updateLineTension_frame Player_updateLineLength_def moveHook_lastUpdateTime
      moveHook_frame recomputed_lineLength_def)

lemma tick_without_break:
  assumes nd: "\<not> player_destroyed p"
    and c: "isCasting p" "\<not> isReeling p" "caughtFish p = []"
    and near: "\<not> num_less (Some (maxLineLength p)) (recomputed_lineLength deltaTime p)"
  shows "lineBroken (fst (Player_update deltaTime now rnd (p, fs))) = lineBroken p
         \<and> isCasting (fst (Player_update deltaTime now rnd (p, fs)))"
proof -
  let ?p' = "p\<lparr>lastUpdateTime := deltaTime\<rparr>"
  let ?p6 = "Player_updateLineTension (Player_updateLineLength (Player_moveHook deltaTime ?p'))"
  have f6: "maxLineLength ?p6 = maxLineLength p" "caughtFish ?p6 = []" "\<not> isReeling ?p6"
    "isCasting ?p6" "lineBroken ?p6 = lineBroken p"
    using c by (simp_all add: updateLineTension_frame Player_updateLineLength_def moveHook_frame)
  have nb: "\<not> num_less (Some (maxLineLength ?p6)) (lineLength ?p6)"
    unfolding lineLength_in_tick f6(1) by (rule near)
  have busy: "\<not> (\<not> isCasting ?p' \<and> \<not> isReeling ?p')" using c by simp
  have phys: "Player_updateHookPhysics deltaTime rnd (?p', fs) = (?p6, fs)"
    unfolding Player_updateHookPhysics_def prod.case if_not_P [OF busy] Let_def if_not_P [OF nb]
    by (simp add: f6)
  have reel: "Player_updateReeling deltaTime (?p6, fs) = (?p6, fs)"
    using f6 by (simp add: Player_updateReeling_def)
  have upd: "fst (Player_update deltaTime now rnd (p, fs)) = Player_updatePowerUps deltaTime now ?p6"
    using nd by (simp add: Player_update_def phys reel)
  show ?thesis unfolding upd line_state_updatePowerUps using f6 by simp
qed

lemma escape_flags [simp]: "isCaught (escape r f) = False" "fish_isActive (escape r f) = True"
  by (simp_all add: escape_def Fish_initializeMovement_def Fish_applyBehaviorModifications_def Let_def)

lemma escape_all_released:
  "c \<in> set cs \<or> (\<not> isCaught (fs c) \<and> fish_isActive (fs c))
   \<Longrightarrow> \<not> isCaught (escape_all cs rnd fs c) \<and> fish_isActive (escape_all cs rnd fs c)"
proof (induction cs arbitrary: rnd fs)
  case Nil
  then show ?case by simp
next
  case (Cons r rs)
  let ?fs = "fs(r := escape (rnd 0) (fs r))"
  have pre: "c \<in> set rs \<or> (\<not> isCaught (?fs c) \<and> fish_isActive (?fs c))"
    using Cons.prems by (cases "c = r") auto
  have step: "escape_all (r # rs) rnd fs = escape_all rs (\<lambda>i. rnd (Suc i)) ?fs"
    by (simp only: escape_all.simps)
  show ?case unfolding step
    by (rule Cons.IH [where fs = ?fs and rnd = "\<lambda>i. rnd (Suc i)", OF pre])
qed

lemma breakLine_result:
  "Player_breakLine rnd (p, fs) = (q, fs') \<Longrightarrow>
     fs' = escape_all (caughtFish p) rnd fs
     \<and> lineBroken q \<and> \<not> isCasting q \<and> \<not> isReeling q \<and> caughtFish q = []"
  by (auto simp: Player_breakLine_def Let_def Player_emit_def Player_resetHook_def)

text \<open>
  What the tick does break on. For every player that is not destroyed and is casting or
  reeling, if the recomputed length is greater than \<open>maxLineLength\<close>, then one
  \<open>update(deltaTime)\<close> ends with \<open>lineBroken\<close> true, \<open>isCasting\<close> and \<open>isReeling\<close>
  false and an empty caught-fish list, and the store is the old one after \<open>escape()\<close> on
  every caught fish, in list order: each of them is no longer caught and is active again.
\<close>

lemma tick_with_break:
  assumes nd: "\<not> player_destroyed p"
    and act: "isCasting p \<or> isReeling p"
    and far: "num_less (Some (maxLineLength p)) (recomputed_lineLength deltaTime p)"
  shows "\<exists>q. Player_update deltaTime now rnd (p, fs) = (q, escape_all (caughtFish p) rnd fs)
           \<and> lineBroken q \<and> \<not> isCasting q \<and> \<not> isReeling q \<and> caughtFish q = []
           \<and> (\<forall>c \<in> set (caughtFish p).
                 \<not> isCaught (escape_all (caughtFish p) rnd fs c)
                 \<and> fish_isActive (escape_all (caughtFish p) rnd fs c))"
proof -
  let ?p' = "p\<lparr>lastUpdateTime := deltaTime\<rparr>"
  let ?p6 = "Player_updateLineTension (Player_updateLineLength (Player_moveHook deltaTime ?p'))"
  have f6: "maxLineLength ?p6 = maxLineLength p" "caughtFish ?p6 = caughtFish p"
    by (simp_all add: updateLineTension_frame Player_updateLineLength_def moveHook_frame)
  have br: "num_less (Some (maxLineLength ?p6)) (lineLength ?p6)"
    unfolding lineLength_in_tick f6(1) by (rule far)
  obtain p7 fs7 where b: "Player_breakLine rnd (?p6, fs) = (p7, fs7)" by fastforce
  from breakLine_result [OF b] f6 have fs7: "fs7 = escape_all (caughtFish p) rnd fs"
    and ls7: "lineBroken p7" "\<not> isCasting p7" "\<not> isReeling p7" "caughtFish p7 = []"
    by simp_all
  have busy: "\<not> (\<not> isCasting ?p' \<and> \<not> isReeling ?p')" using act by simp
  have phys: "Player_updateHookPhysics deltaTime rnd (?p', fs) = (p7, fs7)"
    unfolding Player_updateHookPhysics_def prod.case if_not_P [OF busy] Let_def if_P [OF br] b
    by (simp add: ls7)
  have reel: "Player_updateReeling deltaTime (p7, fs7) = (p7, fs7)"
    using ls7 by (simp add: Player_updateReeling_def)
  let ?q = "Player_updatePowerUps deltaTime now p7"
  have upd: "Player_update deltaTime now rnd (p, fs) = (?q, fs7)"
    using nd by (simp add: Player_update_def phys reel)
  have "lineBroken ?q \<and> \<not> isCasting ?q \<and> \<not> isReeling ?q \<and> caughtFish ?q = []"
    using ls7 by (simp add: line_state_updatePowerUps)
  moreover have "\<forall>c \<in> set (caughtFish p).
                 \<not> isCaught (escape_all (caughtFish p) rnd fs c)
                 \<and> fish_isActive (escape_all (caughtFish p) rnd fs c)"
    using escape_all_released by blast
  ultimately show ?thesis using upd fs7 by blast
qed

lemma square_bound:
  fixes a b :: real
  assumes "\<bar>a\<bar> \<le> b"
  shows "a * a \<le> b * b"
proof -
  have "\<bar>a\<bar> * \<bar>a\<bar> \<le> b * b" using assms by (intro mult_mono) simp_all
  then show ?thesis by simp
qed

lemma scenario4_hook_stays_near:
  "\<exists>hx hy. hookX (Player_moveHook (1667 / 100) scenario4_player) = Some hx
         \<and> hookY (Player_moveHook (1667 / 100) scenario4_player) = Some hy
         \<and> \<bar>hx - 400\<bar> \<le> 6 \<and> \<bar>hy - 50\<bar> \<le> 6"
proof -
  define c where "c = cos (normalizeAngle (pi / 4))"
  define s where "s = sin (normalizeAngle (pi / 4))"
  have cb: "\<bar>c\<bar> \<le> 1" and sb: "\<bar>s\<bar> \<le> 1" by (simp_all add: c_def s_def)
  have hx: "hookX (Player_moveHook (1667 / 100) scenario4_player)
              = Some (400 + 5 * c * (98 / 100) * (1667 / 100 / 1000 * 60))"
    by (simp add: Player_moveHook_def Let_def scenario4_fields wind_above_water_def calm_def
        num_less_def num2_def c_def)
  have hy: "hookY (Player_moveHook (1667 / 100) scenario4_player)
              = Some (50 + (5 * s + 3 / 10 * (1667 / 100 / 1000) * 60) * (98 / 100)
                             * (1667 / 100 / 1000 * 60))"
    by (simp add: Player_moveHook_def Let_def scenario4_fields wind_above_water_def calm_def
        num_less_def num2_def s_def)
  have bx: "\<bar>400 + 5 * c * (98 / 100) * (1667 / 100 / 1000 * 60) - 400\<bar> \<le> 6"
    using cb by (simp add: abs_le_iff)
  have by': "\<bar>50 + (5 * s + 3 / 10 * (1667 / 100 / 1000) * 60) * (98 / 100)
                             * (1667 / 100 / 1000 * 60) - 50\<bar> \<le> 6"
    using sb by (simp add: abs_le_iff)
  show ?thesis using hx hy bx by' by blast
qed

lemma scenario4_recomputed_lineLength:
  "\<not> num_less (Some (maxLineLength scenario4_player))
        (recomputed_lineLength (1667 / 100) scenario4_player)"
proof -
  from scenario4_hook_stays_near obtain hx hy where
    h: "hookX (Player_moveHook (1667 / 100) scenario4_player) = Some hx"
       "hookY (Player_moveHook (1667 / 100) scenario4_player) = Some hy"
    and b: "\<bar>hx - 400\<bar> \<le> 6" "\<bar>hy - 50\<bar> \<le> 6" by blast
  have "(hx - 400) * (hx - 400) + (hy - 50) * (hy - 50) \<le> 6 * 6 + 6 * 6"
    using square_bound [OF b(1)] square_bound [OF b(2)] by linarith
  then have "(hx - 400) * (hx - 400) + (hy - 50) * (hy - 50) \<le> 240\<^sup>2" by simp
  then have "sqrt ((hx - 400) * (hx - 400) + (hy - 50) * (hy - 50)) \<le> 240"
    by (intro real_le_lsqrt) simp_all
  then show ?thesis
    by (simp add: recomputed_lineLength_def h num2_def num_less_def distance_def Let_def
        scenario4_fields)
qed

text \<open>
  C3 (the code in the test scenario). The scenario's player, whose \<open>lineLength\<close> field
  holds \<open>maxLineLength + 50 = 290\<close>, is ticked once with \<open>update(16.67)\<close>, whatever the
  clock, the random draws and the fish are: the tick overwrites \<open>lineLength\<close> with the
  distance from the anchor to the hook (about 5) before it tests it, nothing breaks, and
  afterwards \<open>lineBroken\<close> is false and \<open>isCasting\<close> is true. The claim, and the
  repository's test, expect \<open>lineBroken\<close> true and \<open>isCasting\<close> false.
\<close>

theorem stored_lineLength_does_not_break_line:
  "lineLength scenario4_player = Some (maxLineLength scenario4_player + 50)
   \<and> \<not> lineBroken (fst (Player_update (1667 / 100) now rnd (scenario4_player, fs)))
   \<and> isCasting (fst (Player_update (1667 / 100) now rnd (scenario4_player, fs)))"
  using tick_without_break [of scenario4_player "1667 / 100" now rnd fs,
      OF _ _ _ _ scenario4_recomputed_lineLength]
  by (simp add: scenario4_fields)

section \<open>TouchController: a tap in the reeling zone\<close>


definition casting_player :: Player where
  "casting_player = cast 5 0 0 (Player_new no_player_options)"

definition phone_canvas :: Canvas where
  "phone_canvas = \<lparr>canvas_width = 375, rect_left = 0, rect_top = 0, rect_width = 375, rect_height = 667\<rparr>"

definition phone_options :: TouchControllerOptions where
  "phone_options = \<lparr>tcopt_canvas = Some phone_canvas, tcopt_maxTouches = None,
     tcopt_touchTimeout = None, tcopt_touchSensitivity = None, tcopt_gestureThreshold = None,
     tcopt_doubleTapDelay = None, tcopt_longPressDelay = None, tcopt_swipeMinDistance = None,
     tcopt_pinchThreshold = None, tcopt_throttleInterval = None\<rparr>"

definition phone_controller :: TouchController where
  "phone_controller = projr (TouchController_new phone_options (Some casting_player) None)"

lemma handleTap_keeps_player: "snd (TouchController_handleTap position now (tc, pl)) = pl"
  by (simp add: TouchController_handleTap_def TouchController_handleGameTap_def Let_def)

lemma casting_player_flags: "isCasting casting_player" "\<not> isReeling casting_player"
proof -
  have d: "\<not> player_destroyed (Player_new no_player_options)"
    by (simp add: Player_new_def Let_def Player_applyEnvironmentEffects_def)
  have "flags casting_player = (True, False)"
    unfolding casting_player_def
    using flags_cast [of 5 0 0 "Player_new no_player_options"] flags_new [of no_player_options] d
    by (simp add: flags_def)
  then show "isCasting casting_player" "\<not> isReeling casting_player" by (simp_all add: flags_def)
qed

lemma phone_controller_fields:
  "TouchController_new phone_options (Some casting_player) None = Inr phone_controller"
  "tc_isEnabled phone_controller" "\<not> tc_destroyed phone_controller"
  "currentMode phone_controller = ''fishing''"
  "activeTouches phone_controller = []"
  "touchPool phone_controller = replicate 20 createTouchObject"
  "maxTouches phone_controller = 10"
  "gestureThreshold phone_controller = 10" "longPressDelay phone_controller = 500"
  "canvasScale phone_controller = 1" "canvasOffset phone_controller = \<lparr>x = 0, y = 0\<rparr>"
  "canvas phone_controller = phone_canvas"
  "lastTapTime phone_controller = 0"
  "reeling_zone (touchZones phone_controller) = \<lparr>x = 0, y = 266.8, width = 375, height = 400.2\<rparr>"
  by (simp_all add: phone_controller_def TouchController_new_def phone_options_def phone_canvas_def
      or_num_def mode_of_def Let_def TouchController_initializeTouchZones_def)


definition tap_touch :: TouchObj where
  "tap_touch = createTouchObject\<lparr>touch_id := Some 7, startX := 200, currentX := 200,
     startY := 300, currentY := 300, startTime := 1000, touch_lastMoveTime := 1000,
     touch_isActive := True\<rparr>"

lemma touch_started:
  "TouchController_handleTouchStart [(7, 200, 300)] 1000 None phone_controller
     = phone_controller\<lparr>touchPool := replicate 19 createTouchObject,
                         activeTouches := [(7, tap_touch)]\<rparr>"
proof -
  have pool: "TouchController_getTouchFromPool phone_controller
                = (createTouchObject, phone_controller\<lparr>touchPool := replicate 19 createTouchObject\<rparr>)"
  proof -
    have "replicate 20 createTouchObject = createTouchObject # replicate 19 createTouchObject"
      by (simp add: numeral_eq_Suc)
    moreover have "butlast (replicate 20 createTouchObject) = replicate 19 createTouchObject"
      by (simp add: butlast_conv_take)
    ultimately show ?thesis
      by (simp add: TouchController_getTouchFromPool_def phone_controller_fields)
  qed
  have coords: "TouchController_getTouchCoordinates phone_controller (7, 200, 300) = \<lparr>x = 200, y = 300\<rparr>"
    by (simp add: TouchController_getTouchCoordinates_def phone_controller_fields)
  have area: "TouchController_isInGameArea phone_controller 200 300"
    by (simp add: TouchController_isInGameArea_def phone_controller_fields phone_canvas_def)
  have loop: "touchStart_loop [(7, 200, 300)] 1000 phone_controller
     = phone_controller\<lparr>touchPool := replicate 19 createTouchObject,
                         activeTouches := [(7, tap_touch)]\<rparr>"
    by (simp add: coords area pool phone_controller_fields tap_touch_def Let_def)
  have same_mode: "tc\<lparr>currentMode := ''fishing''\<rparr> = tc" if "currentMode tc = ''fishing''"
    for tc :: TouchController
    using that by (cases tc) simp
  have guards: "\<not> (tc_destroyed phone_controller \<or> \<not> tc_isEnabled phone_controller)"
    "\<not> paused None" "mode_of None = ''fishing''"
    by (simp_all add: phone_controller_fields paused_def mode_of_def)
  show ?thesis
    unfolding TouchController_handleTouchStart_def loop if_not_P [OF guards(1)]
      if_not_P [OF guards(2)] guards(3)
    by (rule same_mode) (simp add: phone_controller_fields)
qed


lemma returnTouchToPool_frame [simp]:
  "lastGesture (TouchController_returnTouchToPool t tc) = lastGesture tc"
  "touchZones (TouchController_returnTouchToPool t tc) = touchZones tc"
  "activeTouches (TouchController_returnTouchToPool t tc) = activeTouches tc"
  by (simp_all add: TouchController_returnTouchToPool_def)

lemma tap_recognized:
  "TouchController_recognizeGesture tap_touch 100 0 1100 0
     (phone_controller\<lparr>touchPool := replicate 19 createTouchObject,
                        activeTouches := [(7, tap_touch)]\<rparr>, Some casting_player)
   = (phone_controller\<lparr>touchPool := replicate 19 createTouchObject,
                         activeTouches := [(7, tap_touch)],
                         lastTapTime := 1100,
                         lastTapPosition := Some \<lparr>x = 200, y = 300\<rparr>,
                         lastGesture := Some (Tap \<lparr>x = 200, y = 300\<rparr> 1100)\<rparr>, Some casting_player)"
  by (simp add: TouchController_recognizeGesture_def TouchController_handleTap_def
      TouchController_handleGameTap_def is_double_tap_def phone_controller_fields tap_touch_def
      createTouchObject_def Let_def)

text \<open>
  C8 (the code at a tap in the reeling zone).  The claim asks that a tap recognised inside
  the reeling zone while the player is casting starts reeling.  In the source the body of
  \<^verbatim>\<open>_handleGameTap\<close> that called \<^verbatim>\<open>player.handleTouchReel()\<close> is commented out, so
  a recognised tap never changes the player: for every tap position, time, controller and
  player the player returned by \<^verbatim>\<open>_handleTap\<close> is the one passed in.  At the concrete
  input, a touch that starts at time 1000 and ends at time 1100 at the point (200, 300) of a
  375 by 667 canvas, which lies in the reeling zone, with a player that is casting and not
  reeling: the gesture is recognised as a tap (it is recorded as the last gesture), and the
  player afterwards is the same player, still casting and not reeling.
\<close>
theorem tap_in_reeling_zone_does_not_start_reeling:
  "snd (TouchController_handleTap position now (tc, pl)) = pl
   \<and> isCasting casting_player \<and> \<not> isReeling casting_player
   \<and> isInReelingZone phone_controller 200 300
   \<and> lastGesture (fst (TouchController_handleTouchEnd [(7, 200, 300)] 1100 (\<lambda>_. 0)
         (TouchController_handleTouchStart [(7, 200, 300)] 1000 None phone_controller,
          Some casting_player)))
       = Some (Tap \<lparr>x = 200, y = 300\<rparr> 1100)
   \<and> snd (TouchController_handleTouchEnd [(7, 200, 300)] 1100 (\<lambda>_. 0)
         (TouchController_handleTouchStart [(7, 200, 300)] 1000 None phone_controller,
          Some casting_player))
       = Some casting_player"
proof -
  let ?started = "phone_controller\<lparr>touchPool := replicate 19 createTouchObject,
                        activeTouches := [(7, tap_touch)]\<rparr>"
  have zone: "isInReelingZone phone_controller 200 300"
    by (simp add: isInReelingZone_def in_zone_def phone_controller_fields)
  have tt: "now - startTime tap_touch = 100" "deltaX tap_touch = 0" "deltaY tap_touch = 0"
    if "now = 1100" for now
    using that by (simp_all add: tap_touch_def createTouchObject_def)
  have loop: "touchEnd_loop [(7, 200, 300)] 1100 (\<lambda>_. 0) (?started, Some casting_player)
      = ((TouchController_returnTouchToPool tap_touch
            (phone_controller\<lparr>touchPool := replicate 19 createTouchObject,
                         activeTouches := [(7, tap_touch)],
                         lastTapTime := 1100,
                         lastTapPosition := Some \<lparr>x = 200, y = 300\<rparr>,
                         lastGesture := Some (Tap \<lparr>x = 200, y = 300\<rparr> 1100)\<rparr>))
           \<lparr>activeTouches := map_delete 7 [(7, tap_touch)]\<rparr>, Some casting_player)"
    by (simp add: tt tap_recognized Let_def)
  have guards: "\<not> (tc_destroyed ?started \<or> \<not> tc_isEnabled ?started)"
    by (simp add: phone_controller_fields)
  have ended: "TouchController_handleTouchEnd [(7, 200, 300)] 1100 (\<lambda>_. 0)
         (TouchController_handleTouchStart [(7, 200, 300)] 1000 None phone_controller,
          Some casting_player)
      = ((TouchController_returnTouchToPool tap_touch
            (phone_controller\<lparr>touchPool := replicate 19 createTouchObject,
                         activeTouches := [(7, tap_touch)],
                         lastTapTime := 1100,
                         lastTapPosition := Some \<lparr>x = 200, y = 300\<rparr>,
                         lastGesture := Some (Tap \<lparr>x = 200, y = 300\<rparr> 1100)\<rparr>))
           \<lparr>activeTouches := map_delete 7 [(7, tap_touch)]\<rparr>, Some casting_player)"
    unfolding touch_started TouchController_handleTouchEnd_def prod.case if_not_P [OF guards]
    by (rule loop)
  show ?thesis
    unfolding ended
    by (simp add: handleTap_keeps_player casting_player_flags zone)
qed

section \<open>Game: a spawned fish is inactive\<close>

text \<open>The game constructed with the defaults, on a canvas laid out at 375 by 667.\<close>

definition default_canvas :: Canvas where
  "default_canvas = \<lparr>canvas_width = 300, rect_left = 0, rect_top = 0, rect_width = 375, rect_height = 667\<rparr>"

definition default_game_options :: GameOptions where
  "default_game_options = \<lparr>gopt_canvas = Some default_canvas, gopt_canvasId = None,
     gopt_width = None, gopt_height = None, gopt_targetFPS = None, gopt_maxFish = None,
     gopt_skipDependencies = False, gopt_bestScore = 0, gopt_audio = False\<rparr>"

definition new_game :: Game where
  "new_game = projr (Game_new default_game_options (\<lambda>_ _. 0))"

text \<open>
  The player after \<open>on(event, callback)\<close> has returned, which it does for every event
  that is not the name of an inherited property.
\<close>

definition listening :: "string \<Rightarrow> nat \<Rightarrow> Player \<Rightarrow> Player" where
  "listening event callback p =
     p\<lparr>player_eventListeners :=
         (player_eventListeners p)(event := player_eventListeners p event @ [callback])\<rparr>"

lemma Player_on_listening:
  "event \<notin> set objectPrototypeKeys \<Longrightarrow> Player_on event callback p = Inr (listening event callback p)"
  by (simp add: Player_on_def listening_def)

lemma game_events_not_inherited:
  "''castStarted'' \<notin> set objectPrototypeKeys" "''fishCaught'' \<notin> set objectPrototypeKeys"
  "''reelingComplete'' \<notin> set objectPrototypeKeys"
  by (simp_all add: objectPrototypeKeys_def)

lemma listening_flags [simp]:
  "isCasting (listening e c p) = isCasting p" "isReeling (listening e c p) = isReeling p"
  "player_activePowerUps (listening e c p) = player_activePowerUps p"
  "player_destroyed (listening e c p) = player_destroyed p"
  "caughtFish (listening e c p) = caughtFish p"
  by (simp_all add: listening_def)

lemma Player_new_idle:
  "\<not> isCasting (Player_new options)" "\<not> isReeling (Player_new options)"
  "player_activePowerUps (Player_new options) = []" "\<not> player_destroyed (Player_new options)"
  "caughtFish (Player_new options) = []"
  by (simp_all add: Player_new_def Player_applyEnvironmentEffects_def Let_def)

definition game_player :: "real \<Rightarrow> real \<Rightarrow> Player" where
  "game_player w h =
     listening ''reelingComplete'' handleReelingComplete_id
       (listening ''fishCaught'' handleFishCaught_id
          (listening ''castStarted'' handlePlayerCast_id
             (Player_new (no_player_options\<lparr>popt_x := Some (w / 2), popt_y := Some 50,
                                             popt_waterLevel := Some (h * 0.3)\<rparr>))))"

lemma createGameEntities_player:
  "\<exists>tc. Game_createGameEntities c w h = Inr (game_player w h, tc)"
  by (simp add: Game_createGameEntities_def TouchController_new_def Let_def game_player_def
      and_then_def Player_on_listening game_events_not_inherited TouchController_on_def
      objectPrototypeKeys_def)

lemma game_player_idle:
  "\<not> isCasting (game_player w h)" "\<not> isReeling (game_player w h)"
  "player_activePowerUps (game_player w h) = []" "\<not> player_destroyed (game_player w h)"
  "caughtFish (game_player w h) = []"
  by (simp_all add: game_player_def Player_new_idle)

lemma game_player_listeners:
  "player_eventListeners (game_player w h) ''fishCaught'' = [handleFishCaught_id]"
  by (simp add: game_player_def listening_def Player_new_def Player_applyEnvironmentEffects_def
      Let_def)

lemma new_game_constructed: "Game_new default_game_options (\<lambda>_ _. 0) = Inr new_game"
proof -
  obtain tc where "Game_createGameEntities (default_canvas\<lparr>canvas_width := 375\<rparr>) 375 667
                     = Inr (game_player 375 667, tc)"
    using createGameEntities_player by blast
  then show ?thesis
    by (simp add: new_game_def Game_new_def default_game_options_def Let_def or_num_def)
qed

lemma new_game_fields:
  "maxFish new_game = 10" "fishPool new_game = [0..<20]" "activeFish new_game = []"
  "game_width new_game = 375" "game_height new_game = 667"
  "\<not> game_destroyed new_game"
proof -
  obtain tc where "Game_createGameEntities (default_canvas\<lparr>canvas_width := 375\<rparr>) 375 667
                     = Inr (game_player 375 667, tc)"
    using createGameEntities_player by blast
  then show "maxFish new_game = 10" "fishPool new_game = [0..<20]" "activeFish new_game = []"
    "game_width new_game = 375" "game_height new_game = 667"
    "\<not> game_destroyed new_game"
    by (simp_all add: new_game_def Game_new_def default_game_options_def or_num_def Let_def)
qed

lemma returnFishToPool_fields [simp]:
  "activeFish (Game_returnFishToPool (Some c) g) = remove1 c (activeFish g)"
  "fishPool (Game_returnFishToPool (Some c) g)
     = (if real (length (fishPool g)) < maxFish g * 2 then fishPool g @ [c] else fishPool g)"
  "maxFish (Game_returnFishToPool (Some c) g) = maxFish g"
  "game_width (Game_returnFishToPool (Some c) g) = game_width g"
  "fishes (Game_returnFishToPool (Some c) g) c' =
     (if c' = c then setPosition (- 100) (- 100) ((fishes g c)\<lparr>fish_isActive := False\<rparr>)
      else fishes g c')"
  by (simp_all add: Game_returnFishToPool_def)

lemma setPosition_fields [simp]:
  "fish_isActive (setPosition a b f) = fish_isActive f"
  "velocity (setPosition a b f) = velocity f"
  "isCaught (setPosition a b f) = isCaught f"
  by (cases f, simp add: setPosition_def)+

lemma needs_cleanup_returned:
  "needs_cleanup (Game_returnFishToPool (Some c) g) c' \<longleftrightarrow> c' = c \<or> needs_cleanup g c'"
  by (simp add: needs_cleanup_def)

lemma drop_remove1_nth:
  assumes "i < length xs"
  shows "drop i (remove1 (xs ! i) xs) = drop (Suc i) xs"
proof -
  have mem: "xs ! i \<in> set (take (Suc i) xs)"
    using assms by (simp add: take_Suc_conv_app_nth)
  have "remove1 (xs ! i) xs = remove1 (xs ! i) (take (Suc i) xs @ drop (Suc i) xs)"
    by simp
  also have "\<dots> = remove1 (xs ! i) (take (Suc i) xs) @ drop (Suc i) xs"
    using mem by (simp only: remove1_append if_True)
  finally have eq: "remove1 (xs ! i) xs = remove1 (xs ! i) (take (Suc i) xs) @ drop (Suc i) xs" .
  have len: "length (remove1 (xs ! i) (take (Suc i) xs)) = i"
    using mem assms by (simp add: length_remove1)
  show ?thesis
    by (subst eq) (simp add: len)
qed

lemma cleanup_loop_props:
  assumes "i \<le> length (activeFish g)"
    and "\<forall>c\<in>set (drop i (activeFish g)). \<not> needs_cleanup g c"
  shows "\<exists>g2. cleanup_loop i g = Inr g2
           \<and> (\<forall>c\<in>set (activeFish g2). \<not> needs_cleanup g2 c)
           \<and> (\<forall>c. \<not> fish_isActive (fishes g c) \<longrightarrow> \<not> fish_isActive (fishes g2 c))
           \<and> (\<exists>ys. fishPool g2 = fishPool g @ ys)
           \<and> maxFish g2 = maxFish g
           \<and> (\<not> real (length (fishPool g)) < maxFish g * 2 \<longrightarrow> fishPool g2 = fishPool g)"
  using assms
proof (induction i arbitrary: g)
  case 0
  then show ?case by simp
next
  case (Suc i)
  let ?c = "activeFish g ! i"
  have i: "i < length (activeFish g)" using Suc.prems(1) by simp
  show ?case
  proof (cases "needs_cleanup g ?c")
    case False
    have step: "cleanup_loop (Suc i) g = cleanup_loop i g"
      using i False by (simp add: Let_def)
    have "drop i (activeFish g) = ?c # drop (Suc i) (activeFish g)"
      using i by (simp add: Cons_nth_drop_Suc)
    then have clean: "\<forall>c\<in>set (drop i (activeFish g)). \<not> needs_cleanup g c"
      using Suc.prems(2) False by simp
    show ?thesis
      unfolding step using Suc.IH [of g] i clean by simp
  next
    case True
    let ?g = "Game_returnFishToPool (Some ?c) g"
    have step: "cleanup_loop (Suc i) g = cleanup_loop i ?g"
      using i True by (simp add: Let_def)
    have mem: "?c \<in> set (activeFish g)" using i by simp
    have len: "i \<le> length (activeFish ?g)"
      using i mem by (simp add: length_remove1)
    have dr: "drop i (activeFish ?g) = drop (Suc i) (activeFish g)"
      using drop_remove1_nth [OF i] by simp
    have clean: "\<forall>c\<in>set (drop i (activeFish ?g)). \<not> needs_cleanup ?g c"
      unfolding dr needs_cleanup_returned using Suc.prems(2) True by auto
    obtain g2 where g2: "cleanup_loop i ?g = Inr g2"
        "\<forall>c\<in>set (activeFish g2). \<not> needs_cleanup g2 c"
        "\<forall>c. \<not> fish_isActive (fishes ?g c) \<longrightarrow> \<not> fish_isActive (fishes g2 c)"
        "\<exists>ys. fishPool g2 = fishPool ?g @ ys"
        "maxFish g2 = maxFish ?g"
        "\<not> real (length (fishPool ?g)) < maxFish ?g * 2 \<longrightarrow> fishPool g2 = fishPool ?g"
      using Suc.IH [OF len clean] by blast
    have inactive: "\<forall>c. \<not> fish_isActive (fishes g c) \<longrightarrow> \<not> fish_isActive (fishes g2 c)"
      using g2(3) by simp
    have pool: "\<exists>ys. fishPool g2 = fishPool g @ ys"
      using g2(4) by (auto split: if_splits)
    have full: "\<not> real (length (fishPool g)) < maxFish g * 2 \<longrightarrow> fishPool g2 = fishPool g"
      using g2(6) by (simp split: if_splits)
    show ?thesis
      unfolding step using g2(1,2,5) inactive pool full by simp
  qed
qed


lemma Fish_reset_fields [simp]:
  "fish_isActive (Fish_reset f) = False"
  "velocity (Fish_reset f) = \<lparr>x = 0, y = 0\<rparr>"
  by (simp_all add: Fish_reset_def)

lemma spawnFish_appends:
  assumes "real (length (activeFish g)) < maxFish g" and "fishPool g \<noteq> []"
  shows "activeFish (Game_spawnFish rnd g) = activeFish g @ [last (fishPool g)]"
    and "fishPool (Game_spawnFish rnd g) = butlast (fishPool g)"
    and "maxFish (Game_spawnFish rnd g) = maxFish g"
    and "\<not> fish_isActive (fishes (Game_spawnFish rnd g) (last (fishPool g)))"
    and "velocity (fishes (Game_spawnFish rnd g) (last (fishPool g))) = \<lparr>x = 0, y = 0\<rparr>"
  using assms by (simp_all add: Game_spawnFish_def Game_getFishFromPool_def Let_def)

lemma spawn_then_cleanup:
  assumes "real (length (activeFish g)) < maxFish g" and "fishPool g \<noteq> []"
  shows "\<exists>g2. Game_cleanupFish (Game_spawnFish rnd g) = Inr g2
           \<and> last (fishPool g) \<notin> set (activeFish g2)
           \<and> (\<forall>c\<in>set (activeFish g2). \<not> needs_cleanup g2 c)
           \<and> (if real (length (butlast (fishPool g))) < maxFish g * 2
               then last (fishPool g) \<in> set (fishPool g2)
               else fishPool g2 = butlast (fishPool g))"
proof -
  let ?c = "last (fishPool g)"
  let ?g1 = "Game_spawnFish rnd g"
  let ?g = "Game_returnFishToPool (Some ?c) ?g1"
  note sp = spawnFish_appends [OF assms, of rnd]
  have unclean: "needs_cleanup ?g1 ?c"
    using sp(4) by (simp add: needs_cleanup_def)
  have nth: "activeFish ?g1 ! length (activeFish g) = ?c"
    by (simp add: sp(1))
  have step: "Game_cleanupFish ?g1 = cleanup_loop (length (activeFish g)) ?g"
    unfolding Game_cleanupFish_def using unclean nth by (simp add: sp(1) Let_def)
  have len: "length (activeFish g) \<le> length (activeFish ?g)"
    by (simp add: sp(1) length_remove1)
  have "length (activeFish ?g) = length (activeFish g)"
    by (simp add: sp(1) length_remove1)
  then have clean: "\<forall>c\<in>set (drop (length (activeFish g)) (activeFish ?g)). \<not> needs_cleanup ?g c"
    by simp
  obtain g2 where g2: "cleanup_loop (length (activeFish g)) ?g = Inr g2"
      "\<forall>c\<in>set (activeFish g2). \<not> needs_cleanup g2 c"
      "\<forall>c. \<not> fish_isActive (fishes ?g c) \<longrightarrow> \<not> fish_isActive (fishes g2 c)"
      "\<exists>ys. fishPool g2 = fishPool ?g @ ys"
      "maxFish g2 = maxFish ?g"
      "\<not> real (length (fishPool ?g)) < maxFish ?g * 2 \<longrightarrow> fishPool g2 = fishPool ?g"
    using cleanup_loop_props [OF len clean] by blast
  have "\<not> fish_isActive (fishes g2 ?c)"
    using g2(3) by simp
  then have "needs_cleanup g2 ?c"
    by (simp add: needs_cleanup_def)
  then have gone: "?c \<notin> set (activeFish g2)"
    using g2(2) by blast
  have pool: "if real (length (butlast (fishPool g))) < maxFish g * 2
              then ?c \<in> set (fishPool g2) else fishPool g2 = butlast (fishPool g)"
  proof (cases "real (length (butlast (fishPool g))) < maxFish g * 2")
    case True
    then have "fishPool ?g = butlast (fishPool g) @ [?c]"
      by (simp add: sp(2,3))
    then show ?thesis using g2(4) True by auto
  next
    case False
    then have "fishPool ?g = butlast (fishPool g)" "\<not> real (length (fishPool ?g)) < maxFish ?g * 2"
      by (simp_all add: sp(2,3))
    then show ?thesis using g2(6) False by simp
  qed
  show ?thesis
    unfolding step using g2(1,2) gone pool by simp
qed

text \<open>
  C10 (amended). Whenever \<^verbatim>\<open>_spawnFish\<close> appends a fish (fewer than \<open>maxFish\<close> fish are
  active and the pool is not empty), the fish appended is the last one of the pool, and
  right after the call its \<open>isActive\<close> flag is false and its velocity is \<open>{x: 0, y: 0}\<close>.
  The \<^verbatim>\<open>_cleanupFish\<close> pass that follows does not throw and removes that fish from
  \<open>activeFish\<close>. The fish is back in the pool if the pool, after the fish was taken from
  it, holds fewer than \<open>maxFish * 2\<close> fish; otherwise the pool is left as it was after
  the fish was taken, so the fish is in neither list.
\<close>

theorem spawned_fish_is_inactive_and_cleaned_up:
  assumes "real (length (activeFish g)) < maxFish g" and "fishPool g \<noteq> []"
  shows "activeFish (Game_spawnFish rnd g) = activeFish g @ [last (fishPool g)]
       \<and> \<not> fish_isActive (fishes (Game_spawnFish rnd g) (last (fishPool g)))
       \<and> velocity (fishes (Game_spawnFish rnd g) (last (fishPool g))) = \<lparr>x = 0, y = 0\<rparr>
       \<and> (\<exists>g2. Game_cleanupFish (Game_spawnFish rnd g) = Inr g2
              \<and> last (fishPool g) \<notin> set (activeFish g2)
              \<and> (if real (length (butlast (fishPool g))) < maxFish g * 2
                  then last (fishPool g) \<in> set (fishPool g2)
                  else fishPool g2 = butlast (fishPool g)))"
  using spawnFish_appends(1,4,5) [OF assms, of rnd] spawn_then_cleanup [OF assms, of rnd]
  by blast

lemma upt_20: "[0..<20] = [0..<19] @ [19::nat]"
  using upt_Suc_append [of 0 19] by simp

lemma last_upt_20: "last [0..<20] = (19::nat)" "butlast [0..<20] = [0..<19]"
  by (simp_all only: upt_20 last_snoc butlast_snoc)

text \<open>The theorem at the game constructed with the defaults: fish 19 comes back to the pool.\<close>

theorem spawned_fish_is_inactive_and_cleaned_up_witness:
  "real (length (activeFish new_game)) < maxFish new_game \<and> fishPool new_game \<noteq> []
   \<and> activeFish (Game_spawnFish (\<lambda>_. 0) new_game) = [19]
   \<and> \<not> fish_isActive (fishes (Game_spawnFish (\<lambda>_. 0) new_game) 19)
   \<and> velocity (fishes (Game_spawnFish (\<lambda>_. 0) new_game) 19) = \<lparr>x = 0, y = 0\<rparr>
   \<and> (\<exists>g2. Game_cleanupFish (Game_spawnFish (\<lambda>_. 0) new_game) = Inr g2
          \<and> 19 \<notin> set (activeFish g2) \<and> 19 \<in> set (fishPool g2))"
proof -
  have pre: "real (length (activeFish new_game)) < maxFish new_game" "fishPool new_game \<noteq> []"
    by (simp_all add: new_game_fields)
  have room: "real (length (butlast (fishPool new_game))) < maxFish new_game * 2"
    by (simp add: new_game_fields)
  have l: "last (fishPool new_game) = 19"
    by (simp add: new_game_fields last_upt_20)
  show ?thesis
    using spawned_fish_is_inactive_and_cleaned_up [OF pre, of "\<lambda>_. 0"] pre room
    unfolding l by (simp add: new_game_fields)
qed

subsection \<open>Frames below the frame-rate threshold\<close>

text \<open>
  A host that reads 0 from every clock and every draw, and a run of \<open>n\<close> frames of the
  loop, each 40 ms after the one before.
\<close>

definition quiet_host :: Host where
  "quiet_host = \<lparr>now_player = 0, now_mechanics = 0, now_powerUps = 0,
     now_callbacks = (\<lambda>_ _. 0), rnd_player = (\<lambda>_. 0), rnd_fish = (\<lambda>_ _. 0),
     rnd_catch = (\<lambda>_. 0), rnd_spawn = (\<lambda>_. 0)\<rparr>"

fun slow_frames :: "nat \<Rightarrow> Host \<Rightarrow> Game \<Rightarrow> js_error + Game" where
  "slow_frames 0 h g = Inr g"
| "slow_frames (Suc n) h g =
     (case Game_gameLoop (game_lastFrameTime g + 40) h g of
        Inr g1 \<Rightarrow> slow_frames n h g1
      | Inl e \<Rightarrow> Inl e)"

lemma idle_player_update:
  assumes "\<not> isCasting p" "\<not> isReeling p" "player_activePowerUps p = []"
  shows "\<exists>p'. Player_update dt now rnd (p, fs) = (p', fs) \<and> emitted p' = emitted p
            \<and> isCasting p' = isCasting p"
  using assms
  by (cases "player_destroyed p")
     (simp_all add: Player_update_def Player_updateHookPhysics_def Player_updateReeling_def
       Player_updatePowerUps_def Let_def)

lemma average_30:
  assumes "set hs \<subseteq> {Some 30}" and "hs \<noteq> []"
  shows "None \<notin> set hs" and "sum_list (map the hs) / real (length hs) = (30::real)"
proof -
  show "None \<notin> set hs" using assms(1) by auto
  have "hs = replicate (length hs) (Some 30)"
    using assms(1) by (intro replicate_eqI) auto
  then have "map the hs = replicate (length hs) (30::real)"
    by (metis map_replicate option.sel)
  then have "sum_list (map the hs) = real (length hs) * 30"
    by (simp add: sum_list_replicate)
  then show "sum_list (map the hs) / real (length hs) = 30"
    using assms(2) by simp
qed

lemma updateFPS_frame [simp]:
  "isRunning (Game_updateFPS dt g) = isRunning g"
  "isPaused (Game_updateFPS dt g) = isPaused g"
  "game_destroyed (Game_updateFPS dt g) = game_destroyed g"
  "fishPool (Game_updateFPS dt g) = fishPool g"
  "activeFish (Game_updateFPS dt g) = activeFish g"
  "lowFPSThreshold (Game_updateFPS dt g) = lowFPSThreshold g"
  "adaptiveQuality (Game_updateFPS dt g) = adaptiveQuality g"
  "maxDeltaTime (Game_updateFPS dt g) = maxDeltaTime g"
  "game_lastFrameTime (Game_updateFPS dt g) = game_lastFrameTime g"
  "player (Game_updateFPS dt g) = player g"
  "lastFishSpawn (Game_updateFPS dt g) = lastFishSpawn g"
  "fishSpawnInterval (Game_updateFPS dt g) = fishSpawnInterval g"
  "fishSpawnRate (Game_updateFPS dt g) = fishSpawnRate g"
  "comboCount (Game_updateFPS dt g) = comboCount g"
  by (simp_all add: Game_updateFPS_def Game_adaptQuality_def Let_def split: option.splits)

lemma updateFPS_low:
  assumes "set (fpsHistory g) \<subseteq> {Some 30}" and "lowFPSThreshold g = 45"
  shows "set (fpsHistory (Game_updateFPS (1000 / 30) g)) \<subseteq> {Some 30}"
    and "lowFPSCount (Game_updateFPS (1000 / 30) g) = lowFPSCount g + 1"
    and "maxFish (Game_updateFPS (1000 / 30) g)
           = (if lowFPSCount g + 1 > 60 \<and> adaptiveQuality g \<and> maxFish g > 5
              then maxFish g - 2 else maxFish g)"
proof -
  let ?h1 = "fpsHistory g @ [Some (30::real)]"
  let ?h2 = "if length ?h1 > 60 then tl ?h1 else ?h1"
  have s1: "set ?h1 \<subseteq> {Some 30}" using assms(1) by auto
  have "set (tl ?h1) \<subseteq> set ?h1"
    by (cases ?h1) auto
  then have s2: "set ?h2 \<subseteq> {Some 30}"
    using s1 by (simp only: split: if_splits) blast
  have ne: "?h2 \<noteq> []"
    by (cases "fpsHistory g") auto
  note avg = average_30 [OF s2 ne]
  have sample: "(if (1000::real) / 30 = 0 then None else Some (1000 / (1000 / 30))) = Some (30::real)"
    by simp
  have fps: "(if None \<in> set ?h2 then None
              else Some (sum_list (map the ?h2) / real (length ?h2))) = Some 30"
    using avg by simp
  have eq: "Game_updateFPS (1000 / 30) g =
     (let g1 = g\<lparr>game_frameCount := game_frameCount g + 1, fpsHistory := ?h2,
                  currentFPS := Some 30\<rparr>;
          g2 = g1\<lparr>lowFPSCount := lowFPSCount g1 + 1\<rparr>
      in if lowFPSCount g2 > 60 \<and> adaptiveQuality g2 then Game_adaptQuality g2 else g2)"
    unfolding Game_updateFPS_def Let_def sample fps
    by (simp add: assms(2))
  show "set (fpsHistory (Game_updateFPS (1000 / 30) g)) \<subseteq> {Some 30}"
    unfolding eq using s2 by (simp add: Game_adaptQuality_def Let_def)
  show "lowFPSCount (Game_updateFPS (1000 / 30) g) = lowFPSCount g + 1"
    unfolding eq by (simp add: Game_adaptQuality_def Let_def)
  show "maxFish (Game_updateFPS (1000 / 30) g)
           = (if lowFPSCount g + 1 > 60 \<and> adaptiveQuality g \<and> maxFish g > 5
              then maxFish g - 2 else maxFish g)"
    unfolding eq by (simp add: Game_adaptQuality_def Let_def)
qed


lemma quiet_updatePlayer:
  assumes "player g = Some p" "\<not> isCasting p" "\<not> isReeling p" "player_activePowerUps p = []"
  shows "\<exists>p'. Game_updatePlayer dt h g = g\<lparr>player := Some p', fishes := fishes g\<rparr>
            \<and> \<not> isCasting p'"
proof -
  obtain p' where p': "Player_update dt (now_player h) (rnd_player h) (p, fishes g) = (p', fishes g)"
      "emitted p' = emitted p" "isCasting p' = isCasting p"
    using idle_player_update [OF assms(2-4)] by blast
  have "new_events p p' = []"
    by (simp add: new_events_def p'(2))
  then have "Game_updatePlayer dt h g = g\<lparr>player := Some p', fishes := fishes g\<rparr>"
    using p' assms(1) by (simp add: Game_updatePlayer_def Game_player_call_def)
  moreover have "\<not> isCasting p'" using p'(3) assms(2) by simp
  ultimately show ?thesis by blast
qed

lemma quiet_update:
  assumes "\<not> game_destroyed g" "activeFish g = []" "player g = Some p"
    and "\<not> isCasting p" "\<not> isReeling p" "player_activePowerUps p = []"
    and "lastFishSpawn g + dt < fishSpawnInterval g / fishSpawnRate g"
  shows "\<exists>g'. Game_update dt h g = Inr g'
            \<and> activeFish g' = [] \<and> fishPool g' = fishPool g \<and> maxFish g' = maxFish g
            \<and> isRunning g' = isRunning g \<and> isPaused g' = isPaused g
            \<and> \<not> game_destroyed g'
            \<and> fpsHistory g' = fpsHistory g \<and> lowFPSCount g' = lowFPSCount g
            \<and> lowFPSThreshold g' = lowFPSThreshold g \<and> adaptiveQuality g' = adaptiveQuality g
            \<and> maxDeltaTime g' = maxDeltaTime g \<and> game_lastFrameTime g' = game_lastFrameTime g"
proof -
  let ?g1 = "g\<lparr>stats := (stats g)\<lparr>stats_playTime := stats_playTime (stats g) + dt\<rparr>\<rparr>"
  obtain p' where p': "Game_updatePlayer dt h ?g1 = ?g1\<lparr>player := Some p', fishes := fishes ?g1\<rparr>"
      "\<not> isCasting p'"
    using quiet_updatePlayer [of ?g1 p dt h] assms(3-6) by auto
  show ?thesis
    unfolding Game_update_def if_not_P [OF assms(1)] Let_def p'(1)
    using assms(1,2,7) p'(2)
    by (simp add: Game_updateFish_def Game_updateGameMechanics_def Game_updatePowerUps_def
        Game_checkFishCollisions_def Game_handleFishSpawning_def Game_updateDifficulty_def
        Game_updateLOD_def Game_cleanupFish_def Let_def)
qed


lemma paused_slow_frame:
  assumes "isRunning g" "isPaused g" "\<not> game_destroyed g" "maxDeltaTime g = 1000 / 30"
  shows "Game_gameLoop (game_lastFrameTime g + 40) h g
           = Inr ((Game_updateFPS (1000 / 30)
                     (g\<lparr>game_lastFrameTime := game_lastFrameTime g + 40\<rparr>))
                   \<lparr>animationFrameId := True\<rparr>)"
proof -
  have dt: "min (game_lastFrameTime g + 40 - game_lastFrameTime g) (maxDeltaTime g) = 1000 / 30"
    unfolding assms(4) by simp
  show ?thesis
    unfolding Game_gameLoop_def Let_def dt using assms(1-3) by simp
qed

lemma slow_frames_lower_maxFish:
  assumes "isRunning g" "isPaused g" "\<not> game_destroyed g"
    and "set (fpsHistory g) \<subseteq> {Some 30}" "lowFPSThreshold g = 45" "adaptiveQuality g"
    and "maxDeltaTime g = 1000 / 30" "maxFish g > 5" "lowFPSCount g + n \<le> 61"
  shows "\<exists>g'. slow_frames n h g = Inr g'
            \<and> maxFish g' = (if lowFPSCount g + n = 61 \<and> 0 < n then maxFish g - 2 else maxFish g)
            \<and> fishPool g' = fishPool g \<and> activeFish g' = activeFish g
            \<and> \<not> game_destroyed g' \<and> isRunning g' \<and> isPaused g'"
  using assms
proof (induction n arbitrary: g)
  case 0
  then show ?case by simp
next
  case (Suc n)
  let ?g0 = "g\<lparr>game_lastFrameTime := game_lastFrameTime g + 40\<rparr>"
  let ?g1 = "(Game_updateFPS (1000 / 30) ?g0)\<lparr>animationFrameId := True\<rparr>"
  have frame: "Game_gameLoop (game_lastFrameTime g + 40) h g = Inr ?g1"
    using paused_slow_frame [OF Suc.prems(1,2,3,7)] .
  have step: "slow_frames (Suc n) h g = slow_frames n h ?g1"
    by (simp add: frame)
  have h0: "set (fpsHistory ?g0) \<subseteq> {Some 30}" "lowFPSThreshold ?g0 = 45"
    using Suc.prems(4,5) by simp_all
  note low = updateFPS_low [OF h0]
  have count: "lowFPSCount ?g1 = lowFPSCount g + 1"
    using low(2) by simp
  have mf: "maxFish ?g1 = (if lowFPSCount g + 1 > 60 then maxFish g - 2 else maxFish g)"
    using low(3) Suc.prems(6,8) by simp
  have keep: "isRunning ?g1" "isPaused ?g1" "\<not> game_destroyed ?g1"
      "set (fpsHistory ?g1) \<subseteq> {Some 30}" "lowFPSThreshold ?g1 = 45" "adaptiveQuality ?g1"
      "maxDeltaTime ?g1 = 1000 / 30" "fishPool ?g1 = fishPool g" "activeFish ?g1 = activeFish g"
    using Suc.prems low(1) by simp_all
  show ?case
  proof (cases n)
    case 0
    have "slow_frames n h ?g1 = Inr ?g1"
      by (simp add: 0)
    then have s: "slow_frames (Suc n) h g = Inr ?g1"
      by (simp only: step)
    show ?thesis
      unfolding s using mf keep Suc.prems(9) by (auto simp add: 0)
  next
    case (Suc m)
    then have small: "lowFPSCount g + 1 \<le> 60" using Suc.prems(9) by simp
    then have mf1: "maxFish ?g1 = maxFish g" using mf by simp
    have pre: "maxFish ?g1 > 5" "lowFPSCount ?g1 + n \<le> 61"
      using mf1 Suc.prems(8,9) count by simp_all
    from Suc.IH [OF keep(1-7) pre]
    show ?thesis
      unfolding step using mf1 keep(8,9) count Suc by auto
  qed
qed

lemma Game_new_fields:
  assumes "Game_new options rnd = Inr g"
  shows "\<not> game_destroyed g" "\<not> isRunning g" "\<not> isPaused g" "activeFish g = []"
    "fpsHistory g = []" "lowFPSCount g = 0" "lowFPSThreshold g = 45" "adaptiveQuality g"
    "maxDeltaTime g = 1000 / 30" "lastFishSpawn g = 0" "fishSpawnInterval g = 2000"
    "fishSpawnRate g = 1" "game_lastFrameTime g = 0"
    "maxFish g = or_num (gopt_maxFish options) 10"
    "fishPool g = [0 ..< nat \<lceil>or_num (gopt_maxFish options) 10 * 2\<rceil>]"
    "\<not> gopt_skipDependencies options \<Longrightarrow>
       player g = Some (game_player (or_num (gopt_width options) 375)
                                    (or_num (gopt_height options) 667))"
proof -
  obtain c0 where c0: "gopt_canvas options = Some c0"
    using assms by (cases "gopt_canvas options") (simp_all add: Game_new_def)
  obtain tc where tc: "Game_createGameEntities (c0\<lparr>canvas_width := or_num (gopt_width options) 375\<rparr>)
      (or_num (gopt_width options) 375) (or_num (gopt_height options) 667)
      = Inr (game_player (or_num (gopt_width options) 375) (or_num (gopt_height options) 667), tc)"
    using createGameEntities_player by blast
  have g: "g = projr (Game_new options rnd)" using assms by simp
  show "\<not> game_destroyed g" "\<not> isRunning g" "\<not> isPaused g" "activeFish g = []"
    "fpsHistory g = []" "lowFPSCount g = 0" "lowFPSThreshold g = 45" "adaptiveQuality g"
    "maxDeltaTime g = 1000 / 30" "lastFishSpawn g = 0" "fishSpawnInterval g = 2000"
    "fishSpawnRate g = 1" "game_lastFrameTime g = 0"
    "maxFish g = or_num (gopt_maxFish options) 10"
    "fishPool g = [0 ..< nat \<lceil>or_num (gopt_maxFish options) 10 * 2\<rceil>]"
    "\<not> gopt_skipDependencies options \<Longrightarrow>
       player g = Some (game_player (or_num (gopt_width options) 375)
                                    (or_num (gopt_height options) 667))"
    unfolding g by (simp_all add: Game_new_def c0 tc Let_def)
qed


lemma enable_touch_frame [simp]:
  "isRunning (enable_touch b g) = isRunning g"
  "isPaused (enable_touch b g) = isPaused g"
  "game_destroyed (enable_touch b g) = game_destroyed g"
  "fishPool (enable_touch b g) = fishPool g"
  "activeFish (enable_touch b g) = activeFish g"
  "maxFish (enable_touch b g) = maxFish g"
  "fpsHistory (enable_touch b g) = fpsHistory g"
  "lowFPSCount (enable_touch b g) = lowFPSCount g"
  "lowFPSThreshold (enable_touch b g) = lowFPSThreshold g"
  "adaptiveQuality (enable_touch b g) = adaptiveQuality g"
  "maxDeltaTime (enable_touch b g) = maxDeltaTime g"
  "game_lastFrameTime (enable_touch b g) = game_lastFrameTime g"
  "player (enable_touch b g) = player g"
  "lastFishSpawn (enable_touch b g) = lastFishSpawn g"
  "fishSpawnInterval (enable_touch b g) = fishSpawnInterval g"
  "fishSpawnRate (enable_touch b g) = fishSpawnRate g"
  by (simp_all add: enable_touch_def)

definition started_game :: Game where
  "started_game = projr (Game_start 0 40 quiet_host new_game)"

definition paused_game :: Game where
  "paused_game = Game_pause started_game"

definition slow_game :: Game where
  "slow_game = projr (slow_frames 60 quiet_host paused_game)"

lemma started_game_fields:
  "Game_start 0 40 quiet_host new_game = Inr started_game"
  "isRunning started_game" "\<not> isPaused started_game" "\<not> game_destroyed started_game"
  "set (fpsHistory started_game) \<subseteq> {Some 30}" "lowFPSCount started_game = 1"
  "lowFPSThreshold started_game = 45" "adaptiveQuality started_game"
  "maxDeltaTime started_game = 1000 / 30" "maxFish started_game = 10"
  "fishPool started_game = [0..<20]" "activeFish started_game = []"
  "animationFrameId started_game"
proof -
  note n = Game_new_fields [OF new_game_constructed]
  let ?gs = "enable_touch True (new_game\<lparr>isRunning := True, isPaused := False,
               gameState := ''playing'', game_lastFrameTime := 0\<rparr>)"
  let ?g0 = "?gs\<lparr>game_lastFrameTime := 40\<rparr>"
  let ?g1 = "Game_updateFPS (1000 / 30) ?g0"
  have start: "Game_start 0 40 quiet_host new_game = Game_gameLoop 40 quiet_host ?gs"
    using n(1,2) by (simp add: Game_start_def)
  have dt: "min (40 - game_lastFrameTime ?gs) (maxDeltaTime ?gs) = 1000 / 30"
    by (simp add: n(9))
  have h0: "set (fpsHistory ?g0) \<subseteq> {Some 30}" "lowFPSThreshold ?g0 = 45"
    by (simp_all add: n)
  note low = updateFPS_low [OF h0]
  have pl: "player ?g1 = Some (game_player 375 667)"
    using n(16) by (simp add: default_game_options_def or_num_def)
  have spawn: "lastFishSpawn ?g1 + 1000 / 30 < fishSpawnInterval ?g1 / fishSpawnRate ?g1"
    by (simp add: n)
  have nd: "\<not> game_destroyed ?g1" "activeFish ?g1 = []"
    by (simp_all add: n)
  obtain g2 where g2: "Game_update (1000 / 30) quiet_host ?g1 = Inr g2"
      "activeFish g2 = []" "fishPool g2 = fishPool ?g1" "maxFish g2 = maxFish ?g1"
      "isRunning g2 = isRunning ?g1" "isPaused g2 = isPaused ?g1" "\<not> game_destroyed g2"
      "fpsHistory g2 = fpsHistory ?g1" "lowFPSCount g2 = lowFPSCount ?g1"
      "lowFPSThreshold g2 = lowFPSThreshold ?g1" "adaptiveQuality g2 = adaptiveQuality ?g1"
      "maxDeltaTime g2 = maxDeltaTime ?g1" "game_lastFrameTime g2 = game_lastFrameTime ?g1"
    using quiet_update [OF nd pl game_player_idle(1,2,3) spawn, of quiet_host] by blast
  have run: "\<not> (\<not> isRunning ?gs \<or> game_destroyed ?gs)" "\<not> isPaused ?g1"
    by (simp_all add: n)
  have loop: "Game_gameLoop 40 quiet_host ?gs = Inr (g2\<lparr>animationFrameId := True\<rparr>)"
    unfolding Game_gameLoop_def if_not_P [OF run(1)] Let_def dt
    using run(2) g2(1) by (simp add: and_then_def)
  have s: "started_game = g2\<lparr>animationFrameId := True\<rparr>"
    by (simp add: started_game_def start loop)
  show "Game_start 0 40 quiet_host new_game = Inr started_game"
    by (simp add: start loop s)
  show "isRunning started_game" "\<not> isPaused started_game" "\<not> game_destroyed started_game"
    by (simp_all add: s g2 n)
  show "set (fpsHistory started_game) \<subseteq> {Some 30}"
    using low(1) by (simp add: s g2)
  show "lowFPSCount started_game = 1"
    using low(2) by (simp add: s g2 n)
  show "lowFPSThreshold started_game = 45" "adaptiveQuality started_game"
    "maxDeltaTime started_game = 1000 / 30"
    by (simp_all add: s g2 n)
  show "maxFish started_game = 10"
    using low(3) by (simp add: s g2 n default_game_options_def or_num_def)
  show "fishPool started_game = [0..<20]" "activeFish started_game = []"
    by (simp_all add: s g2 n default_game_options_def or_num_def)
  show "animationFrameId started_game"
    by (simp add: s)
qed

lemma paused_game_fields:
  "isRunning paused_game" "isPaused paused_game" "\<not> game_destroyed paused_game"
  "set (fpsHistory paused_game) \<subseteq> {Some 30}" "lowFPSCount paused_game = 1"
  "lowFPSThreshold paused_game = 45" "adaptiveQuality paused_game"
  "maxDeltaTime paused_game = 1000 / 30" "maxFish paused_game = 10"
  "fishPool paused_game = [0..<20]" "activeFish paused_game = []"
  using started_game_fields(2-)
  by (simp_all add: paused_game_def Game_pause_def)

lemma slow_game_fields:
  "slow_frames 60 quiet_host paused_game = Inr slow_game"
  "maxFish slow_game = 8" "fishPool slow_game = [0..<20]" "activeFish slow_game = []"
  "\<not> game_destroyed slow_game"
proof -
  have "maxFish paused_game > 5" "lowFPSCount paused_game + 60 \<le> 61"
    by (simp_all add: paused_game_fields)
  from slow_frames_lower_maxFish [OF paused_game_fields(1-4,6-8) this, of quiet_host]
  obtain g' where g': "slow_frames 60 quiet_host paused_game = Inr g'"
     "maxFish g' = 8" "fishPool g' = [0..<20]" "activeFish g' = []" "\<not> game_destroyed g'"
    by (auto simp add: paused_game_fields)
  have s: "slow_game = g'" by (simp add: slow_game_def g'(1))
  show "slow_frames 60 quiet_host paused_game = Inr slow_game"
    "maxFish slow_game = 8" "fishPool slow_game = [0..<20]" "activeFish slow_game = []"
    "\<not> game_destroyed slow_game"
    unfolding s using g' by simp_all
qed

text \<open>
  C10 as claimed fails once \<open>maxFish\<close> has been lowered. The game constructed with the
  defaults is started (first frame 40 ms after the start), paused, and 60 more frames
  arrive 40 ms apart: after 61 frames below 45 frames per second \<^verbatim>\<open>_updateFPS\<close> calls
  \<^verbatim>\<open>_adaptQuality\<close>, and \<open>maxFish\<close> is 8 while the pool holds 20 fish. A fish spawned in
  that state (fish 19) leaves 19 fish in the pool, which is not fewer than 16, so the
  next \<^verbatim>\<open>_cleanupFish\<close> removes it from \<open>activeFish\<close> without returning it to the pool.
\<close>

theorem spawned_fish_is_dropped_after_quality_adaptation:
  "Game_start 0 40 quiet_host new_game = Inr started_game
   \<and> slow_frames 60 quiet_host (Game_pause started_game) = Inr slow_game
   \<and> maxFish slow_game = 8 \<and> fishPool slow_game = [0..<20]
   \<and> activeFish (Game_spawnFish (\<lambda>_. 0) slow_game) = [19]
   \<and> (\<exists>g2. Game_cleanupFish (Game_spawnFish (\<lambda>_. 0) slow_game) = Inr g2
          \<and> activeFish g2 = [] \<and> fishPool g2 = [0..<19] \<and> 19 \<notin> set (fishPool g2))"
proof -
  have pre: "real (length (activeFish slow_game)) < maxFish slow_game"
       "fishPool slow_game \<noteq> []"
    by (simp_all add: slow_game_fields)
  have l: "last (fishPool slow_game) = 19"
       "butlast (fishPool slow_game) = [0..<19]"
    by (simp_all add: slow_game_fields last_upt_20)
  have a: "activeFish (Game_spawnFish (\<lambda>_. 0) slow_game) = [19]"
    using spawnFish_appends(1) [OF pre, of "\<lambda>_. 0"] by (simp add: l slow_game_fields)
  obtain g2 where g2: "Game_cleanupFish (Game_spawnFish (\<lambda>_. 0) slow_game) = Inr g2"
      "fishPool g2 = [0..<19]" "19 \<notin> set (activeFish g2)"
      "\<forall>c\<in>set (activeFish g2). \<not> needs_cleanup g2 c"
    using spawn_then_cleanup [OF pre, of "\<lambda>_. 0"] unfolding l
    by (auto simp add: slow_game_fields)
  have "activeFish g2 = []"
    using g2(1) a
    by (simp add: Game_cleanupFish_def needs_cleanup_def Let_def
        spawnFish_appends(4) [OF pre, of "\<lambda>_. 0", unfolded l] split: if_splits) auto
  then show ?thesis
    using a g2 slow_game_fields(1,2,3) started_game_fields(1)
    by (simp add: paused_game_def)
qed

section \<open>Game: a caught fish leaves the active list\<close>

lemma catchFish_succeeds:
  assumes "\<not> player_destroyed p" "\<not> isCaught (fs c)" "c \<notin> set (caughtFish p)"
    and "\<not> catch_fails r p"
  shows "\<exists>p'. catchFish (Some c) r (p, fs) = (p', fs(c := Fish_catch (fs c)))
            \<and> caughtFish p' = caughtFish p @ [c]
            \<and> isCasting p' = isCasting p \<and> isReeling p' = isReeling p
            \<and> totalScore p' = add_score (totalScore p) (getScore (Fish_catch (fs c)))
            \<and> fishesCaught p' = fishesCaught p + 1
            \<and> new_events p p' = map (\<lambda>cb. (FishCaught c (getScore (Fish_catch (fs c))), cb))
                                    (player_eventListeners p ''fishCaught'')"
  using assms by (simp add: catchFish_def Let_def Player_emit_def new_events_def)

lemma foreign_callbacks_only:
  assumes "count_list cbs handleFishCaught_id = 0"
  shows "Game_handle_all (map (\<lambda>cb. (FishCaught c score, cb)) cbs) clock g = g"
  using assms by (induction cbs arbitrary: clock) (simp_all split: if_splits)

lemma handler_runs_once:
  assumes "count_list cbs handleFishCaught_id = 1"
  shows "\<exists>now. Game_handle_all (map (\<lambda>cb. (FishCaught c score, cb)) cbs) clock g
                 = Game_handleFishCaught c score now g"
  using assms
proof (induction cbs arbitrary: clock)
  case Nil
  then show ?case by simp
next
  case (Cons cb cbs)
  show ?case
  proof (cases "cb = handleFishCaught_id")
    case True
    then have "count_list cbs handleFishCaught_id = 0" using Cons.prems by simp
    from foreign_callbacks_only [OF this] True show ?thesis by auto
  next
    case False
    then have "count_list cbs handleFishCaught_id = 1" using Cons.prems by simp
    from Cons.IH [OF this, of "\<lambda>i. clock (Suc i)"] False show ?thesis by simp
  qed
qed

lemma returnFishToPool_player [simp]:
  "player (Game_returnFishToPool fish g) = player g"
  "stats (Game_returnFishToPool fish g) = stats g"
  by (simp_all add: Game_returnFishToPool_def split: option.splits)

lemma handleFishCaught_fields:
  "player (Game_handleFishCaught c score now g) = player g"
  "activeFish (Game_handleFishCaught c score now g) = remove1 c (activeFish g)"
  "fishPool (Game_handleFishCaught c score now g)
     = (if real (length (fishPool g)) < maxFish g * 2 then fishPool g @ [c] else fishPool g)"
  "isCaught (fishes (Game_handleFishCaught c score now g) c) = isCaught (fishes g c)"
  "\<not> fish_isActive (fishes (Game_handleFishCaught c score now g) c)"
  "stats_fishCaught (stats (Game_handleFishCaught c score now g)) = stats_fishCaught (stats g) + 1"
  by (simp_all add: Game_handleFishCaught_def Game_updateScore_def Game_updateCombo_def Let_def)

lemma catch_through_game:
  assumes "player g = Some p" "\<not> player_destroyed p" "\<not> isCaught (fishes g c)"
    and "c \<notin> set (caughtFish p)" "\<not> catch_fails r p"
    and "count_list (player_eventListeners p ''fishCaught'') handleFishCaught_id = 1"
  shows "\<exists>p'. player (Game_player_call (catchFish (Some c) r) clock g) = Some p'
            \<and> caughtFish p' = caughtFish p @ [c]
            \<and> isCasting p' = isCasting p \<and> isReeling p' = isReeling p
            \<and> totalScore p' = add_score (totalScore p) (getScore (Fish_catch (fishes g c)))
            \<and> fishesCaught p' = fishesCaught p + 1"
    and "isCaught (fishes (Game_player_call (catchFish (Some c) r) clock g) c)"
    and "\<not> fish_isActive (fishes (Game_player_call (catchFish (Some c) r) clock g) c)"
    and "activeFish (Game_player_call (catchFish (Some c) r) clock g) = remove1 c (activeFish g)"
    and "fishPool (Game_player_call (catchFish (Some c) r) clock g)
           = (if real (length (fishPool g)) < maxFish g * 2 then fishPool g @ [c]
              else fishPool g)"
    and "stats_fishCaught (stats (Game_player_call (catchFish (Some c) r) clock g))
           = stats_fishCaught (stats g) + 1"
proof -
  let ?score = "getScore (Fish_catch (fishes g c))"
  let ?fs = "(fishes g)(c := Fish_catch (fishes g c))"
  obtain p' where p': "catchFish (Some c) r (p, fishes g) = (p', ?fs)"
      "caughtFish p' = caughtFish p @ [c]"
      "isCasting p' = isCasting p" "isReeling p' = isReeling p"
      "totalScore p' = add_score (totalScore p) ?score"
      "fishesCaught p' = fishesCaught p + 1"
      "new_events p p' = map (\<lambda>cb. (FishCaught c ?score, cb)) (player_eventListeners p ''fishCaught'')"
    using catchFish_succeeds [where fs = "fishes g", OF assms(2-5)] by blast
  let ?g = "g\<lparr>player := Some p', fishes := ?fs\<rparr>"
  obtain now where now: "Game_handle_all (new_events p p') clock ?g
                           = Game_handleFishCaught c ?score now ?g"
    unfolding p'(7) using handler_runs_once [OF assms(6)] by blast
  have call: "Game_player_call (catchFish (Some c) r) clock g
                = Game_handleFishCaught c ?score now ?g"
    by (simp add: Game_player_call_def assms(1) p'(1) now)
  show "\<exists>p'. player (Game_player_call (catchFish (Some c) r) clock g) = Some p'
            \<and> caughtFish p' = caughtFish p @ [c]
            \<and> isCasting p' = isCasting p \<and> isReeling p' = isReeling p
            \<and> totalScore p' = add_score (totalScore p) (getScore (Fish_catch (fishes g c)))
            \<and> fishesCaught p' = fishesCaught p + 1"
    unfolding call handleFishCaught_fields using p'(2-6) by simp
  show "isCaught (fishes (Game_player_call (catchFish (Some c) r) clock g) c)"
    unfolding call handleFishCaught_fields by (simp add: Fish_catch_def)
  show "\<not> fish_isActive (fishes (Game_player_call (catchFish (Some c) r) clock g) c)"
    unfolding call using handleFishCaught_fields(5) .
  show "activeFish (Game_player_call (catchFish (Some c) r) clock g) = remove1 c (activeFish g)"
    unfolding call handleFishCaught_fields by simp
  show "fishPool (Game_player_call (catchFish (Some c) r) clock g)
           = (if real (length (fishPool g)) < maxFish g * 2 then fishPool g @ [c]
              else fishPool g)"
    unfolding call handleFishCaught_fields by simp
  show "stats_fishCaught (stats (Game_player_call (catchFish (Some c) r) clock g))
           = stats_fishCaught (stats g) + 1"
    unfolding call handleFishCaught_fields by simp
qed


text \<open>
  C4 (amended). Let the game's \<^verbatim>\<open>_handleFishCaught\<close> be registered once on the player
  (as the constructor leaves it), and let \<^verbatim>\<open>catchFish(fish)\<close> succeed: the player is
  not destroyed, the fish is not caught and not in the caught list, and the draw does
  not exceed the catch chance. Then in the state after the call the fish is marked
  caught and inactive and is the last entry of the player's caught list, the player's
  score and fish count are updated, the player's casting and reeling flags are as
  before (reeling has not completed) -- and the fish has already left play: the
  handler ran inside the call, so \<open>activeFish\<close> is the old list without the fish (its
  first occurrence), the fish has been pushed on the pool if the pool held fewer than
  \<open>maxFish * 2\<close> fish, and the game has counted the catch.
\<close>

theorem caught_fish_leaves_activeFish_at_once:
  assumes "player g = Some p" "\<not> player_destroyed p" "\<not> isCaught (fishes g c)"
    and "c \<notin> set (caughtFish p)" "\<not> catch_fails r p"
    and "count_list (player_eventListeners p ''fishCaught'') handleFishCaught_id = 1"
  shows "(\<exists>p'. player (Game_player_call (catchFish (Some c) r) clock g) = Some p'
            \<and> caughtFish p' = caughtFish p @ [c]
            \<and> isCasting p' = isCasting p \<and> isReeling p' = isReeling p
            \<and> totalScore p' = add_score (totalScore p) (getScore (Fish_catch (fishes g c)))
            \<and> fishesCaught p' = fishesCaught p + 1)
       \<and> isCaught (fishes (Game_player_call (catchFish (Some c) r) clock g) c)
       \<and> \<not> fish_isActive (fishes (Game_player_call (catchFish (Some c) r) clock g) c)
       \<and> activeFish (Game_player_call (catchFish (Some c) r) clock g) = remove1 c (activeFish g)
       \<and> fishPool (Game_player_call (catchFish (Some c) r) clock g)
           = (if real (length (fishPool g)) < maxFish g * 2 then fishPool g @ [c]
              else fishPool g)
       \<and> stats_fishCaught (stats (Game_player_call (catchFish (Some c) r) clock g))
           = stats_fishCaught (stats g) + 1"
  using catch_through_game [OF assms, of clock] by blast

text \<open>
  The game constructed with the defaults after one \<^verbatim>\<open>_spawnFish()\<close>, which puts fish
  19 on the active list, and that game after \<^verbatim>\<open>player.catchFish\<close> of fish 19 with the
  draw 0.
\<close>

definition spawned_game :: Game where
  "spawned_game = Game_spawnFish (\<lambda>_. 0) new_game"

definition caught_game :: Game where
  "caught_game = Game_player_call (catchFish (Some 19) 0) (\<lambda>_. 0) spawned_game"

lemma spawnFish_player [simp]: "player (Game_spawnFish rnd g) = player g"
  by (simp add: Game_spawnFish_def Game_getFishFromPool_def Let_def)

lemma spawnFish_not_caught:
  assumes "real (length (activeFish g)) < maxFish g" and "fishPool g \<noteq> []"
  shows "\<not> isCaught (fishes (Game_spawnFish rnd g) (last (fishPool g)))"
  using assms by (simp add: Game_spawnFish_def Game_getFishFromPool_def Let_def Fish_reset_def)

lemma listening_catch_fields [simp]:
  "hookEffectiveness (listening e c p) = hookEffectiveness p"
  "weatherEffects (listening e c p) = weatherEffects p"
  "fishesCaught (listening e c p) = fishesCaught p"
  by (simp_all add: listening_def)

lemma Player_applyEnvironmentEffects_catch_fields [simp]:
  "hookEffectiveness (Player_applyEnvironmentEffects p) = hookEffectiveness p"
  "weatherEffects (Player_applyEnvironmentEffects p) = weatherEffects p"
  "fishesCaught (Player_applyEnvironmentEffects p) = fishesCaught p"
  by (simp_all add: Player_applyEnvironmentEffects_def)

lemma Player_new_catch_fields:
  "popt_hookType options = None \<Longrightarrow> hookEffectiveness (Player_new options) = Some 1"
  "popt_weather options = None \<Longrightarrow> weatherEffects (Player_new options) = Some calm"
  "fishesCaught (Player_new options) = 0"
  by (simp_all add: Player_new_def Let_def or_str_def Player_getHookEffectiveness_def
      Player_getWeatherEffects_def)

lemma game_player_catches: "\<not> catch_fails 0 (game_player w h)"
  by (simp add: catch_fails_def game_player_def Player_new_catch_fields
      no_player_options_def calm_def)

lemma spawned_game_fields:
  "player spawned_game = Some (game_player 375 667)"
  "activeFish spawned_game = [19]" "fishPool spawned_game = [0..<19]"
  "maxFish spawned_game = 10" "\<not> isCaught (fishes spawned_game 19)"
proof -
  note n = Game_new_fields [OF new_game_constructed]
  have pre: "real (length (activeFish new_game)) < maxFish new_game" "fishPool new_game \<noteq> []"
    by (simp_all add: new_game_fields)
  have l: "last (fishPool new_game) = 19" "butlast (fishPool new_game) = [0..<19]"
    by (simp_all add: new_game_fields last_upt_20)
  show "player spawned_game = Some (game_player 375 667)"
    using n(16) by (simp add: spawned_game_def default_game_options_def or_num_def)
  show "activeFish spawned_game = [19]" "fishPool spawned_game = [0..<19]"
    "maxFish spawned_game = 10"
    using spawnFish_appends(1-3) [OF pre, of "\<lambda>_. 0", unfolded l]
    by (simp_all add: spawned_game_def new_game_fields)
  show "\<not> isCaught (fishes spawned_game 19)"
    using spawnFish_not_caught [OF pre, of "\<lambda>_. 0"] by (simp add: spawned_game_def l)
qed

text \<open>The theorem at that catch.\<close>

theorem caught_fish_leaves_activeFish_at_once_witness:
  "player spawned_game = Some (game_player 375 667)
   \<and> \<not> player_destroyed (game_player 375 667)
   \<and> \<not> isCaught (fishes spawned_game 19)
   \<and> 19 \<notin> set (caughtFish (game_player 375 667))
   \<and> \<not> catch_fails 0 (game_player 375 667)
   \<and> count_list (player_eventListeners (game_player 375 667) ''fishCaught'') handleFishCaught_id = 1
   \<and> (\<exists>p'. player caught_game = Some p' \<and> caughtFish p' = [19]
          \<and> \<not> isCasting p' \<and> \<not> isReeling p' \<and> fishesCaught p' = 1)
   \<and> isCaught (fishes caught_game 19)
   \<and> \<not> fish_isActive (fishes caught_game 19)
   \<and> activeFish caught_game = []
   \<and> fishPool caught_game = [0..<19] @ [19]"
proof -
  have pre: "player spawned_game = Some (game_player 375 667)"
      "\<not> player_destroyed (game_player 375 667)"
      "\<not> isCaught (fishes spawned_game 19)"
      "19 \<notin> set (caughtFish (game_player 375 667))"
      "\<not> catch_fails 0 (game_player 375 667)"
      "count_list (player_eventListeners (game_player 375 667) ''fishCaught'') handleFishCaught_id = 1"
    by (simp_all add: spawned_game_fields game_player_idle game_player_catches
        game_player_listeners)
  have new: "fishesCaught (game_player 375 667) = 0"
    by (simp add: game_player_def Player_new_catch_fields)
  have post: "(\<exists>p'. player caught_game = Some p' \<and> caughtFish p' = [19]
          \<and> \<not> isCasting p' \<and> \<not> isReeling p' \<and> fishesCaught p' = 1)
   \<and> isCaught (fishes caught_game 19)
   \<and> \<not> fish_isActive (fishes caught_game 19)
   \<and> activeFish caught_game = []
   \<and> fishPool caught_game = [0..<19] @ [19]"
    using caught_fish_leaves_activeFish_at_once [OF pre, of "\<lambda>_. 0"]
    unfolding caught_game_def [symmetric]
    by (auto simp add: spawned_game_fields game_player_idle new)
  show ?thesis
    using pre post by blast
qed

text \<open>
  C4 as claimed fails: fish 19 is on the active list, \<^verbatim>\<open>catchFish\<close> succeeds, and in
  the state right after the call the fish is caught and held by the player, who is not
  reeling, yet it is no longer on the active list and is back in the pool.
\<close>

theorem caught_fish_is_returned_to_pool_when_caught:
  "activeFish spawned_game = [19]
   \<and> (\<exists>p'. player caught_game = Some p' \<and> 19 \<in> set (caughtFish p') \<and> \<not> isReeling p')
   \<and> isCaught (fishes caught_game 19)
   \<and> 19 \<notin> set (activeFish caught_game)
   \<and> 19 \<in> set (fishPool caught_game)"
proof -
  have pre: "player spawned_game = Some (game_player 375 667)"
      "\<not> player_destroyed (game_player 375 667)"
      "\<not> isCaught (fishes spawned_game 19)"
      "19 \<notin> set (caughtFish (game_player 375 667))"
      "\<not> catch_fails 0 (game_player 375 667)"
      "count_list (player_eventListeners (game_player 375 667) ''fishCaught'') handleFishCaught_id = 1"
    by (simp_all add: spawned_game_fields game_player_idle game_player_catches
        game_player_listeners)
  note c = catch_through_game [OF pre, of "\<lambda>_. 0", folded caught_game_def]
  have "\<exists>p'. player caught_game = Some p' \<and> 19 \<in> set (caughtFish p') \<and> \<not> isReeling p'"
    using c(1) by (auto simp add: game_player_idle)
  moreover have "19 \<notin> set (activeFish caught_game)" "19 \<in> set (fishPool caught_game)"
    using c(4,5) by (simp_all add: spawned_game_fields)
  ultimately show ?thesis
    using c(2) by (simp add: spawned_game_fields)
qed

section \<open>Destroy: the second call and the calls that follow\<close>

text \<open>
  First what holds. For each of the four components a second \<^verbatim>\<open>destroy()\<close> leaves the
  state that the first one produced, and the methods that test the \<open>destroyed\<close> flag
  return at once on a destroyed component.
\<close>

lemma Fish_destroy_twice: "Fish_destroy (Fish_destroy f) = Fish_destroy f"
  by (simp add: Fish_destroy_def)

lemma Fish_update_destroyed: "Fish_update dt rnd mates (Fish_destroy f) = Fish_destroy f"
  by (simp add: Fish_update_def Fish_destroy_def)

lemma Player_destroy_fields:
  "player_destroyed (fst (Player_destroy rnd s))"
  "\<not> player_isActive (fst (Player_destroy rnd s))"
  "caughtFish (fst (Player_destroy rnd s)) = []"
  "player_activePowerUps (fst (Player_destroy rnd s)) = []"
  "powerUpEffects (fst (Player_destroy rnd s)) = (\<lambda>_. None)"
  "powerUpEffects_proto (fst (Player_destroy rnd s)) = None"
  "player_eventListeners (fst (Player_destroy rnd s)) = (\<lambda>_. [])"
  by (cases s, simp add: Player_destroy_def Let_def Player_emit_def)+

lemma Player_destroy_again:
  assumes "player_destroyed p" "\<not> player_isActive p" "caughtFish p = []"
    "player_activePowerUps p = []" "powerUpEffects p = (\<lambda>_. None)"
    "powerUpEffects_proto p = None" "player_eventListeners p = (\<lambda>_. [])"
  shows "Player_destroy rnd (p, fs) = (p, fs)"
  using assms by (simp add: Player_destroy_def Let_def Player_emit_def)

lemma Player_destroy_twice:
  "Player_destroy rnd2 (Player_destroy rnd1 s) = Player_destroy rnd1 s"
proof -
  obtain p fs where s: "s = (p, fs)" by (cases s)
  obtain p' fs' where d: "Player_destroy rnd1 (p, fs) = (p', fs')" by (cases "Player_destroy rnd1 (p, fs)")
  have "player_destroyed p'" "\<not> player_isActive p'" "caughtFish p' = []"
    "player_activePowerUps p' = []" "powerUpEffects p' = (\<lambda>_. None)"
    "powerUpEffects_proto p' = None" "player_eventListeners p' = (\<lambda>_. [])"
    using d by (auto simp add: Player_destroy_def Let_def Player_emit_def)
  from Player_destroy_again [OF this] show ?thesis
    unfolding s d .
qed

lemma Player_guarded_after_destroy:
  assumes "player_destroyed p"
  shows "cast pw angle r p = p" "handleTouchCast a b r p = p" "startReeling p = p"
    "stopReeling p = p" "handleTouchReel p = p" "applyPowerUp pu now p = p"
    "Player_update dt now rnd (p, fs) = (p, fs)"
    "catchFish fish r (p, fs) = (p, fs)"
  using assms
  by (simp_all add: cast_def handleTouchCast_def startReeling_def stopReeling_def
      handleTouchReel_def applyPowerUp_def Player_update_def catchFish_def
      split: option.splits)

lemma returnTouchToPool_flags [simp]:
  "tc_destroyed (TouchController_returnTouchToPool t tc) = tc_destroyed tc"
  "tc_isEnabled (TouchController_returnTouchToPool t tc) = tc_isEnabled tc"
  by (simp_all add: TouchController_returnTouchToPool_def)

lemma fold_returnTouchToPool_flags:
  "tc_destroyed (fold (\<lambda>kv. TouchController_returnTouchToPool (snd kv)) ts tc) = tc_destroyed tc"
  "tc_isEnabled (fold (\<lambda>kv. TouchController_returnTouchToPool (snd kv)) ts tc) = tc_isEnabled tc"
  by (induction ts arbitrary: tc) simp_all

lemma TouchController_destroy_fields:
  "tc_destroyed (TouchController_destroy tc)" "\<not> tc_isEnabled (TouchController_destroy tc)"
  "activeTouches (TouchController_destroy tc) = []" "touchPool (TouchController_destroy tc) = []"
  "tc_eventListeners (TouchController_destroy tc) = (\<lambda>_. [])"
  "customGestures (TouchController_destroy tc) = (\<lambda>_. None)"
  by (simp_all add: TouchController_destroy_def Let_def fold_returnTouchToPool_flags)

lemma TouchController_destroy_again:
  assumes "tc_destroyed tc" "\<not> tc_isEnabled tc" "activeTouches tc = []" "touchPool tc = []"
    "tc_eventListeners tc = (\<lambda>_. [])" "customGestures tc = (\<lambda>_. None)"
  shows "TouchController_destroy tc = tc"
  using assms by (cases tc) (simp add: TouchController_destroy_def)

lemma TouchController_destroy_twice:
  "TouchController_destroy (TouchController_destroy tc) = TouchController_destroy tc"
  by (rule TouchController_destroy_again) (simp_all add: TouchController_destroy_fields)

lemma TouchController_guarded_after_destroy:
  assumes "tc_destroyed tc"
  shows "TouchController_handleTouchStart ts now gs tc = tc"
    "TouchController_handleTouchMove ts now gs tc = tc"
    "TouchController_handleTouchEnd ts now rnd (tc, pl) = (tc, pl)"
    "TouchController_handleTouchCancel ts tc = tc"
  using assms
  by (simp_all add: TouchController_handleTouchStart_def TouchController_handleTouchMove_def
      TouchController_handleTouchEnd_def TouchController_handleTouchCancel_def)


lemma Game_destroy_fields:
  "game_destroyed (Game_destroy rnd g)"
  "activeFish (Game_destroy rnd g) = []" "fishPool (Game_destroy rnd g) = []"
  "game_eventListeners (Game_destroy rnd g) = (\<lambda>_. [])"
  "player (Game_destroy rnd g)
     = map_option (\<lambda>p. fst (Player_destroy rnd (p, fishes g))) (player g)"
  "touchController (Game_destroy rnd g) = map_option TouchController_destroy (touchController g)"
  "gameState (Game_destroy rnd g) = gameState g"
  "isRunning (Game_destroy rnd g) = isRunning g"
  "animationFrameId (Game_destroy rnd g) = animationFrameId g"
  by (simp_all add: Game_destroy_def Game_stop_def Let_def split: option.splits prod.splits)

lemma Game_destroy_again:
  assumes "game_destroyed g" "activeFish g = []" "fishPool g = []"
    and "game_eventListeners g = (\<lambda>_. [])"
    and "\<And>p. player g = Some p \<Longrightarrow> Player_destroy rnd (p, fishes g) = (p, fishes g)"
    and "\<And>tc. touchController g = Some tc \<Longrightarrow> TouchController_destroy tc = tc"
  shows "Game_destroy rnd g = g"
proof -
  have stop: "Game_stop (g\<lparr>game_destroyed := True\<rparr>) = g"
    using assms(1) by (cases g) (simp add: Game_stop_def)
  have pl: "(case player g of None \<Rightarrow> g
             | Some p \<Rightarrow> (case Player_destroy rnd (p, fishes g) of
                           (p', fs') \<Rightarrow> g\<lparr>player := Some p', fishes := fs'\<rparr>)) = g"
  proof (cases "player g")
    case None
    then show ?thesis by simp
  next
    case (Some p)
    have "g\<lparr>player := Some p, fishes := fishes g\<rparr> = g"
      using Some by (cases g) simp
    then show ?thesis
      using Some assms(5) [OF Some] by simp
  qed
  have tc: "g\<lparr>touchController := map_option TouchController_destroy (touchController g)\<rparr> = g"
  proof (cases "touchController g")
    case None
    then show ?thesis by (cases g) simp
  next
    case (Some c)
    then show ?thesis
      using assms(6) [OF Some] by (cases g) simp
  qed
  have fs: "g\<lparr>fishes := fold (\<lambda>c fs. fs(c := Fish_destroy (fs c))) (activeFish g @ fishPool g)
                           (fishes g)\<rparr> = g"
    by (simp add: assms(2,3))
  have rest: "g\<lparr>activeFish := [], fishPool := [], game_eventListeners := (\<lambda>_. [])\<rparr> = g"
    using assms(2,3,4) by (cases g) simp
  show ?thesis
    unfolding Game_destroy_def Let_def stop pl tc fs rest ..
qed

lemma Game_destroy_twice: "Game_destroy rnd2 (Game_destroy rnd1 g) = Game_destroy rnd1 g"
proof (rule Game_destroy_again)
  fix p assume "player (Game_destroy rnd1 g) = Some p"
  then obtain p0 where "p = fst (Player_destroy rnd1 (p0, fishes g))"
    by (auto simp add: Game_destroy_fields)
  then show "Player_destroy rnd2 (p, fishes (Game_destroy rnd1 g)) = (p, fishes (Game_destroy rnd1 g))"
    by (intro Player_destroy_again) (simp_all add: Player_destroy_fields)
next
  fix tc assume "touchController (Game_destroy rnd1 g) = Some tc"
  then obtain tc0 where "tc = TouchController_destroy tc0"
    by (auto simp add: Game_destroy_fields)
  then show "TouchController_destroy tc = tc"
    by (simp add: TouchController_destroy_twice)
qed (simp_all add: Game_destroy_fields)

lemma Game_guarded_after_destroy:
  assumes "game_destroyed g"
  shows "Game_start now currentTime h g = Inr g" "Game_pause g = g"
    "Game_resume now g = g" "Game_stop g = g" "Game_update dt h g = Inr g"
    "Game_gameLoop currentTime h g = Inr g"
  using assms
  by (simp_all add: Game_start_def Game_pause_def Game_resume_def Game_stop_def
      Game_update_def Game_gameLoop_def)

lemma Game_new_gameState:
  assumes "Game_new options rnd = Inr g"
  shows "gameState g = ''menu''"
  using assms
  by (auto simp add: Game_new_def Let_def split: option.splits if_splits sum.splits)

text \<open>
  C9 (the code after \<^verbatim>\<open>destroy()\<close>). The destroyed components are not inert, and not
  every later call is a no-op.

  \<^item> \<^verbatim>\<open>Game.destroy()\<close> sets \<open>destroyed\<close> and then calls \<^verbatim>\<open>stop()\<close>, whose guard
    \<^verbatim>\<open>if (this.destroyed || !this.isRunning) return\<close> is therefore taken: the game that
    \<^verbatim>\<open>start()\<close> returned is still \<open>isRunning\<close> after \<^verbatim>\<open>destroy()\<close> and its animation
    frame is still scheduled (\<^verbatim>\<open>cancelAnimationFrame\<close> is never called). The
    repository's tests \<open>should cleanup resources when destroyed\<close> and \<open>should release
    animation frame\<close> expect the opposite.
  \<^item> \<^verbatim>\<open>setGestureThreshold(0)\<close> throws on a destroyed touch controller.
  \<^item> \<^verbatim>\<open>on('toString', callback)\<close> throws on a destroyed player.
  \<^item> \<^verbatim>\<open>reset()\<close> on a destroyed fish clears its \<open>destroyed\<close> flag.
  \<^item> \<^verbatim>\<open>setState('playing')\<close> on a destroyed game changes its state from \<open>menu\<close> to
    \<open>playing\<close>.
\<close>

theorem destroyed_components_are_not_inert:
  "Game_start 0 40 quiet_host new_game = Inr started_game
   \<and> game_destroyed (Game_destroy rnd started_game)
   \<and> isRunning (Game_destroy rnd started_game)
   \<and> animationFrameId (Game_destroy rnd started_game)
   \<and> setGestureThreshold 0 (TouchController_destroy tc)
        = Inl (Error ''Gesture threshold must be positive'')
   \<and> Player_on ''toString'' callback (fst (Player_destroy rnd s)) = Inl TypeError
   \<and> fish_destroyed (Fish_destroy f)
   \<and> \<not> fish_destroyed (Fish_reset (Fish_destroy f))
   \<and> gameState (Game_destroy rnd new_game) = ''menu''
   \<and> gameState (Game_setState ''playing'' (Game_destroy rnd new_game)) = ''playing''"
  by (simp add: started_game_fields Game_destroy_fields setGestureThreshold_def Player_on_def
      objectPrototypeKeys_def Fish_destroy_def Fish_reset_def Game_setState_def
      Game_new_gameState [OF new_game_constructed])

end
